theory Spec2Isabelle
  imports Main "HOL-Library.Word"
begin

section \<open>Configuration documents\<close>

text \<open>
  The TiFlash configuration synthesis of \<^verbatim>\<open>pkg/manager/member/tiflash_util.go\<close>:
  \<^verbatim>\<open>GetTiFlashConfig\<close> with its two dialects (\<^verbatim>\<open>getTiFlashConfig\<close> for versions
  below v5.4.0, \<^verbatim>\<open>getTiFlashConfigV2\<close> from v5.4.0 on) and the log-tailer sidecar
  builder \<^verbatim>\<open>buildTiFlashSidecarContainers\<close>.

  The generic configuration wrapper, the \<^verbatim>\<open>TidbCluster\<close> type with its accessor
  methods, the package \<^verbatim>\<open>controller\<close> and the package \<^verbatim>\<open>cmpver\<close> lie outside the
  two source files. Their parts are either taken as parameters (record \<open>deps\<close>) or
  modelled from the specification, and marked so.
\<close>

text \<open>A float64 constant, kept as the decimal literal \<open>m * 10^e\<close> the source writes.\<close>

datatype float64 = Decimal int int

text \<open>
  Modelled from the spec: the values a configuration document holds (the wrapper type
  is not in the source files). The spec names string, integer, floating-point, boolean
  and ordered list of strings; the integers the source stores are all \<^verbatim>\<open>int64\<close>.
\<close>

datatype tval =
    VString string
  | VInt "64 word"
  | VFloat float64
  | VBool bool
  | VStrings "string list"

text \<open>
  Modelled from the spec: a configuration document is a mapping from a dotted key path
  to a typed value, with unique keys. \<open>Get\<close> is the non-mutating lookup (absent is
  \<open>None\<close>, Go's \<^verbatim>\<open>nil\<close>), \<open>Set_key\<close> the unconditional overwrite, \<open>SetIfNil\<close> writes
  only when the lookup is absent, \<open>Del\<close> removes a key and is silent on a missing one.
  The Go methods mutate the document behind a pointer; here each returns the new document.
\<close>

type_synonym GenericConfig = "string \<Rightarrow> tval option"

definition Get :: "GenericConfig \<Rightarrow> string \<Rightarrow> tval option" where
  "Get c key = c key"

definition Set_key :: "string \<Rightarrow> tval \<Rightarrow> GenericConfig \<Rightarrow> GenericConfig" where
  "Set_key key v c = c(key \<mapsto> v)"

definition SetIfNil :: "string \<Rightarrow> tval \<Rightarrow> GenericConfig \<Rightarrow> GenericConfig" where
  "SetIfNil key v c = (if Get c key = None then Set_key key v c else c)"

definition Del :: "string \<Rightarrow> GenericConfig \<Rightarrow> GenericConfig" where
  "Del key c = c(key := None)"

text \<open>
  Modelled from the spec: the cause of the one error of the component, a string read
  (\<^verbatim>\<open>AsString\<close>) of a value that is not a string. A read through a nil value pointer
  would be a Go panic; it is kept as a separate error so that the model stays total.
  The failure to parse a version string is the error of the version check.
\<close>

datatype error = TypeMismatch | NilPointer | VersionParseFailure

definition AsString :: "tval option \<Rightarrow> error + string" where
  "AsString v = (case v of
       None \<Rightarrow> Inl NilPointer
     | Some (VString s) \<Rightarrow> Inr s
     | Some _ \<Rightarrow> Inl TypeMismatch)"

text \<open>
  The engine document (\<open>Common\<close>) and the proxy document (\<open>Proxy\<close>) of one node; each
  pointer may be nil.
\<close>

record TiFlashConfigWraper =
  Common :: "GenericConfig option"
  Proxy :: "GenericConfig option"

definition NewTiFlashCommonConfig :: GenericConfig where
  "NewTiFlashCommonConfig = Map.empty"

definition NewTiFlashProxyConfig :: GenericConfig where
  "NewTiFlashProxyConfig = Map.empty"

text \<open>
  Modelled from the spec: a missing section is default-constructed; the constructor
  itself is not in the source files.
\<close>

definition NewTiFlashConfig :: TiFlashConfigWraper where
  "NewTiFlashConfig =
     \<lparr>Common = Some NewTiFlashCommonConfig, Proxy = Some NewTiFlashProxyConfig\<rparr>"

text \<open>An in-place update of the document a non-nil pointer leads to.\<close>

definition onCommon :: "(GenericConfig \<Rightarrow> GenericConfig) \<Rightarrow> TiFlashConfigWraper \<Rightarrow> TiFlashConfigWraper" where
  "onCommon f config = config\<lparr>Common := map_option f (Common config)\<rparr>"

definition onProxy :: "(GenericConfig \<Rightarrow> GenericConfig) \<Rightarrow> TiFlashConfigWraper \<Rightarrow> TiFlashConfigWraper" where
  "onProxy f config = config\<lparr>Proxy := map_option f (Proxy config)\<rparr>"

section \<open>The cluster object\<close>

record TidbClusterRef =
  Namespace :: string
  Name :: string
  ClusterDomain :: string

record ResourceRequirements =
  Limits :: "(string \<times> string) list"
  Requests :: "(string \<times> string) list"

record StorageClaim =
  StorageClassName :: "string option"

record LogTailerSpec =
  LogTailerResources :: ResourceRequirements

record TiFlashSpec =
  Config :: "TiFlashConfigWraper option"
  StorageClaims :: "StorageClaim list"
  LogTailer :: "LogTailerSpec option"

record TidbClusterSpec =
  TiFlash :: TiFlashSpec
  SpecClusterDomain :: string
  Cluster :: "TidbClusterRef option"
  PreferIPv6 :: bool

text \<open>
  The cluster object, with the fields the synthesis reads. The accessor methods of
  \<^verbatim>\<open>TidbCluster\<close> are not in the source files: the results of
  \<^verbatim>\<open>TiFlashVersion\<close>, \<^verbatim>\<open>IsTLSClusterEnabled\<close>, \<^verbatim>\<open>WithoutLocalPD\<close>, \<^verbatim>\<open>WithoutLocalTiDB\<close>,
  \<^verbatim>\<open>AcrossK8s\<close>, \<^verbatim>\<open>HelperImage\<close> and \<^verbatim>\<open>HelperImagePullPolicy\<close> are input facts of the
  spec's cluster topology and stand here as fields, and so does the heterogeneous flag
  of the topology, \<open>HeterogeneousFlag\<close>. The functions below are those of the TiFlash
  member, so the TiFlash section of the spec is present.
\<close>

record TidbCluster =
  TcName :: string
  TcNamespace :: string
  Spec :: TidbClusterSpec
  TiFlashVersion :: string
  IsTLSClusterEnabled :: bool
  HeterogeneousFlag :: bool
  WithoutLocalPD :: bool
  WithoutLocalTiDB :: bool
  AcrossK8s :: bool
  HelperImage :: string
  HelperImagePullPolicy :: string

text \<open>
  Modelled from the spec: the method \<^verbatim>\<open>Heterogeneous\<close> is not in the source files. The
  spec lists heterogeneous as an input flag of its own beside the optional reference
  descriptor, and calls heterogeneous a cluster that borrows components from a
  separately declared reference cluster. So the method answers the flag for a cluster
  that declares its reference cluster, and false for one that declares none: a cluster
  may declare a reference cluster without being heterogeneous, and where the method
  answers true the descriptor is there to be read.
\<close>

definition Heterogeneous :: "TidbCluster \<Rightarrow> bool" where
  "Heterogeneous tc = (HeterogeneousFlag tc \<and> Cluster (Spec tc) \<noteq> None)"

text \<open>
  What the synthesis takes from outside the two source files: the member-name helpers
  of package \<^verbatim>\<open>controller\<close>, the package constant \<^verbatim>\<open>tiflashCertPath\<close>, Go's
  \<^verbatim>\<open>path.Join\<close> and \<^verbatim>\<open>controller.ContainerResource\<close>. Every theorem holds for all of
  them.
\<close>

record deps =
  TiDBMemberName :: "string \<Rightarrow> string"
  TiDBPeerMemberName :: "string \<Rightarrow> string"
  PDMemberName :: "string \<Rightarrow> string"
  TiFlashMemberName :: "string \<Rightarrow> string"
  TiFlashPeerMemberName :: "string \<Rightarrow> string"
  FormatClusterDomain :: "string \<Rightarrow> string"
  tiflashCertPath :: string
  path_Join :: "string \<Rightarrow> string \<Rightarrow> string"
  ContainerResource :: "ResourceRequirements \<Rightarrow> ResourceRequirements"

text \<open>Key names of the Kubernetes core API (\<^verbatim>\<open>k8s.io/api/core/v1\<close>).\<close>

definition ServiceAccountRootCAKey :: string where
  "ServiceAccountRootCAKey = ''ca.crt''"

definition TLSCertKey :: string where
  "TLSCertKey = ''tls.crt''"

definition TLSPrivateKeyKey :: string where
  "TLSPrivateKeyKey = ''tls.key''"

section \<open>Constants and string helpers\<close>

definition defaultClusterLog :: string where
  "defaultClusterLog = ''/data0/logs/flash_cluster_manager.log''"

definition defaultErrorLog :: string where
  "defaultErrorLog = ''/data0/logs/error.log''"

definition defaultServerLog :: string where
  "defaultServerLog = ''/data0/logs/server.log''"

definition listenHostForIPv4 :: string where
  "listenHostForIPv4 = ''0.0.0.0''"

definition listenHostForIPv6 :: string where
  "listenHostForIPv6 = ''[::]''"

text \<open>The decimal rendering of \<^verbatim>\<open>%d\<close> for a loop index.\<close>

fun itoa :: "nat \<Rightarrow> string" where
  "itoa n = (if n < 10 then [''0123456789'' ! n]
             else itoa (n div 10) @ [''0123456789'' ! (n mod 10)])"

declare itoa.simps [simp del]

text \<open>
  The loop \<^verbatim>\<open>for i := range StorageClaims { paths = append(paths, "/data%d/db") }\<close>:
  \<open>i\<close> is the index reached, the list is what remains of the claims.
\<close>

fun storagePaths :: "nat \<Rightarrow> StorageClaim list \<Rightarrow> string list" where
  "storagePaths i [] = []"
| "storagePaths i (c # cs) = (''/data'' @ itoa i @ ''/db'') # storagePaths (Suc i) cs"

text \<open>Go's \<^verbatim>\<open>strings.Join\<close>.\<close>

fun strings_Join :: "string list \<Rightarrow> string \<Rightarrow> string" where
  "strings_Join [] sep = []"
| "strings_Join [x] sep = x"
| "strings_Join (x # y # ys) sep = x @ sep @ strings_Join (y # ys) sep"

text \<open>Go's \<^verbatim>\<open>strings.Split\<close> on a one-character separator: the empty string gives one empty field.\<close>

fun strings_Split :: "string \<Rightarrow> char \<Rightarrow> string list" where
  "strings_Split [] sep = [[]]"
| "strings_Split (c # cs) sep =
     (if c = sep then [] # strings_Split cs sep
      else (case strings_Split cs sep of
              [] \<Rightarrow> [[c]]
            | f # fs \<Rightarrow> (c # f) # fs))"

text \<open>Go's \<^verbatim>\<open>strings.Cut\<close> on a one-character separator.\<close>

definition strings_Cut :: "string \<Rightarrow> char \<Rightarrow> string \<times> string option" where
  "strings_Cut s sep =
     (takeWhile (\<lambda>c. c \<noteq> sep) s,
      case dropWhile (\<lambda>c. c \<noteq> sep) s of [] \<Rightarrow> None | c # after \<Rightarrow> Some after)"

section \<open>The legacy dialect\<close>

text \<open>
  Modelled from the spec: \<open>DeepCopy\<close> gives an independent document. Values have no
  identity here, so the copy is the value; the store model further down gives the copy
  its own address.
\<close>

definition DeepCopy :: "'a \<Rightarrow> 'a" where
  "DeepCopy x = x"

text \<open>A lookup through a document pointer (nil holds no key).\<close>

definition GetAt :: "GenericConfig option \<Rightarrow> string \<Rightarrow> tval option" where
  "GetAt p key = (case p of None \<Rightarrow> None | Some c \<Rightarrow> Get c key)"

definition setTiFlashProxyConfigDefault ::
  "deps \<Rightarrow> GenericConfig \<Rightarrow> string \<Rightarrow> string \<Rightarrow> string \<Rightarrow> string \<Rightarrow> GenericConfig" where
  "setTiFlashProxyConfigDefault d config clusterName ns clusterDomain listenHost =
     (let config = SetIfNil ''log-level'' (VString ''info'') config;
          config = SetIfNil ''server.engine-addr''
            (VString (TiFlashMemberName d clusterName @ ''-POD_NUM.'' @ TiFlashPeerMemberName d clusterName
               @ ''.'' @ ns @ ''.svc'' @ FormatClusterDomain d clusterDomain @ '':3930'')) config;
          config = SetIfNil ''server.status-addr'' (VString (listenHost @ '':20292'')) config;
          config = SetIfNil ''server.advertise-status-addr''
            (VString (TiFlashMemberName d clusterName @ ''-POD_NUM.'' @ TiFlashPeerMemberName d clusterName
               @ ''.'' @ ns @ ''.svc'' @ FormatClusterDomain d clusterDomain @ '':20292'')) config
      in config)"

definition setTiFlashFlashConfigDefault ::
  "deps \<Rightarrow> GenericConfig \<Rightarrow> TidbClusterRef option \<Rightarrow> string \<Rightarrow> string \<Rightarrow> string \<Rightarrow> string
     \<Rightarrow> bool \<Rightarrow> bool \<Rightarrow> GenericConfig" where
  "setTiFlashFlashConfigDefault d config ref clusterName ns clusterDomain listenHost noLocalTiDB acrossK8s =
     (let tidbStatusAddr = TiDBMemberName d clusterName @ ''.'' @ ns @ ''.svc:10080'';
          tidbStatusAddr =
            (if noLocalTiDB then
               (case ref of
                  Some r \<Rightarrow>
                    (if acrossK8s then
                       TiDBPeerMemberName d (Name r) @ ''.'' @ Namespace r @ ''.svc''
                         @ FormatClusterDomain d (ClusterDomain r) @ '':10080''
                     else
                       TiDBMemberName d (Name r) @ ''.'' @ Namespace r @ ''.svc''
                         @ FormatClusterDomain d (ClusterDomain r) @ '':10080'')
                | None \<Rightarrow> tidbStatusAddr)
             else tidbStatusAddr);
          config = SetIfNil ''flash.tidb_status_addr'' (VString tidbStatusAddr) config;
          config = SetIfNil ''flash.service_addr'' (VString (listenHost @ '':3930'')) config;
          config = SetIfNil ''flash.overlap_threshold'' (VFloat (Decimal 6 (- 1))) config;
          config = SetIfNil ''flash.compact_log_min_period'' (VInt 200) config;
          config = SetIfNil ''flash.flash_cluster.cluster_manager_path''
            (VString ''/tiflash/flash_cluster_manager'') config;
          config = SetIfNil ''flash.flash_cluster.log'' (VString defaultClusterLog) config;
          config = SetIfNil ''flash.flash_cluster.refresh_interval'' (VInt 20) config;
          config = SetIfNil ''flash.flash_cluster.update_rule_interval'' (VInt 10) config;
          config = SetIfNil ''flash.flash_cluster.master_ttl'' (VInt 60) config;
          config = SetIfNil ''flash.proxy.addr'' (VString (listenHost @ '':20170'')) config;
          config = SetIfNil ''flash.proxy.advertise-addr''
            (VString (TiFlashMemberName d clusterName @ ''-POD_NUM.'' @ TiFlashPeerMemberName d clusterName
               @ ''.'' @ ns @ ''.svc'' @ FormatClusterDomain d clusterDomain @ '':20170'')) config;
          config = SetIfNil ''flash.proxy.data-dir'' (VString ''/data0/proxy'') config;
          config = SetIfNil ''flash.proxy.config'' (VString ''/data0/proxy.toml'') config
      in config)"

definition setTiFlashLoggerConfigDefault :: "GenericConfig \<Rightarrow> GenericConfig" where
  "setTiFlashLoggerConfigDefault config =
     (let config = SetIfNil ''logger.errorlog'' (VString defaultErrorLog) config;
          config = SetIfNil ''logger.size'' (VString ''100M'') config;
          config = SetIfNil ''logger.log'' (VString defaultServerLog) config;
          config = SetIfNil ''logger.level'' (VString ''information'') config;
          config = SetIfNil ''logger.count'' (VInt 10) config
      in config)"

definition setTiFlashApplicationConfigDefault :: "GenericConfig \<Rightarrow> GenericConfig" where
  "setTiFlashApplicationConfigDefault config =
     SetIfNil ''application.runAsDaemon'' (VBool True) config"

definition setTiFlashRaftConfigDefault ::
  "deps \<Rightarrow> GenericConfig \<Rightarrow> TidbClusterRef option \<Rightarrow> string \<Rightarrow> string \<Rightarrow> string
     \<Rightarrow> bool \<Rightarrow> bool \<Rightarrow> GenericConfig" where
  "setTiFlashRaftConfigDefault d config ref clusterName ns clusterDomain noLocalPD acrossK8s =
     (let config = SetIfNil ''raft.kvstore_path'' (VString ''/data0/kvstore'') config;
          config = SetIfNil ''raft.storage_engine'' (VString ''dt'') config
      in if acrossK8s then
           SetIfNil ''raft.pd_addr'' (VString ''PD_ADDR'') config
         else (case ref of
             Some r \<Rightarrow>
               (if noLocalPD then
                  SetIfNil ''raft.pd_addr''
                    (VString (PDMemberName d (Name r) @ ''.'' @ Namespace r @ ''.svc''
                       @ FormatClusterDomain d (ClusterDomain r) @ '':2379'')) config
                else
                  SetIfNil ''raft.pd_addr''
                    (VString (PDMemberName d clusterName @ ''.'' @ ns @ ''.svc:2379'')) config)
           | None \<Rightarrow>
               SetIfNil ''raft.pd_addr''
                 (VString (PDMemberName d clusterName @ ''.'' @ ns @ ''.svc:2379'')) config))"

definition setTiFlashCommonConfigDefault ::
  "deps \<Rightarrow> GenericConfig \<Rightarrow> TidbClusterRef option \<Rightarrow> string \<Rightarrow> string \<Rightarrow> string \<Rightarrow> string
     \<Rightarrow> bool \<Rightarrow> bool \<Rightarrow> bool \<Rightarrow> GenericConfig" where
  "setTiFlashCommonConfigDefault d config ref clusterName ns clusterDomain listenHost
       noLocalPD noLocalTiDB acrossK8s =
     (let config = SetIfNil ''tmp_path'' (VString ''/data0/tmp'') config;
          config = SetIfNil ''display_name'' (VString ''TiFlash'') config;
          config = SetIfNil ''default_profile'' (VString ''default'') config;
          config = SetIfNil ''path'' (VString ''/data0/db'') config;
          config = SetIfNil ''path_realtime_mode'' (VBool False) config;
          config = SetIfNil ''mark_cache_size'' (VInt 5368709120) config;
          config = SetIfNil ''minmax_index_cache_size'' (VInt 5368709120) config;
          config = SetIfNil ''tcp_port'' (VInt 9000) config;
          config = SetIfNil ''tcp_port_secure'' (VInt 9000) config;
          config = SetIfNil ''https_port'' (VInt 8123) config;
          config = SetIfNil ''http_port'' (VInt 8123) config;
          config = SetIfNil ''interserver_http_port'' (VInt 9009) config;
          config = setTiFlashFlashConfigDefault d config ref clusterName ns clusterDomain listenHost
                     noLocalTiDB acrossK8s;
          config = setTiFlashLoggerConfigDefault config;
          config = setTiFlashApplicationConfigDefault config;
          config = setTiFlashRaftConfigDefault d config ref clusterName ns clusterDomain noLocalPD acrossK8s;
          config = (if listenHost = listenHostForIPv6 then SetIfNil ''listen_host'' (VString ''::'') config
                    else SetIfNil ''listen_host'' (VString listenHost) config);
          config = SetIfNil ''status.metrics_port'' (VInt 8234) config;
          config = SetIfNil ''quotas.default.interval.duration'' (VInt 3600) config;
          config = SetIfNil ''quotas.default.interval.queries'' (VInt 0) config;
          config = SetIfNil ''quotas.default.interval.errors'' (VInt 0) config;
          config = SetIfNil ''quotas.default.interval.result_rows'' (VInt 0) config;
          config = SetIfNil ''quotas.default.interval.read_rows'' (VInt 0) config;
          config = SetIfNil ''quotas.default.interval.execution_time'' (VInt 0) config;
          config = SetIfNil ''users.readonly.profile'' (VString ''readonly'') config;
          config = SetIfNil ''users.readonly.quota'' (VString ''default'') config;
          config = SetIfNil ''users.readonly.networks.ip'' (VString ''::/0'') config;
          config = SetIfNil ''users.readonly.password'' (VString []) config;
          config = SetIfNil ''users.default.profile'' (VString ''default'') config;
          config = SetIfNil ''users.default.quota'' (VString ''default'') config;
          config = SetIfNil ''users.default.networks.ip'' (VString ''::/0'') config;
          config = SetIfNil ''users.default.password'' (VString []) config;
          config = SetIfNil ''profiles.readonly.readonly'' (VInt 1) config;
          config = SetIfNil ''profiles.default.max_memory_usage'' (VInt 10000000000) config;
          config = SetIfNil ''profiles.default.load_balancing'' (VString ''random'') config;
          config = SetIfNil ''profiles.default.use_uncompressed_cache'' (VInt 0) config
      in config)"

text \<open>\<^verbatim>\<open>setTiFlashConfigDefault\<close> sets default configs for TiFlash.\<close>

definition setTiFlashConfigDefault ::
  "deps \<Rightarrow> TiFlashConfigWraper \<Rightarrow> TidbClusterRef option \<Rightarrow> string \<Rightarrow> string \<Rightarrow> string \<Rightarrow> string
     \<Rightarrow> bool \<Rightarrow> bool \<Rightarrow> bool \<Rightarrow> TiFlashConfigWraper" where
  "setTiFlashConfigDefault d config ref clusterName ns clusterDomain listenHost
       noLocalPD noLocalTiDB acrossK8s =
     (let config = (if Common config = None then config\<lparr>Common := Some NewTiFlashCommonConfig\<rparr>
                    else config);
          config = onCommon (\<lambda>c. setTiFlashCommonConfigDefault d c ref clusterName ns clusterDomain
                     listenHost noLocalPD noLocalTiDB acrossK8s) config;
          config = (if Proxy config = None then config\<lparr>Proxy := Some NewTiFlashProxyConfig\<rparr>
                    else config);
          config = onProxy (\<lambda>p. setTiFlashProxyConfigDefault d p clusterName ns clusterDomain listenHost)
                     config
      in config)"

definition setTiFlashLogConfigDefault :: "TiFlashConfigWraper \<Rightarrow> TiFlashConfigWraper" where
  "setTiFlashLogConfigDefault config =
     (let config = (if Common config = None then config\<lparr>Common := Some NewTiFlashCommonConfig\<rparr>
                    else config);
          config = onCommon (SetIfNil ''flash.flash_cluster.log'' (VString defaultClusterLog)) config;
          config = onCommon (SetIfNil ''logger.errorlog'' (VString defaultErrorLog)) config;
          config = onCommon (SetIfNil ''logger.log'' (VString defaultServerLog)) config
      in config)"

definition getTiFlashConfig :: "deps \<Rightarrow> TidbCluster \<Rightarrow> TiFlashConfigWraper" where
  "getTiFlashConfig d tc =
     (let config = (case DeepCopy (Config (TiFlash (Spec tc))) of
                      None \<Rightarrow> NewTiFlashConfig
                    | Some c \<Rightarrow> c);
          config = (if Common config = None then config\<lparr>Common := Some NewTiFlashCommonConfig\<rparr>
                    else config);
          config =
            (if GetAt (Common config) ''path'' = None then
               (let paths = storagePaths 0 (StorageClaims (TiFlash (Spec tc)))
                in if length paths > 0 then
                     onCommon (Set_key ''path'' (VString (strings_Join paths '',''))) config
                   else config)
             else config);
          ref = DeepCopy (Cluster (Spec tc));
          noLocalPD = WithoutLocalPD tc;
          acrossK8s = AcrossK8s tc;
          noLocalTiDB = WithoutLocalTiDB tc;
          listenHost = (if PreferIPv6 (Spec tc) then listenHostForIPv6 else listenHostForIPv4);
          config = setTiFlashConfigDefault d config ref (TcName tc) (TcNamespace tc)
                     (SpecClusterDomain (Spec tc)) listenHost noLocalPD noLocalTiDB acrossK8s
      in if IsTLSClusterEnabled tc then
           (let config = onProxy (Set_key ''security.ca-path''
                           (VString (path_Join d (tiflashCertPath d) ServiceAccountRootCAKey))) config;
                config = onProxy (Set_key ''security.cert-path''
                           (VString (path_Join d (tiflashCertPath d) TLSCertKey))) config;
                config = onProxy (Set_key ''security.key-path''
                           (VString (path_Join d (tiflashCertPath d) TLSPrivateKeyKey))) config;
                config = onCommon (Set_key ''security.ca_path''
                           (VString (path_Join d (tiflashCertPath d) ServiceAccountRootCAKey))) config;
                config = onCommon (Set_key ''security.cert_path''
                           (VString (path_Join d (tiflashCertPath d) TLSCertKey))) config;
                config = onCommon (Set_key ''security.key_path''
                           (VString (path_Join d (tiflashCertPath d) TLSPrivateKeyKey))) config;
                common = GetAt (Common config) ''security.cert_allowed_cn'';
                proxy = GetAt (Proxy config) ''security.cert-allowed-cn'';
                config = (case common of
                            Some v \<Rightarrow>
                              (if proxy = None then onProxy (Set_key ''security.cert-allowed-cn'' v) config
                               else config)
                          | None \<Rightarrow> config);
                config = onCommon (Del ''http_port'') config;
                config = onCommon (Del ''tcp_port'') config
            in config)
         else
           (let config = onCommon (Del ''https_port'') config;
                config = onCommon (Del ''tcp_port_secure'') config
            in config))"

section \<open>The current dialect\<close>

text \<open>
  \<open>common\<close> and \<open>proxy\<close> are the two document pointers of the copied wrapper (each made
  when nil); every write of the function goes through them, and the wrapper returned
  holds both. The reference descriptor \<open>ref\<close> is read only where \<^verbatim>\<open>Heterogeneous\<close> has
  answered true, and there it is not nil, so the nil case of the two reads is never
  taken.
\<close>

definition getTiFlashConfigV2 :: "deps \<Rightarrow> TidbCluster \<Rightarrow> TiFlashConfigWraper" where
  "getTiFlashConfigV2 d tc =
     (let config = (case DeepCopy (Config (TiFlash (Spec tc))) of
                      None \<Rightarrow> NewTiFlashConfig
                    | Some c \<Rightarrow> c);
          common = (case Common config of None \<Rightarrow> NewTiFlashCommonConfig | Some c \<Rightarrow> c);
          proxy = (case Proxy config of None \<Rightarrow> NewTiFlashProxyConfig | Some p \<Rightarrow> p);
          name = TcName tc;
          ns = TcNamespace tc;
          clusterDomain = SpecClusterDomain (Spec tc);
          ref = DeepCopy (Cluster (Spec tc));
          listenHost = (if PreferIPv6 (Spec tc) then listenHostForIPv6 else listenHostForIPv4);
          common =
            (if Get common ''path'' = None \<and> Get common ''storage.main.dir'' = None then
               (let paths = storagePaths 0 (StorageClaims (TiFlash (Spec tc)));
                    paths = (if length paths = 0 then [''/data0/db''] else paths)
                in Set_key ''storage.main.dir'' (VStrings paths) common)
             else common);
          common =
            (if Get common ''raft.kvstore_path'' = None then
               SetIfNil ''storage.raft.dir'' (VStrings [''/data0/kvstore'']) common
             else common);
          common = SetIfNil ''tmp_path'' (VString ''/data0/tmp'') common;
          common = SetIfNil ''tcp_port'' (VInt 9000) common;
          common = SetIfNil ''http_port'' (VInt 8123) common;
          tidbStatusAddr = TiDBMemberName d name @ ''.'' @ ns @ ''.svc:10080'';
          tidbStatusAddr =
            (if WithoutLocalTiDB tc then
               (if Heterogeneous tc then
                  (case ref of
                     Some r \<Rightarrow>
                       (if AcrossK8s tc then
                          TiDBPeerMemberName d (Name r) @ ''.'' @ Namespace r @ ''.svc''
                            @ FormatClusterDomain d (ClusterDomain r) @ '':10080''
                        else
                          TiDBMemberName d (Name r) @ ''.'' @ Namespace r @ ''.svc''
                            @ FormatClusterDomain d (ClusterDomain r) @ '':10080'')
                   | None \<Rightarrow> tidbStatusAddr)
                else tidbStatusAddr)
             else tidbStatusAddr);
          common = SetIfNil ''flash.tidb_status_addr'' (VString tidbStatusAddr) common;
          common = SetIfNil ''flash.service_addr'' (VString (listenHost @ '':3930'')) common;
          common = SetIfNil ''flash.flash_cluster.log'' (VString defaultClusterLog) common;
          common = SetIfNil ''flash.proxy.addr'' (VString (listenHost @ '':20170'')) common;
          common = SetIfNil ''flash.proxy.advertise-addr''
            (VString (TiFlashMemberName d name @ ''-POD_NUM.'' @ TiFlashPeerMemberName d name
               @ ''.'' @ ns @ ''.svc'' @ FormatClusterDomain d clusterDomain @ '':20170'')) common;
          common = SetIfNil ''flash.proxy.data-dir'' (VString ''/data0/proxy'') common;
          common = SetIfNil ''flash.proxy.config'' (VString ''/data0/proxy.toml'') common;
          common = SetIfNil ''logger.errorlog'' (VString defaultErrorLog) common;
          common = SetIfNil ''logger.log'' (VString defaultServerLog) common;
          pdAddr = PDMemberName d name @ ''.'' @ ns @ ''.svc:2379'';
          pdAddr =
            (if AcrossK8s tc then ''PD_ADDR''
             else if Heterogeneous tc \<and> WithoutLocalPD tc then
               (case ref of
                  Some r \<Rightarrow> PDMemberName d (Name r) @ ''.'' @ Namespace r @ ''.svc''
                              @ FormatClusterDomain d (ClusterDomain r) @ '':2379''
                | None \<Rightarrow> pdAddr)
             else pdAddr);
          common = SetIfNil ''raft.pd_addr'' (VString pdAddr) common;
          common =
            (if listenHost = listenHostForIPv6 then
               (let common = SetIfNil ''listen_host'' (VString ''::'') common;
                    common = SetIfNil ''status.metrics_port'' (VInt 8234) common
                in common)
             else common);
          proxy = SetIfNil ''log-level'' (VString ''info'') proxy;
          proxy = SetIfNil ''server.engine-addr''
            (VString (TiFlashMemberName d name @ ''-POD_NUM.'' @ TiFlashPeerMemberName d name
               @ ''.'' @ ns @ ''.svc'' @ FormatClusterDomain d clusterDomain @ '':3930'')) proxy;
          proxy = SetIfNil ''server.status-addr'' (VString (listenHost @ '':20292'')) proxy;
          proxy = SetIfNil ''server.advertise-status-addr''
            (VString (TiFlashMemberName d name @ ''-POD_NUM.'' @ TiFlashPeerMemberName d name
               @ ''.'' @ ns @ ''.svc'' @ FormatClusterDomain d clusterDomain @ '':20292'')) proxy
      in if IsTLSClusterEnabled tc then
           (let common = Set_key ''security.ca_path''
                           (VString (path_Join d (tiflashCertPath d) ServiceAccountRootCAKey)) common;
                common = Set_key ''security.cert_path''
                           (VString (path_Join d (tiflashCertPath d) TLSCertKey)) common;
                common = Set_key ''security.key_path''
                           (VString (path_Join d (tiflashCertPath d) TLSPrivateKeyKey)) common;
                common = SetIfNil ''tcp_port_secure'' (VInt 9000) common;
                common = SetIfNil ''https_port'' (VInt 8123) common;
                common = Del ''http_port'' common;
                common = Del ''tcp_port'' common;
                proxy = Set_key ''security.ca-path''
                          (VString (path_Join d (tiflashCertPath d) ServiceAccountRootCAKey)) proxy;
                proxy = Set_key ''security.cert-path''
                          (VString (path_Join d (tiflashCertPath d) TLSCertKey)) proxy;
                proxy = Set_key ''security.key-path''
                          (VString (path_Join d (tiflashCertPath d) TLSPrivateKeyKey)) proxy;
                commonVal = Get common ''security.cert_allowed_cn'';
                proxyVal = Get proxy ''security.cert-allowed-cn'';
                proxy = (case commonVal of
                           Some v \<Rightarrow>
                             (if proxyVal = None then Set_key ''security.cert-allowed-cn'' v proxy
                              else proxy)
                         | None \<Rightarrow> proxy)
            in \<lparr>Common = Some common, Proxy = Some proxy\<rparr>)
         else \<lparr>Common = Some common, Proxy = Some proxy\<rparr>)"

section \<open>The version selector\<close>

text \<open>
  Modelled from the spec: package \<^verbatim>\<open>cmpver\<close> is not in the source files. The selector
  parses the version string as a semantic version and compares it with the threshold
  5.4.0; a string that does not parse is an error of the check. A semantic version is
  three numeric identifiers separated by dots, then optionally a hyphen and
  dot-separated pre-release identifiers, then optionally a plus sign and dot-separated
  build identifiers. The threshold constant \<^verbatim>\<open>"v5.4.0"\<close> of the source carries a leading
  \<^verbatim>\<open>v\<close>, so the parse allows one.
\<close>

definition digitVal :: "char \<Rightarrow> nat option" where
  "digitVal c =
     map_of [(CHR ''0'', 0), (CHR ''1'', 1), (CHR ''2'', 2), (CHR ''3'', 3), (CHR ''4'', 4),
             (CHR ''5'', 5), (CHR ''6'', 6), (CHR ''7'', 7), (CHR ''8'', 8), (CHR ''9'', 9)] c"

fun parseDigits :: "nat \<Rightarrow> string \<Rightarrow> nat option" where
  "parseDigits acc [] = Some acc"
| "parseDigits acc (c # cs) =
     (case digitVal c of None \<Rightarrow> None | Some v \<Rightarrow> parseDigits (10 * acc + v) cs)"

text \<open>A numeric identifier: decimal digits, with no leading zero unless it is \<^verbatim>\<open>0\<close>.\<close>

definition parseNumber :: "string \<Rightarrow> nat option" where
  "parseNumber s =
     (if s = [] then None
      else if hd s = CHR ''0'' \<and> 1 < length s then None
      else parseDigits 0 s)"

definition isDigit :: "char \<Rightarrow> bool" where
  "isDigit c = (digitVal c \<noteq> None)"

definition isLetter :: "char \<Rightarrow> bool" where
  "isLetter c = (c \<in> set ''abcdefghijklmnopqrstuvwxyzABCDEFGHIJKLMNOPQRSTUVWXYZ'')"

definition isIdentChar :: "char \<Rightarrow> bool" where
  "isIdentChar c = (isDigit c \<or> isLetter c \<or> c = CHR ''-'')"

text \<open>
  A pre-release identifier is a non-empty word of letters, digits and hyphens, without
  a leading zero when it is all digits; a build identifier is any such non-empty word.
\<close>

definition validPreId :: "string \<Rightarrow> bool" where
  "validPreId s =
     (s \<noteq> [] \<and> list_all isIdentChar s \<and>
      (if list_all isDigit s then (if hd s = CHR ''0'' then length s = 1 else True) else True))"

definition validBuildId :: "string \<Rightarrow> bool" where
  "validBuildId s = (s \<noteq> [] \<and> list_all isIdentChar s)"

record semver =
  Major :: nat
  Minor :: nat
  Patch :: nat
  Prerelease :: "string list"
  Metadata :: "string list"

definition NewVersion :: "string \<Rightarrow> semver option" where
  "NewVersion s =
     (let body = (case s of [] \<Rightarrow> [] | c # cs \<Rightarrow> if c = CHR ''v'' then cs else c # cs);
          (rest, build) = strings_Cut body CHR ''+'';
          (core, pre) = strings_Cut rest CHR ''-'';
          buildIds = (case build of None \<Rightarrow> [] | Some b \<Rightarrow> strings_Split b CHR ''.'');
          preIds = (case pre of None \<Rightarrow> [] | Some p \<Rightarrow> strings_Split p CHR ''.'')
      in if list_all validPreId preIds \<and> list_all validBuildId buildIds then
           (case map parseNumber (strings_Split core CHR ''.'') of
              [Some major, Some minor, Some patch] \<Rightarrow>
                Some \<lparr>Major = major, Minor = minor, Patch = patch,
                      Prerelease = preIds, Metadata = buildIds\<rparr>
            | _ \<Rightarrow> None)
         else None)"

text \<open>
  Precedence against a release \<open>a.b.c\<close>: by major, minor and patch number; with equal
  numbers a version with pre-release identifiers precedes the release. Build metadata
  does not count.
\<close>

fun versionGreaterOrEqual :: "semver \<Rightarrow> nat \<times> nat \<times> nat \<Rightarrow> bool" where
  "versionGreaterOrEqual v (a, b, c) =
     (Major v > a \<or> (Major v = a \<and> (Minor v > b \<or> (Minor v = b \<and>
        (Patch v > c \<or> (Patch v = c \<and> Prerelease v = []))))))"

text \<open>The check of the constraint \<^verbatim>\<open>tiflashEqualOrGreaterThanV540\<close> (greater or equal, "v5.4.0").\<close>

definition tiflashEqualOrGreaterThanV540_Check :: "string \<Rightarrow> error + bool" where
  "tiflashEqualOrGreaterThanV540_Check version =
     (case NewVersion version of
        None \<Rightarrow> Inl VersionParseFailure
      | Some v \<Rightarrow> Inr (versionGreaterOrEqual v (5, 4, 0)))"

definition GetTiFlashConfig :: "deps \<Rightarrow> TidbCluster \<Rightarrow> TiFlashConfigWraper" where
  "GetTiFlashConfig d tc =
     (let version = TiFlashVersion tc
      in case tiflashEqualOrGreaterThanV540_Check version of
           Inr ok \<Rightarrow> (if ok then getTiFlashConfigV2 d tc else getTiFlashConfig d tc)
         | Inl err \<Rightarrow> getTiFlashConfig d tc)"

section \<open>The log-tailer sidecars\<close>

record VolumeMount =
  MountName :: string
  MountPath :: string

record Container =
  ContainerName :: string
  Image :: string
  ImagePullPolicy :: string
  Resources :: ResourceRequirements
  VolumeMounts :: "VolumeMount list"
  Command :: "string list"

text \<open>\<^verbatim>\<open>os.PathSeparator\<close> on the platform of the operator.\<close>

definition PathSeparator :: char where
  "PathSeparator = CHR ''/''"

definition buildSidecarContainer ::
  "string \<Rightarrow> string \<Rightarrow> string \<Rightarrow> string \<Rightarrow> ResourceRequirements \<Rightarrow> Container" where
  "buildSidecarContainer name path img pullPolicy resource =
     (let splitPath = strings_Split path PathSeparator
      in if length splitPath \<ge> 3 then
           (let serverLogVolumeName = splitPath ! 1;
                serverLogMountDir = ''/'' @ serverLogVolumeName
            in \<lparr>ContainerName = name,
                Image = img,
                ImagePullPolicy = pullPolicy,
                Resources = resource,
                VolumeMounts = [\<lparr>MountName = serverLogVolumeName, MountPath = serverLogMountDir\<rparr>],
                Command = [''sh'', ''-c'', ''touch '' @ path @ ''; tail -n0 -F '' @ path @ '';'']\<rparr>)
         else
           \<lparr>ContainerName = name,
            Image = img,
            ImagePullPolicy = pullPolicy,
            Resources = resource,
            VolumeMounts = [],
            Command = [''sh'', ''-c'', ''touch '' @ path @ ''; tail -n0 -F '' @ path @ '';'']\<rparr>)"

text \<open>
  The three reads return early on an error; \<open>resource\<close> is the zero value unless a log
  tailer is declared.
\<close>

definition buildTiFlashSidecarContainers :: "deps \<Rightarrow> TidbCluster \<Rightarrow> error + Container list" where
  "buildTiFlashSidecarContainers d tc =
     (let spec = TiFlash (Spec tc);
          config = DeepCopy (Config spec);
          img = HelperImage tc;
          pullPolicy = HelperImagePullPolicy tc;
          containers = [];
          resource = (case LogTailer spec of
                        Some lt \<Rightarrow> ContainerResource d (LogTailerResources lt)
                      | None \<Rightarrow> \<lparr>Limits = [], Requests = []\<rparr>);
          config = (case config of None \<Rightarrow> NewTiFlashConfig | Some c \<Rightarrow> c);
          config = setTiFlashLogConfigDefault config
      in case AsString (GetAt (Common config) ''logger.log'') of
           Inl err \<Rightarrow> Inl err
         | Inr path \<Rightarrow>
             (let containers = containers @ [buildSidecarContainer ''serverlog'' path img pullPolicy resource]
              in case AsString (GetAt (Common config) ''logger.errorlog'') of
                   Inl err \<Rightarrow> Inl err
                 | Inr path \<Rightarrow>
                     (let containers = containers @
                            [buildSidecarContainer ''errorlog'' path img pullPolicy resource]
                      in case AsString (GetAt (Common config) ''flash.flash_cluster.log'') of
                           Inl err \<Rightarrow> Inl err
                         | Inr path \<Rightarrow>
                             Inr (containers @
                               [buildSidecarContainer ''clusterlog'' path img pullPolicy resource]))))"

section \<open>The synthesis on a store\<close>

text \<open>
  For the claim on aliasing the wrappers and documents are objects of a store, and the
  \<^verbatim>\<open>Config\<close> field of the cluster's TiFlash spec is a pointer into it. A wrapper object
  holds its two document pointers. Addresses are handed out in order, \<open>nextAddr\<close> being
  the first unused one. The functions below are the three entry points again, each
  method call on a document now a write at the address the pointer holds.
\<close>

type_synonym addr = nat

record ConfigObj =
  CommonPtr :: "addr option"
  ProxyPtr :: "addr option"

record store =
  wrapperAt :: "addr \<Rightarrow> ConfigObj option"
  docAt :: "addr \<Rightarrow> GenericConfig option"
  nextAddr :: addr

definition newDoc :: "GenericConfig \<Rightarrow> store \<Rightarrow> addr \<times> store" where
  "newDoc c s = (nextAddr s, s\<lparr>docAt := (docAt s)(nextAddr s \<mapsto> c), nextAddr := Suc (nextAddr s)\<rparr>)"

definition newWrapper :: "ConfigObj \<Rightarrow> store \<Rightarrow> addr \<times> store" where
  "newWrapper w s =
     (nextAddr s, s\<lparr>wrapperAt := (wrapperAt s)(nextAddr s \<mapsto> w), nextAddr := Suc (nextAddr s)\<rparr>)"

text \<open>
  Modelled from the spec: \<open>copy()\<close> produces an independent document, so the copy of a
  wrapper is a new wrapper object over new copies of its documents; the copy of nil is
  nil. (The generated deep-copy functions are not in the source files.)
\<close>

definition DeepCopyDoc :: "addr option \<Rightarrow> store \<Rightarrow> addr option \<times> store" where
  "DeepCopyDoc p s =
     (case p of
        None \<Rightarrow> (None, s)
      | Some a \<Rightarrow>
          (case docAt s a of
             None \<Rightarrow> (None, s)
           | Some c \<Rightarrow> (let (b, s) = newDoc c s in (Some b, s))))"

definition DeepCopyConfig :: "addr option \<Rightarrow> store \<Rightarrow> addr option \<times> store" where
  "DeepCopyConfig p s =
     (case p of
        None \<Rightarrow> (None, s)
      | Some a \<Rightarrow>
          (case wrapperAt s a of
             None \<Rightarrow> (None, s)
           | Some w \<Rightarrow>
               (let (c, s) = DeepCopyDoc (CommonPtr w) s;
                    (q, s) = DeepCopyDoc (ProxyPtr w) s;
                    (b, s) = newWrapper \<lparr>CommonPtr = c, ProxyPtr = q\<rparr> s
                in (Some b, s))))"

text \<open>Modelled from the spec: a default-constructed wrapper, with two new empty documents.\<close>

definition NewTiFlashConfigS :: "store \<Rightarrow> addr \<times> store" where
  "NewTiFlashConfigS s =
     (let (c, s) = newDoc NewTiFlashCommonConfig s;
          (q, s) = newDoc NewTiFlashProxyConfig s
      in newWrapper \<lparr>CommonPtr = Some c, ProxyPtr = Some q\<rparr> s)"

text \<open>The fields \<^verbatim>\<open>config.Common\<close> and \<^verbatim>\<open>config.Proxy\<close> of the wrapper at \<open>config\<close>.\<close>

definition commonPtrOf :: "store \<Rightarrow> addr \<Rightarrow> addr option" where
  "commonPtrOf s config = (case wrapperAt s config of None \<Rightarrow> None | Some w \<Rightarrow> CommonPtr w)"

definition proxyPtrOf :: "store \<Rightarrow> addr \<Rightarrow> addr option" where
  "proxyPtrOf s config = (case wrapperAt s config of None \<Rightarrow> None | Some w \<Rightarrow> ProxyPtr w)"

definition setCommonPtr :: "addr \<Rightarrow> addr option \<Rightarrow> store \<Rightarrow> store" where
  "setCommonPtr config p s =
     (case wrapperAt s config of
        None \<Rightarrow> s
      | Some w \<Rightarrow> s\<lparr>wrapperAt := (wrapperAt s)(config \<mapsto> w\<lparr>CommonPtr := p\<rparr>)\<rparr>)"

definition setProxyPtr :: "addr \<Rightarrow> addr option \<Rightarrow> store \<Rightarrow> store" where
  "setProxyPtr config p s =
     (case wrapperAt s config of
        None \<Rightarrow> s
      | Some w \<Rightarrow> s\<lparr>wrapperAt := (wrapperAt s)(config \<mapsto> w\<lparr>ProxyPtr := p\<rparr>)\<rparr>)"

text \<open>A read and a mutating method call through a document pointer.\<close>

definition GetS :: "store \<Rightarrow> addr option \<Rightarrow> string \<Rightarrow> tval option" where
  "GetS s p key =
     (case p of
        None \<Rightarrow> None
      | Some a \<Rightarrow> (case docAt s a of None \<Rightarrow> None | Some c \<Rightarrow> Get c key))"

definition mutate :: "addr option \<Rightarrow> (GenericConfig \<Rightarrow> GenericConfig) \<Rightarrow> store \<Rightarrow> store" where
  "mutate p f s =
     (case p of
        None \<Rightarrow> s
      | Some a \<Rightarrow> (case docAt s a of None \<Rightarrow> s | Some c \<Rightarrow> s\<lparr>docAt := (docAt s)(a \<mapsto> f c)\<rparr>))"

definition onCommonS :: "addr \<Rightarrow> (GenericConfig \<Rightarrow> GenericConfig) \<Rightarrow> store \<Rightarrow> store" where
  "onCommonS config f s = mutate (commonPtrOf s config) f s"

definition onProxyS :: "addr \<Rightarrow> (GenericConfig \<Rightarrow> GenericConfig) \<Rightarrow> store \<Rightarrow> store" where
  "onProxyS config f s = mutate (proxyPtrOf s config) f s"

definition ensureCommon :: "addr \<Rightarrow> store \<Rightarrow> store" where
  "ensureCommon config s =
     (if commonPtrOf s config = None then
        (let (a, s) = newDoc NewTiFlashCommonConfig s in setCommonPtr config (Some a) s)
      else s)"

definition ensureProxy :: "addr \<Rightarrow> store \<Rightarrow> store" where
  "ensureProxy config s =
     (if proxyPtrOf s config = None then
        (let (a, s) = newDoc NewTiFlashProxyConfig s in setProxyPtr config (Some a) s)
      else s)"

definition setTiFlashConfigDefaultS ::
  "deps \<Rightarrow> addr \<Rightarrow> TidbClusterRef option \<Rightarrow> string \<Rightarrow> string \<Rightarrow> string \<Rightarrow> string
     \<Rightarrow> bool \<Rightarrow> bool \<Rightarrow> bool \<Rightarrow> store \<Rightarrow> store" where
  "setTiFlashConfigDefaultS d config ref clusterName ns clusterDomain listenHost
       noLocalPD noLocalTiDB acrossK8s s =
     (let s = ensureCommon config s;
          s = onCommonS config (\<lambda>c. setTiFlashCommonConfigDefault d c ref clusterName ns clusterDomain
                listenHost noLocalPD noLocalTiDB acrossK8s) s;
          s = ensureProxy config s;
          s = onProxyS config (\<lambda>p. setTiFlashProxyConfigDefault d p clusterName ns clusterDomain listenHost) s
      in s)"

definition setTiFlashLogConfigDefaultS :: "addr \<Rightarrow> store \<Rightarrow> store" where
  "setTiFlashLogConfigDefaultS config s =
     (let s = ensureCommon config s;
          s = onCommonS config (SetIfNil ''flash.flash_cluster.log'' (VString defaultClusterLog)) s;
          s = onCommonS config (SetIfNil ''logger.errorlog'' (VString defaultErrorLog)) s;
          s = onCommonS config (SetIfNil ''logger.log'' (VString defaultServerLog)) s
      in s)"

text \<open>The copy of the caller's wrapper, default-constructed when the caller has none.\<close>

definition copyOrNew :: "addr option \<Rightarrow> store \<Rightarrow> addr \<times> store" where
  "copyOrNew cfgPtr s =
     (let (config, s) = DeepCopyConfig cfgPtr s
      in case config of None \<Rightarrow> NewTiFlashConfigS s | Some a \<Rightarrow> (a, s))"


definition getTiFlashConfigS :: "deps \<Rightarrow> TidbCluster \<Rightarrow> addr option \<Rightarrow> store \<Rightarrow> addr \<times> store" where
  "getTiFlashConfigS d tc cfgPtr s =
     (let (config, s) = copyOrNew cfgPtr s;
          s = ensureCommon config s;
          s =
            (if GetS s (commonPtrOf s config) ''path'' = None then
               (let paths = storagePaths 0 (StorageClaims (TiFlash (Spec tc)))
                in if length paths > 0 then
                     onCommonS config (Set_key ''path'' (VString (strings_Join paths '',''))) s
                   else s)
             else s);
          ref = DeepCopy (Cluster (Spec tc));
          noLocalPD = WithoutLocalPD tc;
          acrossK8s = AcrossK8s tc;
          noLocalTiDB = WithoutLocalTiDB tc;
          listenHost = (if PreferIPv6 (Spec tc) then listenHostForIPv6 else listenHostForIPv4);
          s = setTiFlashConfigDefaultS d config ref (TcName tc) (TcNamespace tc)
                (SpecClusterDomain (Spec tc)) listenHost noLocalPD noLocalTiDB acrossK8s s
      in if IsTLSClusterEnabled tc then
           (let s = onProxyS config (Set_key ''security.ca-path''
                      (VString (path_Join d (tiflashCertPath d) ServiceAccountRootCAKey))) s;
                s = onProxyS config (Set_key ''security.cert-path''
                      (VString (path_Join d (tiflashCertPath d) TLSCertKey))) s;
                s = onProxyS config (Set_key ''security.key-path''
                      (VString (path_Join d (tiflashCertPath d) TLSPrivateKeyKey))) s;
                s = onCommonS config (Set_key ''security.ca_path''
                      (VString (path_Join d (tiflashCertPath d) ServiceAccountRootCAKey))) s;
                s = onCommonS config (Set_key ''security.cert_path''
                      (VString (path_Join d (tiflashCertPath d) TLSCertKey))) s;
                s = onCommonS config (Set_key ''security.key_path''
                      (VString (path_Join d (tiflashCertPath d) TLSPrivateKeyKey))) s;
                common = GetS s (commonPtrOf s config) ''security.cert_allowed_cn'';
                proxy = GetS s (proxyPtrOf s config) ''security.cert-allowed-cn'';
                s = (case common of
                       Some v \<Rightarrow>
                         (if proxy = None then onProxyS config (Set_key ''security.cert-allowed-cn'' v) s
                          else s)
                     | None \<Rightarrow> s);
                s = onCommonS config (Del ''http_port'') s;
                s = onCommonS config (Del ''tcp_port'') s
            in (config, s))
         else
           (let s = onCommonS config (Del ''https_port'') s;
                s = onCommonS config (Del ''tcp_port_secure'') s
            in (config, s)))"

definition buildTiFlashSidecarContainersS ::
  "deps \<Rightarrow> TidbCluster \<Rightarrow> addr option \<Rightarrow> store \<Rightarrow> (error + Container list) \<times> store" where
  "buildTiFlashSidecarContainersS d tc cfgPtr s =
     (let spec = TiFlash (Spec tc);
          (config, s) = copyOrNew cfgPtr s;
          img = HelperImage tc;
          pullPolicy = HelperImagePullPolicy tc;
          containers = [];
          resource = (case LogTailer spec of
                        Some lt \<Rightarrow> ContainerResource d (LogTailerResources lt)
                      | None \<Rightarrow> \<lparr>Limits = [], Requests = []\<rparr>);
          s = setTiFlashLogConfigDefaultS config s
      in case AsString (GetS s (commonPtrOf s config) ''logger.log'') of
           Inl err \<Rightarrow> (Inl err, s)
         | Inr path \<Rightarrow>
             (let containers = containers @ [buildSidecarContainer ''serverlog'' path img pullPolicy resource]
              in case AsString (GetS s (commonPtrOf s config) ''logger.errorlog'') of
                   Inl err \<Rightarrow> (Inl err, s)
                 | Inr path \<Rightarrow>
                     (let containers = containers @
                            [buildSidecarContainer ''errorlog'' path img pullPolicy resource]
                      in case AsString (GetS s (commonPtrOf s config) ''flash.flash_cluster.log'') of
                           Inl err \<Rightarrow> (Inl err, s)
                         | Inr path \<Rightarrow>
                             (Inr (containers @
                                [buildSidecarContainer ''clusterlog'' path img pullPolicy resource]), s))))"

definition getTiFlashConfigV2S :: "deps \<Rightarrow> TidbCluster \<Rightarrow> addr option \<Rightarrow> store \<Rightarrow> addr \<times> store" where
  "getTiFlashConfigV2S d tc cfgPtr s =
     (let (config, s) = copyOrNew cfgPtr s;
          s = ensureCommon config s;
          s = ensureProxy config s;
          common = commonPtrOf s config;
          proxy = proxyPtrOf s config;
          name = TcName tc;
          ns = TcNamespace tc;
          clusterDomain = SpecClusterDomain (Spec tc);
          ref = DeepCopy (Cluster (Spec tc));
          listenHost = (if PreferIPv6 (Spec tc) then listenHostForIPv6 else listenHostForIPv4);
          s =
            (if GetS s common ''path'' = None \<and> GetS s common ''storage.main.dir'' = None then
               (let paths = storagePaths 0 (StorageClaims (TiFlash (Spec tc)));
                    paths = (if length paths = 0 then [''/data0/db''] else paths)
                in mutate common (Set_key ''storage.main.dir'' (VStrings paths)) s)
             else s);
          s =
            (if GetS s common ''raft.kvstore_path'' = None then
               mutate common (SetIfNil ''storage.raft.dir'' (VStrings [''/data0/kvstore''])) s
             else s);
          s = mutate common (SetIfNil ''tmp_path'' (VString ''/data0/tmp'')) s;
          s = mutate common (SetIfNil ''tcp_port'' (VInt 9000)) s;
          s = mutate common (SetIfNil ''http_port'' (VInt 8123)) s;
          tidbStatusAddr = TiDBMemberName d name @ ''.'' @ ns @ ''.svc:10080'';
          tidbStatusAddr =
            (if WithoutLocalTiDB tc then
               (if Heterogeneous tc then
                  (case ref of
                     Some r \<Rightarrow>
                       (if AcrossK8s tc then
                          TiDBPeerMemberName d (Name r) @ ''.'' @ Namespace r @ ''.svc''
                            @ FormatClusterDomain d (ClusterDomain r) @ '':10080''
                        else
                          TiDBMemberName d (Name r) @ ''.'' @ Namespace r @ ''.svc''
                            @ FormatClusterDomain d (ClusterDomain r) @ '':10080'')
                   | None \<Rightarrow> tidbStatusAddr)
                else tidbStatusAddr)
             else tidbStatusAddr);
          s = mutate common (SetIfNil ''flash.tidb_status_addr'' (VString tidbStatusAddr)) s;
          s = mutate common (SetIfNil ''flash.service_addr'' (VString (listenHost @ '':3930''))) s;
          s = mutate common (SetIfNil ''flash.flash_cluster.log'' (VString defaultClusterLog)) s;
          s = mutate common (SetIfNil ''flash.proxy.addr'' (VString (listenHost @ '':20170''))) s;
          s = mutate common (SetIfNil ''flash.proxy.advertise-addr''
            (VString (TiFlashMemberName d name @ ''-POD_NUM.'' @ TiFlashPeerMemberName d name
               @ ''.'' @ ns @ ''.svc'' @ FormatClusterDomain d clusterDomain @ '':20170''))) s;
          s = mutate common (SetIfNil ''flash.proxy.data-dir'' (VString ''/data0/proxy'')) s;
          s = mutate common (SetIfNil ''flash.proxy.config'' (VString ''/data0/proxy.toml'')) s;
          s = mutate common (SetIfNil ''logger.errorlog'' (VString defaultErrorLog)) s;
          s = mutate common (SetIfNil ''logger.log'' (VString defaultServerLog)) s;
          pdAddr = PDMemberName d name @ ''.'' @ ns @ ''.svc:2379'';
          pdAddr =
            (if AcrossK8s tc then ''PD_ADDR''
             else if Heterogeneous tc \<and> WithoutLocalPD tc then
               (case ref of
                  Some r \<Rightarrow> PDMemberName d (Name r) @ ''.'' @ Namespace r @ ''.svc''
                              @ FormatClusterDomain d (ClusterDomain r) @ '':2379''
                | None \<Rightarrow> pdAddr)
             else pdAddr);
          s = mutate common (SetIfNil ''raft.pd_addr'' (VString pdAddr)) s;
          s =
            (if listenHost = listenHostForIPv6 then
               (let s = mutate common (SetIfNil ''listen_host'' (VString ''::'')) s;
                    s = mutate common (SetIfNil ''status.metrics_port'' (VInt 8234)) s
                in s)
             else s);
          s = mutate proxy (SetIfNil ''log-level'' (VString ''info'')) s;
          s = mutate proxy (SetIfNil ''server.engine-addr''
            (VString (TiFlashMemberName d name @ ''-POD_NUM.'' @ TiFlashPeerMemberName d name
               @ ''.'' @ ns @ ''.svc'' @ FormatClusterDomain d clusterDomain @ '':3930''))) s;
          s = mutate proxy (SetIfNil ''server.status-addr'' (VString (listenHost @ '':20292''))) s;
          s = mutate proxy (SetIfNil ''server.advertise-status-addr''
            (VString (TiFlashMemberName d name @ ''-POD_NUM.'' @ TiFlashPeerMemberName d name
               @ ''.'' @ ns @ ''.svc'' @ FormatClusterDomain d clusterDomain @ '':20292''))) s
      in if IsTLSClusterEnabled tc then
           (let s = mutate common (Set_key ''security.ca_path''
                           (VString (path_Join d (tiflashCertPath d) ServiceAccountRootCAKey))) s;
                s = mutate common (Set_key ''security.cert_path''
                           (VString (path_Join d (tiflashCertPath d) TLSCertKey))) s;
                s = mutate common (Set_key ''security.key_path''
                           (VString (path_Join d (tiflashCertPath d) TLSPrivateKeyKey))) s;
                s = mutate common (SetIfNil ''tcp_port_secure'' (VInt 9000)) s;
                s = mutate common (SetIfNil ''https_port'' (VInt 8123)) s;
                s = mutate common (Del ''http_port'') s;
                s = mutate common (Del ''tcp_port'') s;
                s = mutate proxy (Set_key ''security.ca-path''
                          (VString (path_Join d (tiflashCertPath d) ServiceAccountRootCAKey))) s;
                s = mutate proxy (Set_key ''security.cert-path''
                          (VString (path_Join d (tiflashCertPath d) TLSCertKey))) s;
                s = mutate proxy (Set_key ''security.key-path''
                          (VString (path_Join d (tiflashCertPath d) TLSPrivateKeyKey))) s;
                commonVal = GetS s common ''security.cert_allowed_cn'';
                proxyVal = GetS s proxy ''security.cert-allowed-cn'';
                s = (case commonVal of
                       Some v \<Rightarrow>
                         (if proxyVal = None then mutate proxy (Set_key ''security.cert-allowed-cn'' v) s
                          else s)
                     | None \<Rightarrow> s)
            in (config, s))
         else (config, s))"

section \<open>Auxiliary notions for the proofs\<close>

fun applyDefaults :: "(string \<times> tval) list \<Rightarrow> GenericConfig \<Rightarrow> GenericConfig" where
  "applyDefaults [] c = c"
| "applyDefaults ((k, v) # kvs) c = applyDefaults kvs (SetIfNil k v c)"

definition proxyDefaults :: "deps \<Rightarrow> string \<Rightarrow> string \<Rightarrow> string \<Rightarrow> string \<Rightarrow> (string \<times> tval) list" where
  "proxyDefaults d clusterName ns clusterDomain listenHost =
     [(''log-level'', VString ''info''),
      (''server.engine-addr'',
         VString (TiFlashMemberName d clusterName @ ''-POD_NUM.'' @ TiFlashPeerMemberName d clusterName
           @ ''.'' @ ns @ ''.svc'' @ FormatClusterDomain d clusterDomain @ '':3930'')),
      (''server.status-addr'', VString (listenHost @ '':20292'')),
      (''server.advertise-status-addr'',
         VString (TiFlashMemberName d clusterName @ ''-POD_NUM.'' @ TiFlashPeerMemberName d clusterName
           @ ''.'' @ ns @ ''.svc'' @ FormatClusterDomain d clusterDomain @ '':20292''))]"

definition tidbStatusAddrOf :: "deps \<Rightarrow> TidbClusterRef option \<Rightarrow> string \<Rightarrow> string \<Rightarrow> bool \<Rightarrow> bool \<Rightarrow> string" where
  "tidbStatusAddrOf d ref clusterName ns noLocalTiDB acrossK8s =
     (if noLocalTiDB then
        (case ref of
           Some r \<Rightarrow>
             (if acrossK8s then
                TiDBPeerMemberName d (Name r) @ ''.'' @ Namespace r @ ''.svc''
                  @ FormatClusterDomain d (ClusterDomain r) @ '':10080''
              else
                TiDBMemberName d (Name r) @ ''.'' @ Namespace r @ ''.svc''
                  @ FormatClusterDomain d (ClusterDomain r) @ '':10080'')
         | None \<Rightarrow> TiDBMemberName d clusterName @ ''.'' @ ns @ ''.svc:10080'')
      else TiDBMemberName d clusterName @ ''.'' @ ns @ ''.svc:10080'')"

definition pdAddrOf :: "deps \<Rightarrow> TidbClusterRef option \<Rightarrow> string \<Rightarrow> string \<Rightarrow> bool \<Rightarrow> bool \<Rightarrow> string" where
  "pdAddrOf d ref clusterName ns noLocalPD acrossK8s =
     (if acrossK8s then ''PD_ADDR''
      else (case ref of
          Some r \<Rightarrow>
            (if noLocalPD then
               PDMemberName d (Name r) @ ''.'' @ Namespace r @ ''.svc''
                 @ FormatClusterDomain d (ClusterDomain r) @ '':2379''
             else PDMemberName d clusterName @ ''.'' @ ns @ ''.svc:2379'')
        | None \<Rightarrow> PDMemberName d clusterName @ ''.'' @ ns @ ''.svc:2379''))"

definition flashDefaults ::
  "deps \<Rightarrow> TidbClusterRef option \<Rightarrow> string \<Rightarrow> string \<Rightarrow> string \<Rightarrow> string \<Rightarrow> bool \<Rightarrow> bool
     \<Rightarrow> (string \<times> tval) list" where
  "flashDefaults d ref clusterName ns clusterDomain listenHost noLocalTiDB acrossK8s =
     [(''flash.tidb_status_addr'', VString (tidbStatusAddrOf d ref clusterName ns noLocalTiDB acrossK8s)),
      (''flash.service_addr'', VString (listenHost @ '':3930'')),
      (''flash.overlap_threshold'', VFloat (Decimal 6 (- 1))),
      (''flash.compact_log_min_period'', VInt 200),
      (''flash.flash_cluster.cluster_manager_path'', VString ''/tiflash/flash_cluster_manager''),
      (''flash.flash_cluster.log'', VString defaultClusterLog),
      (''flash.flash_cluster.refresh_interval'', VInt 20),
      (''flash.flash_cluster.update_rule_interval'', VInt 10),
      (''flash.flash_cluster.master_ttl'', VInt 60),
      (''flash.proxy.addr'', VString (listenHost @ '':20170'')),
      (''flash.proxy.advertise-addr'',
         VString (TiFlashMemberName d clusterName @ ''-POD_NUM.'' @ TiFlashPeerMemberName d clusterName
           @ ''.'' @ ns @ ''.svc'' @ FormatClusterDomain d clusterDomain @ '':20170'')),
      (''flash.proxy.data-dir'', VString ''/data0/proxy''),
      (''flash.proxy.config'', VString ''/data0/proxy.toml'')]"

definition loggerDefaults :: "(string \<times> tval) list" where
  "loggerDefaults =
     [(''logger.errorlog'', VString defaultErrorLog),
      (''logger.size'', VString ''100M''),
      (''logger.log'', VString defaultServerLog),
      (''logger.level'', VString ''information''),
      (''logger.count'', VInt 10)]"

definition raftDefaults ::
  "deps \<Rightarrow> TidbClusterRef option \<Rightarrow> string \<Rightarrow> string \<Rightarrow> bool \<Rightarrow> bool \<Rightarrow> (string \<times> tval) list" where
  "raftDefaults d ref clusterName ns noLocalPD acrossK8s =
     [(''raft.kvstore_path'', VString ''/data0/kvstore''),
      (''raft.storage_engine'', VString ''dt''),
      (''raft.pd_addr'', VString (pdAddrOf d ref clusterName ns noLocalPD acrossK8s))]"

definition commonDefaults ::
  "deps \<Rightarrow> TidbClusterRef option \<Rightarrow> string \<Rightarrow> string \<Rightarrow> string \<Rightarrow> string \<Rightarrow> bool \<Rightarrow> bool \<Rightarrow> bool
     \<Rightarrow> (string \<times> tval) list" where
  "commonDefaults d ref clusterName ns clusterDomain listenHost noLocalPD noLocalTiDB acrossK8s =
     [(''tmp_path'', VString ''/data0/tmp''),
      (''display_name'', VString ''TiFlash''),
      (''default_profile'', VString ''default''),
      (''path'', VString ''/data0/db''),
      (''path_realtime_mode'', VBool False),
      (''mark_cache_size'', VInt 5368709120),
      (''minmax_index_cache_size'', VInt 5368709120),
      (''tcp_port'', VInt 9000),
      (''tcp_port_secure'', VInt 9000),
      (''https_port'', VInt 8123),
      (''http_port'', VInt 8123),
      (''interserver_http_port'', VInt 9009)]
     @ flashDefaults d ref clusterName ns clusterDomain listenHost noLocalTiDB acrossK8s
     @ loggerDefaults
     @ [(''application.runAsDaemon'', VBool True)]
     @ raftDefaults d ref clusterName ns noLocalPD acrossK8s
     @ [(''listen_host'', VString (if listenHost = listenHostForIPv6 then ''::'' else listenHost)),
        (''status.metrics_port'', VInt 8234),
        (''quotas.default.interval.duration'', VInt 3600),
        (''quotas.default.interval.queries'', VInt 0),
        (''quotas.default.interval.errors'', VInt 0),
        (''quotas.default.interval.result_rows'', VInt 0),
        (''quotas.default.interval.read_rows'', VInt 0),
        (''quotas.default.interval.execution_time'', VInt 0),
        (''users.readonly.profile'', VString ''readonly''),
        (''users.readonly.quota'', VString ''default''),
        (''users.readonly.networks.ip'', VString ''::/0''),
        (''users.readonly.password'', VString []),
        (''users.default.profile'', VString ''default''),
        (''users.default.quota'', VString ''default''),
        (''users.default.networks.ip'', VString ''::/0''),
        (''users.default.password'', VString []),
        (''profiles.readonly.readonly'', VInt 1),
        (''profiles.default.max_memory_usage'', VInt 10000000000),
        (''profiles.default.load_balancing'', VString ''random''),
        (''profiles.default.use_uncompressed_cache'', VInt 0)]"

definition inCommon :: "TidbCluster \<Rightarrow> GenericConfig" where
  "inCommon tc =
     (case Config (TiFlash (Spec tc)) of
        None \<Rightarrow> Map.empty
      | Some cfg \<Rightarrow> (case Common cfg of None \<Rightarrow> Map.empty | Some c \<Rightarrow> c))"

definition inProxy :: "TidbCluster \<Rightarrow> GenericConfig" where
  "inProxy tc =
     (case Config (TiFlash (Spec tc)) of
        None \<Rightarrow> Map.empty
      | Some cfg \<Rightarrow> (case Proxy cfg of None \<Rightarrow> Map.empty | Some p \<Rightarrow> p))"

definition commonOf :: "TiFlashConfigWraper \<Rightarrow> GenericConfig" where
  "commonOf cfg = (case Common cfg of None \<Rightarrow> Map.empty | Some c \<Rightarrow> c)"

definition proxyOf :: "TiFlashConfigWraper \<Rightarrow> GenericConfig" where
  "proxyOf cfg = (case Proxy cfg of None \<Rightarrow> Map.empty | Some p \<Rightarrow> p)"

definition withConfig :: "TidbCluster \<Rightarrow> TiFlashConfigWraper \<Rightarrow> TidbCluster" where
  "withConfig tc cfg = tc\<lparr>Spec := (Spec tc)\<lparr>TiFlash := (TiFlash (Spec tc))\<lparr>Config := Some cfg\<rparr>\<rparr>\<rparr>"

definition listenHostOf :: "TidbCluster \<Rightarrow> string" where
  "listenHostOf tc = (if PreferIPv6 (Spec tc) then listenHostForIPv6 else listenHostForIPv4)"

definition legacyPathDefault :: "TidbCluster \<Rightarrow> (string \<times> tval) list" where
  "legacyPathDefault tc =
     (if length (storagePaths 0 (StorageClaims (TiFlash (Spec tc)))) > 0
      then [(''path'', VString (strings_Join (storagePaths 0 (StorageClaims (TiFlash (Spec tc)))) '',''))]
      else [])"

definition legacyCommonPre :: "deps \<Rightarrow> TidbCluster \<Rightarrow> GenericConfig" where
  "legacyCommonPre d tc =
     applyDefaults
       (legacyPathDefault tc @
        commonDefaults d (Cluster (Spec tc)) (TcName tc) (TcNamespace tc) (SpecClusterDomain (Spec tc))
          (listenHostOf tc) (WithoutLocalPD tc) (WithoutLocalTiDB tc) (AcrossK8s tc))
       (inCommon tc)"

definition proxyPre :: "deps \<Rightarrow> TidbCluster \<Rightarrow> GenericConfig" where
  "proxyPre d tc =
     applyDefaults
       (proxyDefaults d (TcName tc) (TcNamespace tc) (SpecClusterDomain (Spec tc)) (listenHostOf tc))
       (inProxy tc)"

definition setCerts :: "string \<Rightarrow> string \<Rightarrow> string \<Rightarrow> deps \<Rightarrow> GenericConfig \<Rightarrow> GenericConfig" where
  "setCerts ca cert key d c =
     Set_key key (VString (path_Join d (tiflashCertPath d) TLSPrivateKeyKey))
       (Set_key cert (VString (path_Join d (tiflashCertPath d) TLSCertKey))
         (Set_key ca (VString (path_Join d (tiflashCertPath d) ServiceAccountRootCAKey)) c))"

definition copyAllowedCN :: "tval option \<Rightarrow> GenericConfig \<Rightarrow> GenericConfig" where
  "copyAllowedCN commonVal p =
     (case commonVal of
        Some v \<Rightarrow> (if Get p ''security.cert-allowed-cn'' = None
                   then Set_key ''security.cert-allowed-cn'' v p else p)
      | None \<Rightarrow> p)"

definition legacyTable :: "deps \<Rightarrow> TidbCluster \<Rightarrow> (string \<times> tval) list" where
  "legacyTable d tc =
     legacyPathDefault tc @
     commonDefaults d (Cluster (Spec tc)) (TcName tc) (TcNamespace tc) (SpecClusterDomain (Spec tc))
       (listenHostOf tc) (WithoutLocalPD tc) (WithoutLocalTiDB tc) (AcrossK8s tc)"

definition v2Storage :: "TidbCluster \<Rightarrow> GenericConfig \<Rightarrow> GenericConfig" where
  "v2Storage tc common =
     (if Get common ''path'' = None \<and> Get common ''storage.main.dir'' = None then
        (let paths = storagePaths 0 (StorageClaims (TiFlash (Spec tc)));
             paths = (if length paths = 0 then [''/data0/db''] else paths)
         in Set_key ''storage.main.dir'' (VStrings paths) common)
      else common)"

definition v2RaftDir :: "GenericConfig \<Rightarrow> GenericConfig" where
  "v2RaftDir common =
     (if Get common ''raft.kvstore_path'' = None then
        SetIfNil ''storage.raft.dir'' (VStrings [''/data0/kvstore'']) common
      else common)"

definition tidbStatusAddrV2 :: "deps \<Rightarrow> TidbCluster \<Rightarrow> string" where
  "tidbStatusAddrV2 d tc =
     (if WithoutLocalTiDB tc then
        (if Heterogeneous tc then
           (case DeepCopy (Cluster (Spec tc)) of
              Some r \<Rightarrow>
                (if AcrossK8s tc then
                   TiDBPeerMemberName d (Name r) @ ''.'' @ Namespace r @ ''.svc''
                     @ FormatClusterDomain d (ClusterDomain r) @ '':10080''
                 else
                   TiDBMemberName d (Name r) @ ''.'' @ Namespace r @ ''.svc''
                     @ FormatClusterDomain d (ClusterDomain r) @ '':10080'')
            | None \<Rightarrow> TiDBMemberName d (TcName tc) @ ''.'' @ TcNamespace tc @ ''.svc:10080'')
         else TiDBMemberName d (TcName tc) @ ''.'' @ TcNamespace tc @ ''.svc:10080'')
      else TiDBMemberName d (TcName tc) @ ''.'' @ TcNamespace tc @ ''.svc:10080'')"

definition pdAddrV2 :: "deps \<Rightarrow> TidbCluster \<Rightarrow> string" where
  "pdAddrV2 d tc =
     (if AcrossK8s tc then ''PD_ADDR''
      else if Heterogeneous tc \<and> WithoutLocalPD tc then
        (case DeepCopy (Cluster (Spec tc)) of
           Some r \<Rightarrow> PDMemberName d (Name r) @ ''.'' @ Namespace r @ ''.svc''
                       @ FormatClusterDomain d (ClusterDomain r) @ '':2379''
         | None \<Rightarrow> PDMemberName d (TcName tc) @ ''.'' @ TcNamespace tc @ ''.svc:2379'')
      else PDMemberName d (TcName tc) @ ''.'' @ TcNamespace tc @ ''.svc:2379'')"

definition v2Defaults :: "deps \<Rightarrow> TidbCluster \<Rightarrow> (string \<times> tval) list" where
  "v2Defaults d tc =
     [(''tmp_path'', VString ''/data0/tmp''),
      (''tcp_port'', VInt 9000),
      (''http_port'', VInt 8123),
      (''flash.tidb_status_addr'', VString (tidbStatusAddrV2 d tc)),
      (''flash.service_addr'', VString (listenHostOf tc @ '':3930'')),
      (''flash.flash_cluster.log'', VString defaultClusterLog),
      (''flash.proxy.addr'', VString (listenHostOf tc @ '':20170'')),
      (''flash.proxy.advertise-addr'',
         VString (TiFlashMemberName d (TcName tc) @ ''-POD_NUM.'' @ TiFlashPeerMemberName d (TcName tc)
           @ ''.'' @ TcNamespace tc @ ''.svc'' @ FormatClusterDomain d (SpecClusterDomain (Spec tc))
           @ '':20170'')),
      (''flash.proxy.data-dir'', VString ''/data0/proxy''),
      (''flash.proxy.config'', VString ''/data0/proxy.toml''),
      (''logger.errorlog'', VString defaultErrorLog),
      (''logger.log'', VString defaultServerLog),
      (''raft.pd_addr'', VString (pdAddrV2 d tc))]
     @ (if listenHostOf tc = listenHostForIPv6
        then [(''listen_host'', VString ''::''), (''status.metrics_port'', VInt 8234)]
        else [])"

definition v2CommonPre :: "deps \<Rightarrow> TidbCluster \<Rightarrow> GenericConfig" where
  "v2CommonPre d tc = applyDefaults (v2Defaults d tc) (v2RaftDir (v2Storage tc (inCommon tc)))"

definition v2CommonTLS :: "deps \<Rightarrow> TidbCluster \<Rightarrow> GenericConfig" where
  "v2CommonTLS d tc =
     Del ''tcp_port'' (Del ''http_port''
       (SetIfNil ''https_port'' (VInt 8123) (SetIfNil ''tcp_port_secure'' (VInt 9000)
          (setCerts ''security.ca_path'' ''security.cert_path'' ''security.key_path'' d
             (v2CommonPre d tc)))))"

definition v2Paths :: "TidbCluster \<Rightarrow> string list" where
  "v2Paths tc =
     (if length (storagePaths 0 (StorageClaims (TiFlash (Spec tc)))) = 0 then [''/data0/db'']
      else storagePaths 0 (StorageClaims (TiFlash (Spec tc))))"

definition v2Table :: "deps \<Rightarrow> TidbCluster \<Rightarrow> (string \<times> tval) list" where
  "v2Table d tc =
     (if inCommon tc ''path'' = None then [(''storage.main.dir'', VStrings (v2Paths tc))] else [])
     @ (if inCommon tc ''raft.kvstore_path'' = None
        then [(''storage.raft.dir'', VStrings [''/data0/kvstore''])] else [])
     @ v2Defaults d tc"

definition overlay :: "(string \<times> tval option) list \<Rightarrow> GenericConfig \<Rightarrow> GenericConfig" where
  "overlay ov c = (\<lambda>k. case map_of ov k of Some r \<Rightarrow> r | None \<Rightarrow> c k)"

definition tlsCommonOverride :: "deps \<Rightarrow> (string \<times> tval option) list" where
  "tlsCommonOverride d =
     [(''tcp_port'', None),
      (''http_port'', None),
      (''security.key_path'', Some (VString (path_Join d (tiflashCertPath d) TLSPrivateKeyKey))),
      (''security.cert_path'', Some (VString (path_Join d (tiflashCertPath d) TLSCertKey))),
      (''security.ca_path'', Some (VString (path_Join d (tiflashCertPath d) ServiceAccountRootCAKey)))]"

definition legacyOverride :: "deps \<Rightarrow> TidbCluster \<Rightarrow> (string \<times> tval option) list" where
  "legacyOverride d tc =
     (if IsTLSClusterEnabled tc then tlsCommonOverride d
      else [(''tcp_port_secure'', None), (''https_port'', None)])"

definition v2Override :: "deps \<Rightarrow> TidbCluster \<Rightarrow> (string \<times> tval option) list" where
  "v2Override d tc = (if IsTLSClusterEnabled tc then tlsCommonOverride d else [])"

definition v2FullTable :: "deps \<Rightarrow> TidbCluster \<Rightarrow> (string \<times> tval) list" where
  "v2FullTable d tc =
     v2Table d tc @
     (if IsTLSClusterEnabled tc
      then [(''tcp_port_secure'', VInt 9000), (''https_port'', VInt 8123)] else [])"

definition proxyOverride :: "deps \<Rightarrow> TidbCluster \<Rightarrow> (string \<times> tval option) list" where
  "proxyOverride d tc =
     (if IsTLSClusterEnabled tc then
        [(''security.key-path'', Some (VString (path_Join d (tiflashCertPath d) TLSPrivateKeyKey))),
         (''security.cert-path'', Some (VString (path_Join d (tiflashCertPath d) TLSCertKey))),
         (''security.ca-path'', Some (VString (path_Join d (tiflashCertPath d) ServiceAccountRootCAKey)))]
      else [])"

definition allowedCNDefault :: "tval option \<Rightarrow> (string \<times> tval) list" where
  "allowedCNDefault cv = (case cv of Some v \<Rightarrow> [(''security.cert-allowed-cn'', v)] | None \<Rightarrow> [])"

definition proxyTable :: "deps \<Rightarrow> TidbCluster \<Rightarrow> (string \<times> tval) list" where
  "proxyTable d tc =
     proxyDefaults d (TcName tc) (TcNamespace tc) (SpecClusterDomain (Spec tc)) (listenHostOf tc) @
     (if IsTLSClusterEnabled tc then allowedCNDefault (inCommon tc ''security.cert_allowed_cn'')
      else [])"

text \<open>
  Inputs for the closed instances below. \<open>exampleDeps\<close> joins names the way the helpers
  of package \<^verbatim>\<open>controller\<close> are used in the source (a suffix per component); no theorem
  depends on this choice.
\<close>

definition exampleDeps :: deps where
  "exampleDeps =
     \<lparr>TiDBMemberName = (\<lambda>n. n @ ''-tidb''),
      TiDBPeerMemberName = (\<lambda>n. n @ ''-tidb-peer''),
      PDMemberName = (\<lambda>n. n @ ''-pd''),
      TiFlashMemberName = (\<lambda>n. n @ ''-tiflash''),
      TiFlashPeerMemberName = (\<lambda>n. n @ ''-tiflash-peer''),
      FormatClusterDomain = (\<lambda>dom. if dom = [] then [] else ''.'' @ dom),
      tiflashCertPath = ''/var/lib/tiflash-tls'',
      path_Join = (\<lambda>a b. a @ ''/'' @ b),
      ContainerResource = (\<lambda>r. r)\<rparr>"

definition exampleCluster :: TidbCluster where
  "exampleCluster =
     \<lparr>TcName = ''basic'',
      TcNamespace = ''ns1'',
      Spec = \<lparr>TiFlash = \<lparr>Config = None, StorageClaims = [], LogTailer = None\<rparr>,
              SpecClusterDomain = [],
              Cluster = None,
              PreferIPv6 = False\<rparr>,
      TiFlashVersion = ''v5.3.0'',
      IsTLSClusterEnabled = False,
      HeterogeneousFlag = False,
      WithoutLocalPD = False,
      WithoutLocalTiDB = False,
      AcrossK8s = False,
      HelperImage = ''busybox:1.26.2'',
      HelperImagePullPolicy = ''IfNotPresent''\<rparr>"

text \<open>A current-dialect cluster with TLS whose user sets the plaintext TCP port.\<close>

definition tlsClusterWithTcpPort :: TidbCluster where
  "tlsClusterWithTcpPort =
     withConfig (exampleCluster\<lparr>TiFlashVersion := ''v5.4.0'', IsTLSClusterEnabled := True\<rparr>)
       \<lparr>Common = Some [''tcp_port'' \<mapsto> VInt 9001], Proxy = None\<rparr>"

text \<open>The keys of the engine and proxy documents that the TLS step deletes or overwrites.\<close>

definition legacyRewritten :: "TidbCluster \<Rightarrow> string set" where
  "legacyRewritten tc =
     (if IsTLSClusterEnabled tc
      then {''tcp_port'', ''http_port'', ''security.ca_path'', ''security.cert_path'', ''security.key_path''}
      else {''tcp_port_secure'', ''https_port''})"

definition v2Rewritten :: "TidbCluster \<Rightarrow> string set" where
  "v2Rewritten tc =
     (if IsTLSClusterEnabled tc
      then {''tcp_port'', ''http_port'', ''security.ca_path'', ''security.cert_path'', ''security.key_path''}
      else {})"

definition proxyRewritten :: "TidbCluster \<Rightarrow> string set" where
  "proxyRewritten tc =
     (if IsTLSClusterEnabled tc
      then {''security.ca-path'', ''security.cert-path'', ''security.key-path''}
      else {})"

definition tlsClusterWithOverrides :: TidbCluster where
  "tlsClusterWithOverrides =
     withConfig (exampleCluster\<lparr>IsTLSClusterEnabled := True\<rparr>)
       \<lparr>Common = Some [''tcp_port_secure'' \<mapsto> VInt 9443],
        Proxy = Some [''log-level'' \<mapsto> VString ''debug'']\<rparr>"




text \<open>
  The text of a semantic version, and the versions that have one: \<open>s\<close> is a semantic
  version, read as \<open>v\<close>, when it is the text of the well-formed \<open>v\<close>, with or without a
  leading \<^verbatim>\<open>v\<close>.
\<close>

definition showVersion :: "semver \<Rightarrow> string" where
  "showVersion v =
     itoa (Major v) @ ''.'' @ itoa (Minor v) @ ''.'' @ itoa (Patch v)
       @ (if Prerelease v = [] then [] else CHR ''-'' # strings_Join (Prerelease v) ''.'')
       @ (if Metadata v = [] then [] else CHR ''+'' # strings_Join (Metadata v) ''.'')"

definition wellFormed :: "semver \<Rightarrow> bool" where
  "wellFormed v = (list_all validPreId (Prerelease v) \<and> list_all validBuildId (Metadata v))"

definition isSemanticVersion :: "string \<Rightarrow> semver \<Rightarrow> bool" where
  "isSemanticVersion s v = (wellFormed v \<and> (s = showVersion v \<or> s = CHR ''v'' # showVersion v))"

definition threeVolumeCluster :: TidbCluster where
  "threeVolumeCluster =
     exampleCluster
       \<lparr>Spec := (Spec exampleCluster)
          \<lparr>TiFlash := (TiFlash (Spec exampleCluster))
             \<lparr>StorageClaims := [\<lparr>StorageClassName = None\<rparr>, \<lparr>StorageClassName = None\<rparr>,
                                \<lparr>StorageClassName = Some ''local-storage''\<rparr>]\<rparr>\<rparr>\<rparr>"

text \<open>A cluster migrated from the legacy dialect: the user's document still sets \<^verbatim>\<open>path\<close>.\<close>

definition migratedCluster :: TidbCluster where
  "migratedCluster =
     withConfig exampleCluster \<lparr>Common = Some [''path'' \<mapsto> VString ''/data0/db''], Proxy = None\<rparr>"

text \<open>A cluster without TLS whose user document carries the two secure ports.\<close>

definition plainClusterWithSecurePorts :: TidbCluster where
  "plainClusterWithSecurePorts =
     withConfig exampleCluster
       \<lparr>Common = Some [''tcp_port_secure'' \<mapsto> VInt 9443, ''https_port'' \<mapsto> VInt 8443],
        Proxy = None\<rparr>"

definition holdsNonString :: "tval option \<Rightarrow> bool" where
  "holdsNonString x = (case x of Some (VString s) \<Rightarrow> False | Some _ \<Rightarrow> True | None \<Rightarrow> False)"

definition logDefaults :: "(string \<times> tval) list" where
  "logDefaults =
     [(''flash.flash_cluster.log'', VString defaultClusterLog),
      (''logger.errorlog'', VString defaultErrorLog),
      (''logger.log'', VString defaultServerLog)]"

definition freshPtr :: "addr \<Rightarrow> addr option \<Rightarrow> bool" where
  "freshPtr n p = (case p of None \<Rightarrow> True | Some b \<Rightarrow> n \<le> b)"

definition frame :: "addr \<Rightarrow> store \<Rightarrow> store \<Rightarrow> bool" where
  "frame n s0 s =
     (n \<le> nextAddr s \<and> (\<forall>a<n. docAt s a = docAt s0 a \<and> wrapperAt s a = wrapperAt s0 a))"

definition freshWrapper :: "addr \<Rightarrow> store \<Rightarrow> addr \<Rightarrow> bool" where
  "freshWrapper n s config =
     (n \<le> config \<and> freshPtr n (commonPtrOf s config) \<and> freshPtr n (proxyPtrOf s config))"

definition inv :: "addr \<Rightarrow> store \<Rightarrow> addr \<Rightarrow> store \<Rightarrow> bool" where
  "inv n s0 config s = (frame n s0 s \<and> freshWrapper n s config)"

text \<open>
  A store that holds the caller's wrapper at address 0 with an engine document at
  address 1 and no proxy document.
\<close>

definition exampleStore :: store where
  "exampleStore =
     \<lparr>wrapperAt = [0 \<mapsto> \<lparr>CommonPtr = Some 1, ProxyPtr = None\<rparr>],
      docAt = [1 \<mapsto> [''tcp_port'' \<mapsto> VInt 9001]],
      nextAddr = 2\<rparr>"

text \<open>What a store holds behind a pointer, as a value.\<close>

definition readDoc :: "store \<Rightarrow> addr option \<Rightarrow> GenericConfig option" where
  "readDoc s p = (case p of None \<Rightarrow> None | Some a \<Rightarrow> docAt s a)"

definition readWrapper :: "store \<Rightarrow> addr \<Rightarrow> TiFlashConfigWraper" where
  "readWrapper s config =
     \<lparr>Common = readDoc s (commonPtrOf s config), Proxy = readDoc s (proxyPtrOf s config)\<rparr>"

definition readConfig :: "store \<Rightarrow> addr option \<Rightarrow> TiFlashConfigWraper option" where
  "readConfig s p =
     (case p of
        None \<Rightarrow> None
      | Some a \<Rightarrow> (case wrapperAt s a of None \<Rightarrow> None | Some w \<Rightarrow> Some (readWrapper s a)))"

text \<open>The caller's wrapper points only to addresses the store has handed out.\<close>

definition allocatedPtr :: "store \<Rightarrow> addr option \<Rightarrow> bool" where
  "allocatedPtr s p = (case p of None \<Rightarrow> True | Some a \<Rightarrow> a < nextAddr s)"

definition allocatedConfig :: "store \<Rightarrow> addr option \<Rightarrow> bool" where
  "allocatedConfig s p =
     (case p of
        None \<Rightarrow> True
      | Some a \<Rightarrow>
          (case wrapperAt s a of
             None \<Rightarrow> True
           | Some w \<Rightarrow> allocatedPtr s (CommonPtr w) \<and> allocatedPtr s (ProxyPtr w)))"

text \<open>
  The wrapper at \<open>config\<close> is in the store, its documents are in the store, and its two
  document pointers differ.
\<close>

definition livePtr :: "store \<Rightarrow> addr option \<Rightarrow> bool" where
  "livePtr s p = (case p of None \<Rightarrow> True | Some a \<Rightarrow> a < nextAddr s \<and> docAt s a \<noteq> None)"

definition separated :: "store \<Rightarrow> addr \<Rightarrow> bool" where
  "separated s config =
     (wrapperAt s config \<noteq> None \<and>
      livePtr s (commonPtrOf s config) \<and> livePtr s (proxyPtrOf s config) \<and>
      (commonPtrOf s config = None \<or> commonPtrOf s config \<noteq> proxyPtrOf s config))"

text \<open>
  The wrapper at \<open>c\<close> of the store, read as a value, is \<open>cfg\<close>; and the result of a
  synthesizer on the store is the wrapper \<open>c\<close>, read as \<open>cfg\<close>.
\<close>

definition simW :: "addr \<Rightarrow> store \<Rightarrow> TiFlashConfigWraper \<Rightarrow> bool" where
  "simW c s cfg = (separated s c \<and> readWrapper s c = cfg)"

definition resW :: "addr \<Rightarrow> addr \<times> store \<Rightarrow> TiFlashConfigWraper \<Rightarrow> bool" where
  "resW c X cfg = (fst X = c \<and> simW c (snd X) cfg)"

text \<open>
  The current dialect writes through the two document pointers \<open>ac\<close> and \<open>ap\<close> of the
  wrapper at \<open>c\<close>; the documents behind them are \<open>cm\<close> and \<open>px\<close>.
\<close>

definition sim2 :: "addr \<Rightarrow> addr \<Rightarrow> addr \<Rightarrow> store \<Rightarrow> GenericConfig \<Rightarrow> GenericConfig \<Rightarrow> bool" where
  "sim2 c ac ap s cm px =
     (wrapperAt s c = Some \<lparr>CommonPtr = Some ac, ProxyPtr = Some ap\<rparr> \<and> ac \<noteq> ap \<and>
      ac < nextAddr s \<and> ap < nextAddr s \<and> docAt s ac = Some cm \<and> docAt s ap = Some px)"

section \<open>Lemmas\<close>

lemma applyDefaults_append:
  "applyDefaults (xs @ ys) c = applyDefaults ys (applyDefaults xs c)"
  by (induction xs arbitrary: c) auto

lemma SetIfNil_apply:
  "SetIfNil k v m x = (if x = k then (case m k of None \<Rightarrow> Some v | Some y \<Rightarrow> Some y) else m x)"
  by (auto simp: SetIfNil_def Get_def Set_key_def split: option.splits)

lemma applyDefaults_at:
  "applyDefaults kvs c k = (case c k of Some v \<Rightarrow> Some v | None \<Rightarrow> map_of kvs k)"
proof (induction kvs arbitrary: c)
  case Nil
  show ?case by (simp split: option.splits)
next
  case (Cons kv kvs)
  obtain k' v' where kv: "kv = (k', v')" by (cases kv)
  show ?case
    unfolding kv applyDefaults.simps Cons.IH
    by (simp add: SetIfNil_apply split: option.splits)
qed

lemma proxy_defaults_eq:
  "setTiFlashProxyConfigDefault d c n ns cd lh = applyDefaults (proxyDefaults d n ns cd lh) c"
  unfolding setTiFlashProxyConfigDefault_def proxyDefaults_def Let_def applyDefaults.simps
  by (rule refl)

lemma flash_defaults_eq:
  "setTiFlashFlashConfigDefault d c ref n ns cd lh b e = applyDefaults (flashDefaults d ref n ns cd lh b e) c"
  unfolding setTiFlashFlashConfigDefault_def flashDefaults_def tidbStatusAddrOf_def Let_def applyDefaults.simps
  by (rule refl)

lemma logger_defaults_eq:
  "setTiFlashLoggerConfigDefault c = applyDefaults loggerDefaults c"
  unfolding setTiFlashLoggerConfigDefault_def loggerDefaults_def Let_def applyDefaults.simps
  by (rule refl)

lemma raft_defaults_eq:
  "setTiFlashRaftConfigDefault d c ref n ns cd a e = applyDefaults (raftDefaults d ref n ns a e) c"
  unfolding setTiFlashRaftConfigDefault_def raftDefaults_def pdAddrOf_def Let_def applyDefaults.simps
  by (simp split: option.splits)

lemma SetIfNil_if_value:
  "(if b then SetIfNil k v c else SetIfNil k w c) = SetIfNil k (if b then v else w) c"
  by simp

lemma VString_if: "(if b then VString x else VString y) = VString (if b then x else y)"
  by simp

lemma common_defaults_eq:
  "setTiFlashCommonConfigDefault d c ref n ns cd lh a b e =
     applyDefaults (commonDefaults d ref n ns cd lh a b e) c"
  unfolding setTiFlashCommonConfigDefault_def commonDefaults_def Let_def
    flash_defaults_eq logger_defaults_eq raft_defaults_eq setTiFlashApplicationConfigDefault_def
    applyDefaults_append applyDefaults.simps SetIfNil_if_value VString_if
  by (rule refl)

lemma setTiFlashConfigDefault_Some:
  "setTiFlashConfigDefault d \<lparr>Common = Some c, Proxy = p\<rparr> ref n ns cd lh a b e =
     \<lparr>Common = Some (applyDefaults (commonDefaults d ref n ns cd lh a b e) c),
      Proxy = Some (applyDefaults (proxyDefaults d n ns cd lh) (case p of None \<Rightarrow> Map.empty | Some q \<Rightarrow> q))\<rparr>"
  by (cases p)
    (simp_all add: setTiFlashConfigDefault_def Let_def onCommon_def onProxy_def common_defaults_eq
      proxy_defaults_eq NewTiFlashProxyConfig_def)

lemma onCommon_Some: "onCommon f \<lparr>Common = Some c, Proxy = p\<rparr> = \<lparr>Common = Some (f c), Proxy = p\<rparr>"
  by (simp add: onCommon_def)

lemma onProxy_Some: "onProxy f \<lparr>Common = c, Proxy = Some p\<rparr> = \<lparr>Common = c, Proxy = Some (f p)\<rparr>"
  by (simp add: onProxy_def)

lemma GetAt_Some: "GetAt (Some c) k = Get c k"
  by (simp add: GetAt_def)

lemma legacy_entry:
  "(let config = (case DeepCopy (Config (TiFlash (Spec tc))) of None \<Rightarrow> NewTiFlashConfig | Some c \<Rightarrow> c)
    in if Common config = None then config\<lparr>Common := Some NewTiFlashCommonConfig\<rparr> else config) =
   \<lparr>Common = Some (inCommon tc),
    Proxy = (case Config (TiFlash (Spec tc)) of None \<Rightarrow> Some Map.empty | Some cfg \<Rightarrow> Proxy cfg)\<rparr>"
  by (cases "Config (TiFlash (Spec tc))")
    (auto simp: DeepCopy_def NewTiFlashConfig_def NewTiFlashCommonConfig_def NewTiFlashProxyConfig_def
       inCommon_def split: option.splits)

lemma legacy_path_step:
  "(if Get c ''path'' = None then
      (let paths = P in
         if length paths > 0 then onCommon (Set_key ''path'' (V paths)) \<lparr>Common = Some c, Proxy = p\<rparr>
         else \<lparr>Common = Some c, Proxy = p\<rparr>)
    else \<lparr>Common = Some c, Proxy = p\<rparr>) =
   \<lparr>Common = Some (applyDefaults (if length P > 0 then [(''path'', V P)] else []) c), Proxy = p\<rparr>"
  by (simp add: onCommon_def SetIfNil_def Let_def)

lemma legacy_tls_step:
  "(let config = onProxy (Set_key k1 v1) \<lparr>Common = Some c, Proxy = Some p\<rparr>;
        config = onProxy (Set_key k2 v2) config;
        config = onProxy (Set_key k3 v3) config;
        config = onCommon (Set_key k4 v1) config;
        config = onCommon (Set_key k5 v2) config;
        config = onCommon (Set_key k6 v3) config;
        common = GetAt (Common config) ''security.cert_allowed_cn'';
        proxy = GetAt (Proxy config) ''security.cert-allowed-cn'';
        config = (case common of
                    Some v \<Rightarrow>
                      (if proxy = None then onProxy (Set_key ''security.cert-allowed-cn'' v) config
                       else config)
                  | None \<Rightarrow> config);
        config = onCommon (Del ''http_port'') config;
        config = onCommon (Del ''tcp_port'') config
    in config) =
   \<lparr>Common = Some (Del ''tcp_port'' (Del ''http_port'' (Set_key k6 v3 (Set_key k5 v2 (Set_key k4 v1 c))))),
    Proxy = Some (copyAllowedCN ((Set_key k6 v3 (Set_key k5 v2 (Set_key k4 v1 c))) ''security.cert_allowed_cn'')
       (Set_key k3 v3 (Set_key k2 v2 (Set_key k1 v1 p))))\<rparr>"
  by (simp add: Let_def onProxy_def onCommon_def GetAt_def copyAllowedCN_def Get_def split: option.splits)

lemma legacy_plain_step:
  "(let config = onCommon (Del ''https_port'') \<lparr>Common = Some c, Proxy = Some p\<rparr>;
        config = onCommon (Del ''tcp_port_secure'') config
    in config) =
   \<lparr>Common = Some (Del ''tcp_port_secure'' (Del ''https_port'' c)), Proxy = Some p\<rparr>"
  by (simp add: Let_def onCommon_def)

lemma getTiFlashConfig_struct:
  "getTiFlashConfig d tc =
     (if IsTLSClusterEnabled tc then
        \<lparr>Common = Some (Del ''tcp_port'' (Del ''http_port''
             (setCerts ''security.ca_path'' ''security.cert_path'' ''security.key_path'' d
                (legacyCommonPre d tc)))),
         Proxy = Some (copyAllowedCN
             (setCerts ''security.ca_path'' ''security.cert_path'' ''security.key_path'' d
                (legacyCommonPre d tc) ''security.cert_allowed_cn'')
             (setCerts ''security.ca-path'' ''security.cert-path'' ''security.key-path'' d (proxyPre d tc)))\<rparr>
      else
        \<lparr>Common = Some (Del ''tcp_port_secure'' (Del ''https_port'' (legacyCommonPre d tc))),
         Proxy = Some (proxyPre d tc)\<rparr>)"
proof -
  define cfg1 where "cfg1 =
     (let config = (case DeepCopy (Config (TiFlash (Spec tc))) of None \<Rightarrow> NewTiFlashConfig | Some c \<Rightarrow> c)
      in if Common config = None then config\<lparr>Common := Some NewTiFlashCommonConfig\<rparr> else config)"
  define pp where "pp = (case Config (TiFlash (Spec tc)) of None \<Rightarrow> Some Map.empty | Some cfg \<Rightarrow> Proxy cfg)"
  have cfg1: "cfg1 = \<lparr>Common = Some (inCommon tc), Proxy = pp\<rparr>"
    unfolding cfg1_def pp_def by (rule legacy_entry)
  have ip: "(case pp of None \<Rightarrow> Map.empty | Some q \<Rightarrow> q) = inProxy tc"
    unfolding pp_def inProxy_def by (simp split: option.splits)
  define cfg2 where "cfg2 =
      (if GetAt (Common cfg1) ''path'' = None then
               (let paths = storagePaths 0 (StorageClaims (TiFlash (Spec tc)))
                in if length paths > 0 then
                     onCommon (Set_key ''path'' (VString (strings_Join paths '',''))) cfg1
                   else cfg1)
             else cfg1)"
  have cfg2: "cfg2 = \<lparr>Common = Some (applyDefaults (legacyPathDefault tc) (inCommon tc)), Proxy = pp\<rparr>"
    unfolding cfg2_def cfg1 legacyPathDefault_def
    using legacy_path_step [of "inCommon tc" "storagePaths 0 (StorageClaims (TiFlash (Spec tc)))"
       "\<lambda>paths. VString (strings_Join paths '','')" pp]
    by (simp add: GetAt_Some)
  define cfg3 where "cfg3 = setTiFlashConfigDefault d cfg2 (DeepCopy (Cluster (Spec tc))) (TcName tc) (TcNamespace tc)
                     (SpecClusterDomain (Spec tc)) (listenHostOf tc) (WithoutLocalPD tc) (WithoutLocalTiDB tc) (AcrossK8s tc)"
  have cfg3: "cfg3 = \<lparr>Common = Some (legacyCommonPre d tc), Proxy = Some (proxyPre d tc)\<rparr>"
    unfolding cfg3_def cfg2 setTiFlashConfigDefault_Some legacyCommonPre_def proxyPre_def
      applyDefaults_append ip DeepCopy_def
    by (rule refl)
  have "getTiFlashConfig d tc =
      (if IsTLSClusterEnabled tc then
           (let config = onProxy (Set_key ''security.ca-path''
                           (VString (path_Join d (tiflashCertPath d) ServiceAccountRootCAKey))) cfg3;
                config = onProxy (Set_key ''security.cert-path''
                           (VString (path_Join d (tiflashCertPath d) TLSCertKey))) config;
                config = onProxy (Set_key ''security.key-path''
                           (VString (path_Join d (tiflashCertPath d) TLSPrivateKeyKey))) config;
                config = onCommon (Set_key ''security.ca_path''
                           (VString (path_Join d (tiflashCertPath d) ServiceAccountRootCAKey))) config;
                config = onCommon (Set_key ''security.cert_path''
                           (VString (path_Join d (tiflashCertPath d) TLSCertKey))) config;
                config = onCommon (Set_key ''security.key_path''
                           (VString (path_Join d (tiflashCertPath d) TLSPrivateKeyKey))) config;
                common = GetAt (Common config) ''security.cert_allowed_cn'';
                proxy = GetAt (Proxy config) ''security.cert-allowed-cn'';
                config = (case common of
                            Some v \<Rightarrow>
                              (if proxy = None then onProxy (Set_key ''security.cert-allowed-cn'' v) config
                               else config)
                          | None \<Rightarrow> config);
                config = onCommon (Del ''http_port'') config;
                config = onCommon (Del ''tcp_port'') config
            in config)
         else
           (let config = onCommon (Del ''https_port'') cfg3;
                config = onCommon (Del ''tcp_port_secure'') config
            in config))"
    unfolding getTiFlashConfig_def cfg3_def cfg2_def cfg1_def listenHostOf_def Let_def
    by (rule refl)
  then show ?thesis
    unfolding cfg3 legacy_tls_step legacy_plain_step setCerts_def .
qed

lemma legacyCommonPre_at:
  "legacyCommonPre d tc k =
     (case inCommon tc k of Some v \<Rightarrow> Some v | None \<Rightarrow> map_of (legacyTable d tc) k)"
  unfolding legacyCommonPre_def legacyTable_def by (rule applyDefaults_at)

lemma proxyPre_at:
  "proxyPre d tc k =
     (case inProxy tc k of Some v \<Rightarrow> Some v
      | None \<Rightarrow> map_of (proxyDefaults d (TcName tc) (TcNamespace tc) (SpecClusterDomain (Spec tc))
                  (listenHostOf tc)) k)"
  unfolding proxyPre_def by (rule applyDefaults_at)

lemma Set_key_apply: "Set_key k v c x = (if x = k then Some v else c x)"
  by (simp add: Set_key_def)

lemma Del_apply: "Del k c x = (if x = k then None else c x)"
  by (simp add: Del_def)

lemma legacy_common_at:
  "commonOf (getTiFlashConfig d tc) k =
     (if IsTLSClusterEnabled tc then
        (if k = ''tcp_port'' \<or> k = ''http_port'' then None
         else if k = ''security.key_path'' then
           Some (VString (path_Join d (tiflashCertPath d) TLSPrivateKeyKey))
         else if k = ''security.cert_path'' then
           Some (VString (path_Join d (tiflashCertPath d) TLSCertKey))
         else if k = ''security.ca_path'' then
           Some (VString (path_Join d (tiflashCertPath d) ServiceAccountRootCAKey))
         else legacyCommonPre d tc k)
      else
        (if k = ''tcp_port_secure'' \<or> k = ''https_port'' then None
         else legacyCommonPre d tc k))"
  by (simp add: getTiFlashConfig_struct commonOf_def setCerts_def Set_key_apply Del_apply)

lemma legacyTable_ports:
  "map_of (legacyTable d tc) ''tcp_port'' = Some (VInt 9000)"
  "map_of (legacyTable d tc) ''http_port'' = Some (VInt 8123)"
  "map_of (legacyTable d tc) ''tcp_port_secure'' = Some (VInt 9000)"
  "map_of (legacyTable d tc) ''https_port'' = Some (VInt 8123)"
  by (simp_all add: legacyTable_def legacyPathDefault_def commonDefaults_def flashDefaults_def
      loggerDefaults_def raftDefaults_def)

lemma applyDefaults_if:
  "applyDefaults (if b then xs else ys) c = (if b then applyDefaults xs c else applyDefaults ys c)"
  by simp

lemma v2_entry_common:
  "(case Common (case DeepCopy (Config (TiFlash (Spec tc))) of None \<Rightarrow> NewTiFlashConfig | Some c \<Rightarrow> c) of
      None \<Rightarrow> NewTiFlashCommonConfig | Some c \<Rightarrow> c) = inCommon tc"
  by (simp add: DeepCopy_def NewTiFlashConfig_def NewTiFlashCommonConfig_def inCommon_def
      split: option.splits)

lemma v2_entry_proxy:
  "(case Proxy (case DeepCopy (Config (TiFlash (Spec tc))) of None \<Rightarrow> NewTiFlashConfig | Some c \<Rightarrow> c) of
      None \<Rightarrow> NewTiFlashProxyConfig | Some p \<Rightarrow> p) = inProxy tc"
  by (simp add: DeepCopy_def NewTiFlashConfig_def NewTiFlashProxyConfig_def inProxy_def
      split: option.splits)

lemma getTiFlashConfigV2_struct:
  "getTiFlashConfigV2 d tc =
     (if IsTLSClusterEnabled tc then
        \<lparr>Common = Some (v2CommonTLS d tc),
         Proxy = Some (copyAllowedCN (v2CommonTLS d tc ''security.cert_allowed_cn'')
             (setCerts ''security.ca-path'' ''security.cert-path'' ''security.key-path'' d (proxyPre d tc)))\<rparr>
      else
        \<lparr>Common = Some (v2CommonPre d tc), Proxy = Some (proxyPre d tc)\<rparr>)"
  unfolding getTiFlashConfigV2_def Let_def v2_entry_common v2_entry_proxy
    v2CommonTLS_def v2CommonPre_def v2Defaults_def applyDefaults_append applyDefaults_if applyDefaults.simps
    v2RaftDir_def v2Storage_def proxyPre_def proxyDefaults_def listenHostOf_def setCerts_def
    copyAllowedCN_def tidbStatusAddrV2_def pdAddrV2_def Get_def
  by (rule refl)

lemma v2Storage_eq:
  "v2Storage tc c =
     applyDefaults (if c ''path'' = None then [(''storage.main.dir'', VStrings (v2Paths tc))] else []) c"
  by (simp add: v2Storage_def v2Paths_def Let_def SetIfNil_def Get_def)

lemma v2RaftDir_eq:
  "v2RaftDir c =
     applyDefaults (if c ''raft.kvstore_path'' = None
        then [(''storage.raft.dir'', VStrings [''/data0/kvstore''])] else []) c"
  by (simp add: v2RaftDir_def Get_def)

lemma v2CommonPre_eq: "v2CommonPre d tc = applyDefaults (v2Table d tc) (inCommon tc)"
proof -
  have kv: "v2Storage tc (inCommon tc) ''raft.kvstore_path'' = inCommon tc ''raft.kvstore_path''"
    by (simp add: v2Storage_eq applyDefaults_at split: option.splits)
  show ?thesis
    unfolding v2CommonPre_def v2Table_def applyDefaults_append
    unfolding v2RaftDir_eq kv
    unfolding v2Storage_eq
    by (rule refl)
qed

lemma v2CommonPre_at:
  "v2CommonPre d tc k =
     (case inCommon tc k of Some v \<Rightarrow> Some v | None \<Rightarrow> map_of (v2Table d tc) k)"
  unfolding v2CommonPre_eq by (rule applyDefaults_at)

lemma v2_common_at:
  "commonOf (getTiFlashConfigV2 d tc) k =
     (if IsTLSClusterEnabled tc then
        (if k = ''tcp_port'' \<or> k = ''http_port'' then None
         else if k = ''security.key_path'' then
           Some (VString (path_Join d (tiflashCertPath d) TLSPrivateKeyKey))
         else if k = ''security.cert_path'' then
           Some (VString (path_Join d (tiflashCertPath d) TLSCertKey))
         else if k = ''security.ca_path'' then
           Some (VString (path_Join d (tiflashCertPath d) ServiceAccountRootCAKey))
         else (case v2CommonPre d tc k of
                 Some v \<Rightarrow> Some v
               | None \<Rightarrow> map_of [(''tcp_port_secure'', VInt 9000), (''https_port'', VInt 8123)] k))
      else v2CommonPre d tc k)"
  by (simp add: getTiFlashConfigV2_struct commonOf_def v2CommonTLS_def setCerts_def Set_key_apply
      Del_apply SetIfNil_apply split: option.splits)

lemma withConfig_sel:
  "TcName (withConfig tc cfg) = TcName tc"
  "TcNamespace (withConfig tc cfg) = TcNamespace tc"
  "Cluster (Spec (withConfig tc cfg)) = Cluster (Spec tc)"
  "SpecClusterDomain (Spec (withConfig tc cfg)) = SpecClusterDomain (Spec tc)"
  "PreferIPv6 (Spec (withConfig tc cfg)) = PreferIPv6 (Spec tc)"
  "StorageClaims (TiFlash (Spec (withConfig tc cfg))) = StorageClaims (TiFlash (Spec tc))"
  "LogTailer (TiFlash (Spec (withConfig tc cfg))) = LogTailer (TiFlash (Spec tc))"
  "Config (TiFlash (Spec (withConfig tc cfg))) = Some cfg"
  "WithoutLocalPD (withConfig tc cfg) = WithoutLocalPD tc"
  "WithoutLocalTiDB (withConfig tc cfg) = WithoutLocalTiDB tc"
  "AcrossK8s (withConfig tc cfg) = AcrossK8s tc"
  "IsTLSClusterEnabled (withConfig tc cfg) = IsTLSClusterEnabled tc"
  "HeterogeneousFlag (withConfig tc cfg) = HeterogeneousFlag tc"
  "TiFlashVersion (withConfig tc cfg) = TiFlashVersion tc"
  "HelperImage (withConfig tc cfg) = HelperImage tc"
  "HelperImagePullPolicy (withConfig tc cfg) = HelperImagePullPolicy tc"
  by (simp_all add: withConfig_def)

lemma withConfig_derived:
  "Heterogeneous (withConfig tc cfg) = Heterogeneous tc"
  "listenHostOf (withConfig tc cfg) = listenHostOf tc"
  "inCommon (withConfig tc cfg) = commonOf cfg"
  "inProxy (withConfig tc cfg) = proxyOf cfg"
  unfolding Heterogeneous_def listenHostOf_def inCommon_def inProxy_def commonOf_def proxyOf_def
    withConfig_sel
  by simp_all

lemma withConfig_tables:
  "legacyTable d (withConfig tc cfg) = legacyTable d tc"
  "v2Defaults d (withConfig tc cfg) = v2Defaults d tc"
  "v2Paths (withConfig tc cfg) = v2Paths tc"
  "proxyPre d (withConfig tc cfg) =
     applyDefaults (proxyDefaults d (TcName tc) (TcNamespace tc) (SpecClusterDomain (Spec tc))
       (listenHostOf tc)) (proxyOf cfg)"
  unfolding legacyTable_def legacyPathDefault_def v2Defaults_def v2Paths_def proxyPre_def
    tidbStatusAddrV2_def pdAddrV2_def withConfig_sel withConfig_derived
  by (rule refl)+

lemma copyAllowedCN_at:
  "copyAllowedCN cv p k =
     (if k = ''security.cert-allowed-cn'' then (case p k of Some w \<Rightarrow> Some w | None \<Rightarrow> cv)
      else p k)"
  by (auto simp: copyAllowedCN_def Get_def Set_key_def split: option.splits)

lemma legacy_proxy_at:
  "proxyOf (getTiFlashConfig d tc) k =
     (if IsTLSClusterEnabled tc then
        (if k = ''security.key-path'' then
           Some (VString (path_Join d (tiflashCertPath d) TLSPrivateKeyKey))
         else if k = ''security.cert-path'' then
           Some (VString (path_Join d (tiflashCertPath d) TLSCertKey))
         else if k = ''security.ca-path'' then
           Some (VString (path_Join d (tiflashCertPath d) ServiceAccountRootCAKey))
         else if k = ''security.cert-allowed-cn'' then
           (case proxyPre d tc k of
              Some w \<Rightarrow> Some w
            | None \<Rightarrow> legacyCommonPre d tc ''security.cert_allowed_cn'')
         else proxyPre d tc k)
      else proxyPre d tc k)"
  by (simp add: getTiFlashConfig_struct proxyOf_def copyAllowedCN_at setCerts_def Set_key_apply)

lemma v2_proxy_at:
  "proxyOf (getTiFlashConfigV2 d tc) k =
     (if IsTLSClusterEnabled tc then
        (if k = ''security.key-path'' then
           Some (VString (path_Join d (tiflashCertPath d) TLSPrivateKeyKey))
         else if k = ''security.cert-path'' then
           Some (VString (path_Join d (tiflashCertPath d) TLSCertKey))
         else if k = ''security.ca-path'' then
           Some (VString (path_Join d (tiflashCertPath d) ServiceAccountRootCAKey))
         else if k = ''security.cert-allowed-cn'' then
           (case proxyPre d tc k of
              Some w \<Rightarrow> Some w
            | None \<Rightarrow> v2CommonPre d tc ''security.cert_allowed_cn'')
         else proxyPre d tc k)
      else proxyPre d tc k)"
  by (simp add: getTiFlashConfigV2_struct proxyOf_def copyAllowedCN_at setCerts_def Set_key_apply
      v2CommonTLS_def Del_apply SetIfNil_apply)

lemma wrapper_eqI:
  assumes "Common a \<noteq> None" "Common b \<noteq> None" "Proxy a \<noteq> None" "Proxy b \<noteq> None"
    and "\<And>k. commonOf a k = commonOf b k" and "\<And>k. proxyOf a k = proxyOf b k"
  shows "a = (b :: TiFlashConfigWraper)"
proof -
  have "commonOf a = commonOf b" "proxyOf a = proxyOf b"
    using assms(5,6) by (auto intro: ext)
  then have "Common a = Common b" "Proxy a = Proxy b"
    using assms(1-4) by (auto simp: commonOf_def proxyOf_def split: option.splits)
  then show ?thesis by simp
qed

lemma legacy_both_present:
  "Common (getTiFlashConfig d tc) \<noteq> None" "Proxy (getTiFlashConfig d tc) \<noteq> None"
  by (simp_all add: getTiFlashConfig_struct)

lemma v2_both_present:
  "Common (getTiFlashConfigV2 d tc) \<noteq> None" "Proxy (getTiFlashConfigV2 d tc) \<noteq> None"
  by (simp_all add: getTiFlashConfigV2_struct)

lemma overlay_Nil: "overlay [] c = c"
  by (simp add: overlay_def)

lemma overlay_at: "overlay ov c k = (case map_of ov k of Some r \<Rightarrow> r | None \<Rightarrow> c k)"
  by (simp add: overlay_def)

lemma Set_key_overlay: "Set_key k v (overlay ov c) = overlay ((k, Some v) # ov) c"
  by (rule ext) (simp add: overlay_def Set_key_def)

lemma Del_overlay: "Del k (overlay ov c) = overlay ((k, None) # ov) c"
  by (rule ext) (simp add: overlay_def Del_def)

lemma SetIfNil_overlay:
  "map_of ov k = None \<Longrightarrow> SetIfNil k v (overlay ov c) = overlay ov (SetIfNil k v c)"
  by (rule ext) (simp add: overlay_def SetIfNil_apply split: option.splits)

lemma setCerts_overlay:
  "setCerts ca cert key d c =
     overlay [(key, Some (VString (path_Join d (tiflashCertPath d) TLSPrivateKeyKey))),
              (cert, Some (VString (path_Join d (tiflashCertPath d) TLSCertKey))),
              (ca, Some (VString (path_Join d (tiflashCertPath d) ServiceAccountRootCAKey)))] c"
proof -
  have "setCerts ca cert key d (overlay [] c) =
     overlay [(key, Some (VString (path_Join d (tiflashCertPath d) TLSPrivateKeyKey))),
              (cert, Some (VString (path_Join d (tiflashCertPath d) TLSCertKey))),
              (ca, Some (VString (path_Join d (tiflashCertPath d) ServiceAccountRootCAKey)))] c"
    unfolding setCerts_def Set_key_overlay by (rule refl)
  then show ?thesis by (simp only: overlay_Nil)
qed

lemma copyAllowedCN_eq: "copyAllowedCN cv p = applyDefaults (allowedCNDefault cv) p"
  by (cases cv) (simp_all add: copyAllowedCN_def allowedCNDefault_def SetIfNil_def)

lemma applyDefaults_overlay:
  "\<forall>k \<in> fst ` set kvs. map_of ov k = None \<Longrightarrow>
     applyDefaults kvs (overlay ov c) = overlay ov (applyDefaults kvs c)"
proof (induction kvs arbitrary: c)
  case Nil
  show ?case by simp
next
  case (Cons kv kvs)
  obtain k v where kv: "kv = (k, v)" by (cases kv)
  have "map_of ov k = None" using Cons.prems kv by simp
  then have "SetIfNil k v (overlay ov c) = overlay ov (SetIfNil k v c)"
    by (rule SetIfNil_overlay)
  moreover have "\<forall>k \<in> fst ` set kvs. map_of ov k = None" using Cons.prems by simp
  ultimately show ?case
    unfolding kv by (simp add: Cons.IH)
qed

lemma overlay_defaults_idem:
  "overlay ov (applyDefaults T (overlay ov (applyDefaults T c))) = overlay ov (applyDefaults T c)"
  by (rule ext) (simp add: overlay_def applyDefaults_at split: option.splits)

lemma legacy_common_overlay:
  "commonOf (getTiFlashConfig d tc) =
     overlay (legacyOverride d tc) (applyDefaults (legacyTable d tc) (inCommon tc))"
proof (cases "IsTLSClusterEnabled tc")
  case True
  then have "commonOf (getTiFlashConfig d tc) =
      Del ''tcp_port'' (Del ''http_port''
        (setCerts ''security.ca_path'' ''security.cert_path'' ''security.key_path'' d
           (legacyCommonPre d tc)))"
    by (simp add: getTiFlashConfig_struct commonOf_def)
  also have "\<dots> = overlay (tlsCommonOverride d) (legacyCommonPre d tc)"
    unfolding setCerts_overlay Del_overlay tlsCommonOverride_def by (rule refl)
  finally show ?thesis
    using True by (simp add: legacyOverride_def legacyCommonPre_def legacyTable_def)
next
  case False
  then have "commonOf (getTiFlashConfig d tc) =
      Del ''tcp_port_secure'' (Del ''https_port'' (overlay [] (legacyCommonPre d tc)))"
    by (simp add: getTiFlashConfig_struct commonOf_def overlay_Nil)
  also have "\<dots> = overlay [(''tcp_port_secure'', None), (''https_port'', None)] (legacyCommonPre d tc)"
    unfolding Del_overlay by (rule refl)
  finally show ?thesis
    using False by (simp add: legacyOverride_def legacyCommonPre_def legacyTable_def)
qed

lemma v2_common_overlay:
  "commonOf (getTiFlashConfigV2 d tc) =
     overlay (v2Override d tc) (applyDefaults (v2FullTable d tc) (inCommon tc))"
proof (cases "IsTLSClusterEnabled tc")
  case True
  let ?certs = "[(''security.key_path'', Some (VString (path_Join d (tiflashCertPath d) TLSPrivateKeyKey))),
      (''security.cert_path'', Some (VString (path_Join d (tiflashCertPath d) TLSCertKey))),
      (''security.ca_path'', Some (VString (path_Join d (tiflashCertPath d) ServiceAccountRootCAKey)))]"
  let ?ports = "[(''tcp_port_secure'', VInt 9000), (''https_port'', VInt 8123)]"
  have "commonOf (getTiFlashConfigV2 d tc) = v2CommonTLS d tc"
    using True by (simp add: getTiFlashConfigV2_struct commonOf_def)
  also have "\<dots> = Del ''tcp_port'' (Del ''http_port''
       (applyDefaults ?ports (overlay ?certs (v2CommonPre d tc))))"
    unfolding v2CommonTLS_def setCerts_overlay by simp
  also have "applyDefaults ?ports (overlay ?certs (v2CommonPre d tc)) =
       overlay ?certs (applyDefaults ?ports (v2CommonPre d tc))"
    by (rule applyDefaults_overlay) simp
  also have "Del ''tcp_port'' (Del ''http_port'' (overlay ?certs (applyDefaults ?ports (v2CommonPre d tc)))) =
       overlay (tlsCommonOverride d) (applyDefaults ?ports (v2CommonPre d tc))"
    unfolding Del_overlay tlsCommonOverride_def by (rule refl)
  finally show ?thesis
    using True by (simp add: v2Override_def v2FullTable_def v2CommonPre_eq applyDefaults_append)
next
  case False
  then show ?thesis
    by (simp add: getTiFlashConfigV2_struct commonOf_def v2Override_def v2FullTable_def v2CommonPre_eq
        overlay_Nil)
qed

lemma legacyTable_cn: "map_of (legacyTable d tc) ''security.cert_allowed_cn'' = None"
  by (simp add: legacyTable_def legacyPathDefault_def commonDefaults_def flashDefaults_def
      loggerDefaults_def raftDefaults_def)

lemma v2FullTable_untouched:
  "map_of (v2FullTable d tc) ''security.cert_allowed_cn'' = None"
  "map_of (v2FullTable d tc) ''path'' = None"
  "map_of (v2FullTable d tc) ''raft.kvstore_path'' = None"
  by (simp_all add: v2FullTable_def v2Table_def v2Defaults_def)

lemma override_untouched:
  "map_of (legacyOverride d tc) ''security.cert_allowed_cn'' = None"
  "map_of (v2Override d tc) ''security.cert_allowed_cn'' = None"
  "map_of (v2Override d tc) ''path'' = None"
  "map_of (v2Override d tc) ''raft.kvstore_path'' = None"
  by (simp_all add: legacyOverride_def v2Override_def tlsCommonOverride_def)

lemma legacy_out_cn:
  "commonOf (getTiFlashConfig d tc) ''security.cert_allowed_cn'' = inCommon tc ''security.cert_allowed_cn''"
  by (simp add: legacy_common_overlay overlay_at applyDefaults_at override_untouched legacyTable_cn
      split: option.splits)

lemma v2_out_untouched:
  "commonOf (getTiFlashConfigV2 d tc) ''security.cert_allowed_cn'' = inCommon tc ''security.cert_allowed_cn''"
  "commonOf (getTiFlashConfigV2 d tc) ''path'' = inCommon tc ''path''"
  "commonOf (getTiFlashConfigV2 d tc) ''raft.kvstore_path'' = inCommon tc ''raft.kvstore_path''"
  by (simp_all add: v2_common_overlay overlay_at applyDefaults_at override_untouched
      v2FullTable_untouched split: option.splits)

lemma allowedCN_overlay:
  "applyDefaults (allowedCNDefault cv) (overlay (proxyOverride d tc) p) =
     overlay (proxyOverride d tc) (applyDefaults (allowedCNDefault cv) p)"
  by (rule applyDefaults_overlay)
    (cases cv; simp add: allowedCNDefault_def proxyOverride_def)

lemma legacy_proxy_overlay:
  "proxyOf (getTiFlashConfig d tc) =
     overlay (proxyOverride d tc) (applyDefaults (proxyTable d tc) (inProxy tc))"
proof (cases "IsTLSClusterEnabled tc")
  case True
  have ov: "setCerts ''security.ca-path'' ''security.cert-path'' ''security.key-path'' d p =
      overlay (proxyOverride d tc) p" for p
    unfolding setCerts_overlay proxyOverride_def using True by simp
  have cn: "setCerts ''security.ca_path'' ''security.cert_path'' ''security.key_path'' d
      (legacyCommonPre d tc) ''security.cert_allowed_cn'' = inCommon tc ''security.cert_allowed_cn''"
    by (simp add: setCerts_overlay overlay_at legacyCommonPre_at legacyTable_cn split: option.splits)
  have "proxyOf (getTiFlashConfig d tc) =
      copyAllowedCN (inCommon tc ''security.cert_allowed_cn'') (overlay (proxyOverride d tc) (proxyPre d tc))"
    using True by (simp add: getTiFlashConfig_struct proxyOf_def cn ov)
  then show ?thesis
    using True
    by (simp add: copyAllowedCN_eq allowedCN_overlay proxyTable_def proxyPre_def applyDefaults_append)
next
  case False
  then show ?thesis
    by (simp add: getTiFlashConfig_struct proxyOf_def proxyOverride_def proxyTable_def proxyPre_def
        overlay_Nil)
qed

lemma v2_proxy_overlay:
  "proxyOf (getTiFlashConfigV2 d tc) =
     overlay (proxyOverride d tc) (applyDefaults (proxyTable d tc) (inProxy tc))"
proof (cases "IsTLSClusterEnabled tc")
  case True
  have ov: "setCerts ''security.ca-path'' ''security.cert-path'' ''security.key-path'' d p =
      overlay (proxyOverride d tc) p" for p
    unfolding setCerts_overlay proxyOverride_def using True by simp
  have "v2CommonTLS d tc = commonOf (getTiFlashConfigV2 d tc)"
    using True by (simp add: getTiFlashConfigV2_struct commonOf_def)
  then have cn: "v2CommonTLS d tc ''security.cert_allowed_cn'' = inCommon tc ''security.cert_allowed_cn''"
    by (simp add: v2_out_untouched)
  have "proxyOf (getTiFlashConfigV2 d tc) =
      copyAllowedCN (inCommon tc ''security.cert_allowed_cn'') (overlay (proxyOverride d tc) (proxyPre d tc))"
    using True by (simp add: getTiFlashConfigV2_struct proxyOf_def cn ov)
  then show ?thesis
    using True
    by (simp add: copyAllowedCN_eq allowedCN_overlay proxyTable_def proxyPre_def applyDefaults_append)
next
  case False
  then show ?thesis
    by (simp add: getTiFlashConfigV2_struct proxyOf_def proxyOverride_def proxyTable_def proxyPre_def
        overlay_Nil)
qed

lemma withConfig_overrides:
  "legacyOverride d (withConfig tc cfg) = legacyOverride d tc"
  "v2Override d (withConfig tc cfg) = v2Override d tc"
  "proxyOverride d (withConfig tc cfg) = proxyOverride d tc"
  unfolding legacyOverride_def v2Override_def proxyOverride_def withConfig_sel
  by (rule refl)+

lemma legacy_proxyTable_again:
  "proxyTable d (withConfig tc (getTiFlashConfig d tc)) = proxyTable d tc"
  unfolding proxyTable_def withConfig_sel withConfig_derived legacy_out_cn
  by (rule refl)

lemma v2_proxyTable_again:
  "proxyTable d (withConfig tc (getTiFlashConfigV2 d tc)) = proxyTable d tc"
  unfolding proxyTable_def withConfig_sel withConfig_derived v2_out_untouched
  by (rule refl)

lemma v2FullTable_again:
  "v2FullTable d (withConfig tc (getTiFlashConfigV2 d tc)) = v2FullTable d tc"
  unfolding v2FullTable_def v2Table_def withConfig_sel withConfig_derived withConfig_tables
    v2_out_untouched
  by (rule refl)

lemma legacy_idempotent:
  "getTiFlashConfig d (withConfig tc (getTiFlashConfig d tc)) = getTiFlashConfig d tc"
proof (rule wrapper_eqI)
  fix k
  have "commonOf (getTiFlashConfig d (withConfig tc (getTiFlashConfig d tc))) =
        commonOf (getTiFlashConfig d tc)"
    unfolding legacy_common_overlay withConfig_overrides withConfig_tables withConfig_derived
    unfolding legacy_common_overlay
    by (rule overlay_defaults_idem)
  then show "commonOf (getTiFlashConfig d (withConfig tc (getTiFlashConfig d tc))) k =
        commonOf (getTiFlashConfig d tc) k"
    by simp
  have "proxyOf (getTiFlashConfig d (withConfig tc (getTiFlashConfig d tc))) =
        proxyOf (getTiFlashConfig d tc)"
    unfolding legacy_proxy_overlay withConfig_overrides legacy_proxyTable_again withConfig_derived
    unfolding legacy_proxy_overlay
    by (rule overlay_defaults_idem)
  then show "proxyOf (getTiFlashConfig d (withConfig tc (getTiFlashConfig d tc))) k =
        proxyOf (getTiFlashConfig d tc) k"
    by simp
qed (rule legacy_both_present)+

lemma v2_idempotent:
  "getTiFlashConfigV2 d (withConfig tc (getTiFlashConfigV2 d tc)) = getTiFlashConfigV2 d tc"
proof (rule wrapper_eqI)
  fix k
  have "commonOf (getTiFlashConfigV2 d (withConfig tc (getTiFlashConfigV2 d tc))) =
        commonOf (getTiFlashConfigV2 d tc)"
    unfolding v2_common_overlay withConfig_overrides v2FullTable_again withConfig_derived
    unfolding v2_common_overlay
    by (rule overlay_defaults_idem)
  then show "commonOf (getTiFlashConfigV2 d (withConfig tc (getTiFlashConfigV2 d tc))) k =
        commonOf (getTiFlashConfigV2 d tc) k"
    by simp
  have "proxyOf (getTiFlashConfigV2 d (withConfig tc (getTiFlashConfigV2 d tc))) =
        proxyOf (getTiFlashConfigV2 d tc)"
    unfolding v2_proxy_overlay withConfig_overrides v2_proxyTable_again withConfig_derived
    unfolding v2_proxy_overlay
    by (rule overlay_defaults_idem)
  then show "proxyOf (getTiFlashConfigV2 d (withConfig tc (getTiFlashConfigV2 d tc))) k =
        proxyOf (getTiFlashConfigV2 d tc) k"
    by simp
qed (rule v2_both_present)+

subsection \<open>The parse of semantic versions\<close>

lemma digit_char: "k < 10 \<Longrightarrow> digitVal (''0123456789'' ! k) = Some k"
proof -
  assume "k < 10"
  then have "k \<in> {0, 1, 2, 3, 4, 5, 6, 7, 8, 9}" by auto
  then show ?thesis by (auto simp: digitVal_def)
qed

lemma digitVal_char: "digitVal c = Some k \<Longrightarrow> k < 10 \<and> c = ''0123456789'' ! k"
  by (auto simp: digitVal_def split: if_splits)

lemma parseDigits_snoc:
  "parseDigits acc (xs @ [c]) =
     (case parseDigits acc xs of
        None \<Rightarrow> None
      | Some m \<Rightarrow> (case digitVal c of None \<Rightarrow> None | Some v \<Rightarrow> Some (10 * m + v)))"
  by (induction xs arbitrary: acc) (auto split: option.splits)

lemma parseDigits_itoa: "parseDigits 0 (itoa n) = Some n"
proof (induction n rule: itoa.induct)
  case (1 n)
  show ?case
  proof (cases "n < 10")
    case True
    then show ?thesis by (simp add: itoa.simps [of n] digit_char)
  next
    case False
    then show ?thesis
      using 1 by (simp add: itoa.simps [of n] parseDigits_snoc digit_char)
  qed
qed

lemma itoa_nonempty: "itoa n \<noteq> []"
  by (subst itoa.simps) simp

lemma itoa_digits_all: "list_all isDigit (itoa n)"
proof (induction n rule: itoa.induct)
  case (1 n)
  show ?case
  proof (cases "n < 10")
    case True
    then show ?thesis by (simp add: itoa.simps [of n] isDigit_def digit_char)
  next
    case False
    then show ?thesis
      using 1 by (simp add: itoa.simps [of n] isDigit_def digit_char)
  qed
qed

lemma itoa_hd: "0 < n \<Longrightarrow> hd (itoa n) \<noteq> CHR ''0''"
proof (induction n rule: itoa.induct)
  case (1 n)
  show ?case
  proof (cases "n < 10")
    case True
    have "digitVal (CHR ''0'') = Some 0" by (simp add: digitVal_def)
    then show ?thesis
      using True 1(2) digit_char [of n] by (auto simp: itoa.simps [of n])
  next
    case False
    then have "0 < n div 10" by simp
    then show ?thesis
      using False 1(1) by (simp add: itoa.simps [of n] itoa_nonempty)
  qed
qed

lemma itoa_zero: "itoa 0 = ''0''"
  by (simp add: itoa.simps)

lemma parseNumber_itoa: "parseNumber (itoa n) = Some n"
proof (cases "n = 0")
  case True
  then show ?thesis by (simp add: parseNumber_def itoa_zero digitVal_def)
next
  case False
  then show ?thesis
    using itoa_hd [of n] by (simp add: parseNumber_def itoa_nonempty parseDigits_itoa)
qed

lemma parseDigits_is_itoa:
  "xs \<noteq> [] \<Longrightarrow> (1 < length xs \<Longrightarrow> hd xs \<noteq> CHR ''0'') \<Longrightarrow> parseDigits 0 xs = Some n \<Longrightarrow>
     xs = itoa n"
proof (induction xs arbitrary: n rule: rev_induct)
  case Nil
  then show ?case by simp
next
  case (snoc c ys)
  show ?case
  proof (cases "ys = []")
    case True
    with snoc.prems(3) obtain k where k: "digitVal c = Some k" "n = k"
      by (auto split: option.splits)
    from digitVal_char [OF k(1)] show ?thesis
      using True k(2) by (simp add: itoa.simps [of k])
  next
    case False
    from snoc.prems(3) obtain m k where
      m: "parseDigits 0 ys = Some m" and k: "digitVal c = Some k" and n: "n = 10 * m + k"
      by (auto simp: parseDigits_snoc split: option.splits)
    have hd: "hd ys \<noteq> CHR ''0''"
      using snoc.prems(2) False by (cases ys) auto
    have ys: "ys = itoa m"
      using snoc.IH [OF False _ m] hd by simp
    have "m \<noteq> 0"
      using ys hd by (cases "m = 0") (simp_all add: itoa_zero)
    moreover note digitVal_char [OF k]
    ultimately show ?thesis
      using ys n by (simp add: itoa.simps [of "10 * m + k"])
  qed
qed

lemma parseNumber_is_itoa: "parseNumber s = Some n \<Longrightarrow> s = itoa n"
  using parseDigits_is_itoa [of s n]
  by (auto simp: parseNumber_def split: if_splits)

lemma strings_Split_nonempty: "strings_Split s sep \<noteq> []"
  by (induction s) (auto split: list.splits)

lemma strings_Join_Cons:
  "fs \<noteq> [] \<Longrightarrow> strings_Join (f # fs) sep = f @ sep @ strings_Join fs sep"
  by (cases fs) simp_all

lemma strings_Join_Split: "strings_Join (strings_Split s sep) [sep] = s"
proof (induction s)
  case Nil
  show ?case by simp
next
  case (Cons c cs)
  show ?case
  proof (cases "c = sep")
    case True
    then show ?thesis
      using Cons by (simp add: strings_Join_Cons strings_Split_nonempty)
  next
    case False
    obtain f fs where f: "strings_Split cs sep = f # fs"
      using strings_Split_nonempty [of cs sep] by (cases "strings_Split cs sep") auto
    show ?thesis
      using Cons False f by (cases fs) simp_all
  qed
qed

lemma strings_Split_field: "sep \<notin> set x \<Longrightarrow> strings_Split x sep = [x]"
  by (induction x) auto

lemma strings_Split_append:
  "sep \<notin> set x \<Longrightarrow> strings_Split (x @ sep # r) sep = x # strings_Split r sep"
  by (induction x) auto

lemma strings_Split_Join:
  "ids \<noteq> [] \<Longrightarrow> \<forall>x\<in>set ids. sep \<notin> set x \<Longrightarrow> strings_Split (strings_Join ids [sep]) sep = ids"
proof (induction ids "[sep]" rule: strings_Join.induct)
  case 1
  then show ?case by simp
next
  case (2 x)
  then show ?case by (simp add: strings_Split_field)
next
  case (3 x y ys)
  then show ?case by (simp add: strings_Split_append)
qed

lemma strings_Join_set:
  "set (strings_Join ids sep) \<subseteq> (\<Union>x\<in>set ids. set x) \<union> set sep"
  by (induction ids sep rule: strings_Join.induct) auto

lemma strings_Cut_none: "sep \<notin> set x \<Longrightarrow> strings_Cut x sep = (x, None)"
  by (induction x) (auto simp: strings_Cut_def)

lemma strings_Cut_found: "sep \<notin> set x \<Longrightarrow> strings_Cut (x @ sep # r) sep = (x, Some r)"
  by (induction x) (auto simp: strings_Cut_def)

lemma strings_Cut_whole:
  "strings_Cut s sep = (x, r) \<Longrightarrow> s = x @ (case r of None \<Rightarrow> [] | Some a \<Rightarrow> sep # a)"
proof (induction s arbitrary: x)
  case Nil
  then show ?case by (auto simp: strings_Cut_def)
next
  case (Cons c cs)
  show ?case
  proof (cases "c = sep")
    case True
    then show ?thesis using Cons.prems by (auto simp: strings_Cut_def)
  next
    case False
    then have "strings_Cut cs sep = (tl x, r)" and "x = c # tl x"
      using Cons.prems by (auto simp: strings_Cut_def)
    then show ?thesis using Cons.IH [of "tl x"] by (metis append_Cons)
  qed
qed

lemma separators_not_digits:
  "isDigit CHR ''.'' = False" "isDigit CHR ''-'' = False" "isDigit CHR ''+'' = False"
  "isDigit CHR ''v'' = False"
  by (simp_all add: isDigit_def digitVal_def)

lemma separators_not_ident:
  "isIdentChar CHR ''.'' = False" "isIdentChar CHR ''+'' = False"
  by (simp_all add: isIdentChar_def isDigit_def isLetter_def digitVal_def)

lemma itoa_no_separator:
  "CHR ''.'' \<notin> set (itoa n)" "CHR ''-'' \<notin> set (itoa n)" "CHR ''+'' \<notin> set (itoa n)"
  "hd (itoa n) \<noteq> CHR ''v''"
proof -
  have d: "\<forall>c\<in>set (itoa n). isDigit c"
    using itoa_digits_all [of n] by (simp add: list_all_iff)
  show "CHR ''.'' \<notin> set (itoa n)" "CHR ''-'' \<notin> set (itoa n)" "CHR ''+'' \<notin> set (itoa n)"
    using d separators_not_digits by blast+
  have "hd (itoa n) \<in> set (itoa n)" by (simp add: itoa_nonempty)
  then show "hd (itoa n) \<noteq> CHR ''v''"
    using d separators_not_digits(4) by metis
qed

lemma ids_no_separator:
  assumes "list_all (\<lambda>x. x \<noteq> [] \<and> list_all isIdentChar x) ids"
  shows "\<forall>x\<in>set ids. CHR ''.'' \<notin> set x" and "CHR ''+'' \<notin> set (strings_Join ids ''.'')"
proof -
  have i: "\<forall>x\<in>set ids. \<forall>c\<in>set x. isIdentChar c"
    using assms by (simp add: list_all_iff)
  show "\<forall>x\<in>set ids. CHR ''.'' \<notin> set x"
    using i separators_not_ident(1) by blast
  have "\<forall>c\<in>set (strings_Join ids ''.''). isIdentChar c \<or> c = CHR ''.''"
    using i strings_Join_set [of ids "''.''"] by auto
  then show "CHR ''+'' \<notin> set (strings_Join ids ''.'')"
    using separators_not_ident(2) by auto
qed

lemma strip_v: "s \<noteq> [] \<Longrightarrow> hd s \<noteq> CHR ''v'' \<Longrightarrow>
  (case s of [] \<Rightarrow> [] | c # cs \<Rightarrow> if c = CHR ''v'' then cs else c # cs) = s"
  by (cases s) simp_all

lemma NewVersion_body:
  assumes wf: "wellFormed v" and body: "body = showVersion v"
  shows "(let (rest, build) = strings_Cut body CHR ''+'';
              (core, pre) = strings_Cut rest CHR ''-'';
              buildIds = (case build of None \<Rightarrow> [] | Some b \<Rightarrow> strings_Split b CHR ''.'');
              preIds = (case pre of None \<Rightarrow> [] | Some p \<Rightarrow> strings_Split p CHR ''.'')
          in if list_all validPreId preIds \<and> list_all validBuildId buildIds then
               (case map parseNumber (strings_Split core CHR ''.'') of
                  [Some major, Some minor, Some patch] \<Rightarrow>
                    Some \<lparr>Major = major, Minor = minor, Patch = patch,
                          Prerelease = preIds, Metadata = buildIds\<rparr>
                | _ \<Rightarrow> None)
             else None) = Some v"
proof -
  define core where "core = itoa (Major v) @ ''.'' @ itoa (Minor v) @ ''.'' @ itoa (Patch v)"
  define preS where
    "preS = (if Prerelease v = [] then [] else CHR ''-'' # strings_Join (Prerelease v) ''.'')"
  define buildS where
    "buildS = (if Metadata v = [] then [] else CHR ''+'' # strings_Join (Metadata v) ''.'')"
  have b: "body = core @ preS @ buildS"
    by (simp add: body showVersion_def core_def preS_def buildS_def)
  have pre: "list_all (\<lambda>x. x \<noteq> [] \<and> list_all isIdentChar x) (Prerelease v)"
    using wf by (simp add: wellFormed_def validPreId_def list_all_iff)
  have bld: "list_all (\<lambda>x. x \<noteq> [] \<and> list_all isIdentChar x) (Metadata v)"
    using wf by (simp add: wellFormed_def validBuildId_def list_all_iff)
  have core_plus: "CHR ''+'' \<notin> set core" and core_minus: "CHR ''-'' \<notin> set core"
    by (simp_all add: core_def itoa_no_separator)
  have pre_plus: "CHR ''+'' \<notin> set preS"
    using ids_no_separator(2) [OF pre] by (simp add: preS_def)
  have cut1: "strings_Cut body CHR ''+'' =
      (core @ preS, if Metadata v = [] then None else Some (strings_Join (Metadata v) ''.''))"
  proof (cases "Metadata v = []")
    case True
    then show ?thesis
      using strings_Cut_none [of "CHR ''+''" "core @ preS"] core_plus pre_plus
      by (simp add: b buildS_def)
  next
    case False
    then show ?thesis
      using strings_Cut_found [of "CHR ''+''" "core @ preS"] core_plus pre_plus
      by (simp add: b buildS_def)
  qed
  have cut2: "strings_Cut (core @ preS) CHR ''-'' =
      (core, if Prerelease v = [] then None else Some (strings_Join (Prerelease v) ''.''))"
  proof (cases "Prerelease v = []")
    case True
    then show ?thesis
      using strings_Cut_none [of "CHR ''-''" core] core_minus by (simp add: preS_def)
  next
    case False
    then show ?thesis
      using strings_Cut_found [of "CHR ''-''" core] core_minus by (simp add: preS_def)
  qed
  have split_core: "strings_Split core CHR ''.'' = [itoa (Major v), itoa (Minor v), itoa (Patch v)]"
    by (simp add: core_def strings_Split_append strings_Split_field itoa_no_separator)
  have split_pre: "(if Prerelease v = [] then []
       else strings_Split (strings_Join (Prerelease v) ''.'') CHR ''.'') = Prerelease v"
    using strings_Split_Join [of "Prerelease v" "CHR ''.''"] ids_no_separator(1) [OF pre] by simp
  have split_bld: "(if Metadata v = [] then []
       else strings_Split (strings_Join (Metadata v) ''.'') CHR ''.'') = Metadata v"
    using strings_Split_Join [of "Metadata v" "CHR ''.''"] ids_no_separator(1) [OF bld] by simp
  have ids: "(case (if Prerelease v = [] then None else Some (strings_Join (Prerelease v) ''.'')) of
                None \<Rightarrow> [] | Some p \<Rightarrow> strings_Split p CHR ''.'') = Prerelease v"
      "(case (if Metadata v = [] then None else Some (strings_Join (Metadata v) ''.'')) of
                None \<Rightarrow> [] | Some p \<Rightarrow> strings_Split p CHR ''.'') = Metadata v"
    using split_pre split_bld by (simp_all split: if_splits)
  show ?thesis
    using wf
    by (simp add: cut1 cut2 ids split_core parseNumber_itoa wellFormed_def)
qed

lemma NewVersion_showVersion:
  assumes "wellFormed v"
  shows "NewVersion (showVersion v) = Some v" and "NewVersion (CHR ''v'' # showVersion v) = Some v"
proof -
  have ne: "showVersion v \<noteq> []" and hd: "hd (showVersion v) \<noteq> CHR ''v''"
    using itoa_nonempty [of "Major v"] itoa_no_separator(4) [of "Major v"]
    by (simp_all add: showVersion_def)
  show "NewVersion (showVersion v) = Some v"
    unfolding NewVersion_def strip_v [OF ne hd] Let_def [of "showVersion v"]
    by (rule NewVersion_body [OF assms refl])
  show "NewVersion (CHR ''v'' # showVersion v) = Some v"
    unfolding NewVersion_def list.case if_True Let_def [of "showVersion v"]
    using NewVersion_body [OF assms refl] by simp
qed

lemma split_ids:
  "(case r of None \<Rightarrow> [] | Some p \<Rightarrow> strings_Split p CHR ''.'') = ids \<Longrightarrow>
   (case r of None \<Rightarrow> [] | Some a \<Rightarrow> sep # a) =
     (if ids = [] then [] else sep # strings_Join ids ''.'')"
  using strings_Join_Split [of _ "CHR ''.''"] strings_Split_nonempty
  by (cases r) auto

lemma NewVersion_sound:
  assumes "NewVersion s = Some v"
  shows "wellFormed v \<and> (s = showVersion v \<or> s = CHR ''v'' # showVersion v)"
proof -
  define body where
    "body = (case s of [] \<Rightarrow> [] | c # cs \<Rightarrow> if c = CHR ''v'' then cs else c # cs)"
  obtain rest build where cut1: "strings_Cut body CHR ''+'' = (rest, build)"
    by (cases "strings_Cut body CHR ''+''")
  obtain core pre where cut2: "strings_Cut rest CHR ''-'' = (core, pre)"
    by (cases "strings_Cut rest CHR ''-''")
  define buildIds where
    "buildIds = (case build of None \<Rightarrow> [] | Some b \<Rightarrow> strings_Split b CHR ''.'')"
  define preIds where
    "preIds = (case pre of None \<Rightarrow> [] | Some p \<Rightarrow> strings_Split p CHR ''.'')"
  have run: "(if list_all validPreId preIds \<and> list_all validBuildId buildIds then
           (case map parseNumber (strings_Split core CHR ''.'') of
              [Some major, Some minor, Some patch] \<Rightarrow>
                Some \<lparr>Major = major, Minor = minor, Patch = patch,
                      Prerelease = preIds, Metadata = buildIds\<rparr>
            | _ \<Rightarrow> None)
         else None) = Some v"
    using assms unfolding NewVersion_def body_def [symmetric] Let_def cut1 cut2 prod.case
      buildIds_def [symmetric] preIds_def [symmetric] .
  then have valid: "list_all validPreId preIds" "list_all validBuildId buildIds"
    by (simp_all split: if_splits)
  with run obtain x y z where
    fields: "strings_Split core CHR ''.'' = [x, y, z]" and
    nums: "parseNumber x = Some (Major v)" "parseNumber y = Some (Minor v)"
      "parseNumber z = Some (Patch v)" and
    ids: "Prerelease v = preIds" "Metadata v = buildIds"
    by (auto simp: map_eq_Cons_conv split: list.splits option.splits)
  have core: "core = itoa (Major v) @ ''.'' @ itoa (Minor v) @ ''.'' @ itoa (Patch v)"
    using strings_Join_Split [of core "CHR ''.''"] fields
      parseNumber_is_itoa [OF nums(1)] parseNumber_is_itoa [OF nums(2)]
      parseNumber_is_itoa [OF nums(3)]
    by simp
  have rest: "rest = core @ (if preIds = [] then [] else CHR ''-'' # strings_Join preIds ''.'')"
    using strings_Cut_whole [OF cut2] split_ids [OF preIds_def [symmetric]] by simp
  have body: "body = rest @ (if buildIds = [] then [] else CHR ''+'' # strings_Join buildIds ''.'')"
    using strings_Cut_whole [OF cut1] split_ids [OF buildIds_def [symmetric]] by simp
  have "body = showVersion v"
    by (simp add: body rest core showVersion_def ids)
  moreover have "s = body \<or> s = CHR ''v'' # body"
    by (cases s) (auto simp: body_def)
  moreover have "wellFormed v"
    using valid by (simp add: wellFormed_def ids)
  ultimately show ?thesis by auto
qed

lemma NewVersion_iff:
  "NewVersion s = Some v \<longleftrightarrow> isSemanticVersion s v"
  using NewVersion_sound [of s v] NewVersion_showVersion [of v]
  by (auto simp: isSemanticVersion_def)

lemma NewVersion_examples:
  "NewVersion ''5.4.0'' = Some \<lparr>Major = 5, Minor = 4, Patch = 0, Prerelease = [], Metadata = []\<rparr>"
  "NewVersion ''v5.4.0'' = Some \<lparr>Major = 5, Minor = 4, Patch = 0, Prerelease = [], Metadata = []\<rparr>"
  "NewVersion ''5.3.9'' = Some \<lparr>Major = 5, Minor = 3, Patch = 9, Prerelease = [], Metadata = []\<rparr>"
  "NewVersion ''latest'' = None"
  "NewVersion ''v6.0.0-alpha'' =
     Some \<lparr>Major = 6, Minor = 0, Patch = 0, Prerelease = [''alpha''], Metadata = []\<rparr>"
  "NewVersion ''5.4.0-rc.1'' =
     Some \<lparr>Major = 5, Minor = 4, Patch = 0, Prerelease = [''rc'', ''1''], Metadata = []\<rparr>"
  "NewVersion ''05.4.0'' = None"
  by (simp_all add: NewVersion_def strings_Cut_def parseNumber_def digitVal_def validPreId_def
      validBuildId_def isIdentChar_def isDigit_def isLetter_def)

lemma v540_parses: "tiflashEqualOrGreaterThanV540_Check ''v5.4.0'' = Inr True"
  by (simp add: tiflashEqualOrGreaterThanV540_Check_def NewVersion_examples)

subsection \<open>What the two dialects write at single keys\<close>

lemma legacy_override_None: "k \<notin> legacyRewritten tc \<Longrightarrow> map_of (legacyOverride d tc) k = None"
  by (simp add: legacyRewritten_def legacyOverride_def tlsCommonOverride_def split: if_splits)

lemma v2_override_None: "k \<notin> v2Rewritten tc \<Longrightarrow> map_of (v2Override d tc) k = None"
  by (simp add: v2Rewritten_def v2Override_def tlsCommonOverride_def split: if_splits)

lemma proxy_override_None: "k \<notin> proxyRewritten tc \<Longrightarrow> map_of (proxyOverride d tc) k = None"
  by (simp add: proxyRewritten_def proxyOverride_def split: if_splits)




lemma Heterogeneous_declares_reference:
  "Heterogeneous tc \<Longrightarrow> \<exists>r. Cluster (Spec tc) = Some r"
  by (auto simp: Heterogeneous_def)




lemma itoa_digits: "itoa 0 = ''0''" "itoa (Suc 0) = ''1''" "itoa (Suc (Suc 0)) = ''2''"
  by (simp_all add: itoa.simps)

lemma storagePaths_three:
  assumes "length cs = 3"
  shows "storagePaths 0 cs = [''/data0/db'', ''/data1/db'', ''/data2/db'']"
proof -
  obtain a b c where "cs = [a, b, c]"
    using assms by (auto simp: numeral_3_eq_3 length_Suc_conv)
  then show ?thesis by (simp add: itoa_digits)
qed

lemma legacyTable_path:
  "map_of (legacyTable d tc) ''path'' =
     (if length (storagePaths 0 (StorageClaims (TiFlash (Spec tc)))) > 0
      then Some (VString (strings_Join (storagePaths 0 (StorageClaims (TiFlash (Spec tc)))) '',''))
      else Some (VString ''/data0/db''))"
  by (simp add: legacyTable_def legacyPathDefault_def commonDefaults_def flashDefaults_def
      loggerDefaults_def raftDefaults_def)

lemma v2FullTable_main_dir:
  "map_of (v2FullTable d tc) ''storage.main.dir'' =
     (if inCommon tc ''path'' = None then Some (VStrings (v2Paths tc)) else None)"
  by (simp add: v2FullTable_def v2Table_def v2Defaults_def)

lemma override_storage:
  "map_of (legacyOverride d tc) ''path'' = None"
  "map_of (v2Override d tc) ''storage.main.dir'' = None"
  by (simp_all add: legacyOverride_def v2Override_def tlsCommonOverride_def)

lemma v2FullTable_ports:
  "map_of (v2FullTable d tc) ''tcp_port'' = Some (VInt 9000)"
  "map_of (v2FullTable d tc) ''http_port'' = Some (VInt 8123)"
  "map_of (v2FullTable d tc) ''tcp_port_secure'' =
     (if IsTLSClusterEnabled tc then Some (VInt 9000) else None)"
  "map_of (v2FullTable d tc) ''https_port'' =
     (if IsTLSClusterEnabled tc then Some (VInt 8123) else None)"
  by (simp_all add: v2FullTable_def v2Table_def v2Defaults_def)

lemma listenHost_ipv6: "(listenHostOf tc = listenHostForIPv6) = PreferIPv6 (Spec tc)"
  by (simp add: listenHostOf_def listenHostForIPv6_def listenHostForIPv4_def)

lemma v2FullTable_listen:
  "map_of (v2FullTable d tc) ''listen_host'' =
     (if PreferIPv6 (Spec tc) then Some (VString ''::'') else None)"
  "map_of (v2FullTable d tc) ''status.metrics_port'' =
     (if PreferIPv6 (Spec tc) then Some (VInt 8234) else None)"
  by (simp_all add: v2FullTable_def v2Table_def v2Defaults_def listenHost_ipv6)

lemma legacyTable_listen:
  "map_of (legacyTable d tc) ''listen_host'' =
     Some (VString (if PreferIPv6 (Spec tc) then ''::'' else ''0.0.0.0''))"
  "map_of (legacyTable d tc) ''status.metrics_port'' = Some (VInt 8234)"
  by (simp_all add: legacyTable_def legacyPathDefault_def commonDefaults_def flashDefaults_def
      loggerDefaults_def raftDefaults_def listenHost_ipv6)
    (simp_all add: listenHostOf_def listenHostForIPv4_def)

lemma override_listen:
  "map_of (legacyOverride d tc) ''listen_host'' = None"
  "map_of (legacyOverride d tc) ''status.metrics_port'' = None"
  "map_of (v2Override d tc) ''listen_host'' = None"
  "map_of (v2Override d tc) ''status.metrics_port'' = None"
  by (simp_all add: legacyOverride_def v2Override_def tlsCommonOverride_def)

lemma logDefault_common:
  "Common (setTiFlashLogConfigDefault
      (case DeepCopy (Config (TiFlash (Spec tc))) of None \<Rightarrow> NewTiFlashConfig | Some c \<Rightarrow> c)) =
     Some (applyDefaults logDefaults (inCommon tc))"
  by (simp add: setTiFlashLogConfigDefault_def Let_def onCommon_def inCommon_def NewTiFlashConfig_def
      NewTiFlashCommonConfig_def logDefaults_def DeepCopy_def split: option.splits)

lemma AsString_cases:
  "AsString (Some v) = (case v of VString s \<Rightarrow> Inr s | _ \<Rightarrow> Inl TypeMismatch)"
  by (simp add: AsString_def split: tval.splits)

lemma log_read:
  "map_of logDefaults k \<noteq> None \<Longrightarrow>
     (\<exists>s. map_of logDefaults k = Some (VString s)) \<Longrightarrow>
     AsString (Get (applyDefaults logDefaults c) k) =
       (case c k of
          None \<Rightarrow> AsString (map_of logDefaults k)
        | Some v \<Rightarrow> (case v of VString s \<Rightarrow> Inr s | _ \<Rightarrow> Inl TypeMismatch))"
  by (auto simp: Get_def applyDefaults_at AsString_cases split: option.splits)

lemma logDefaults_at:
  "map_of logDefaults ''logger.log'' = Some (VString defaultServerLog)"
  "map_of logDefaults ''logger.errorlog'' = Some (VString defaultErrorLog)"
  "map_of logDefaults ''flash.flash_cluster.log'' = Some (VString defaultClusterLog)"
  by (simp_all add: logDefaults_def)

lemma log_read_shape:
  assumes "map_of logDefaults k = Some (VString s)"
  shows "isl (AsString (Get (applyDefaults logDefaults c) k)) = holdsNonString (c k) \<and>
         (\<forall>e. AsString (Get (applyDefaults logDefaults c) k) = Inl e \<longrightarrow> e = TypeMismatch)"
proof (cases "c k")
  case None
  then show ?thesis
    using assms by (simp add: Get_def applyDefaults_at AsString_def holdsNonString_def)
next
  case (Some v)
  then show ?thesis
    by (cases v) (simp_all add: Get_def applyDefaults_at AsString_def holdsNonString_def)
qed

lemma frame_start: "frame (nextAddr s) s s"
  by (simp add: frame_def)

lemma newDoc_frame:
  assumes "frame n s0 s" and "newDoc c s = (b, s')"
  shows "frame n s0 s'" and "n \<le> b" and "wrapperAt s' = wrapperAt s" and "docAt s' b = Some c"
  using assms by (auto simp: frame_def newDoc_def)

lemma newWrapper_frame:
  assumes "frame n s0 s" and "newWrapper w s = (b, s')"
  shows "frame n s0 s'" and "n \<le> b" and "wrapperAt s' b = Some w"
  using assms by (auto simp: frame_def newWrapper_def)

lemma DeepCopyDoc_frame:
  assumes "frame n s0 s" and "DeepCopyDoc p s = (q, s')"
  shows "frame n s0 s'" and "freshPtr n q" and "wrapperAt s' = wrapperAt s"
proof -
  show "frame n s0 s'" and "freshPtr n q" and "wrapperAt s' = wrapperAt s"
    using assms
    by (auto simp: DeepCopyDoc_def freshPtr_def split: option.splits prod.splits
        dest: newDoc_frame)
qed

lemma DeepCopyConfig_frame:
  assumes f: "frame n s0 s" and dc: "DeepCopyConfig p s = (q, s')"
  shows "frame n s0 s' \<and> (case q of None \<Rightarrow> True | Some c \<Rightarrow> freshWrapper n s' c)"
proof (cases p)
  case None
  then show ?thesis using f dc by (simp add: DeepCopyConfig_def)
next
  case (Some a)
  show ?thesis
  proof (cases "wrapperAt s a")
    case None
    then show ?thesis using f dc Some by (simp add: DeepCopyConfig_def)
  next
    case (Some w)
    obtain c s1 where c: "DeepCopyDoc (CommonPtr w) s = (c, s1)" by (cases "DeepCopyDoc (CommonPtr w) s")
    obtain r s2 where r: "DeepCopyDoc (ProxyPtr w) s1 = (r, s2)" by (cases "DeepCopyDoc (ProxyPtr w) s1")
    obtain b s3 where b: "newWrapper \<lparr>CommonPtr = c, ProxyPtr = r\<rparr> s2 = (b, s3)"
      by (cases "newWrapper \<lparr>CommonPtr = c, ProxyPtr = r\<rparr> s2")
    have res: "q = Some b" "s' = s3"
      using dc \<open>p = Some a\<close> Some c r b by (simp_all add: DeepCopyConfig_def)
    have f1: "frame n s0 s1" and oc: "freshPtr n c"
      using DeepCopyDoc_frame [OF f c] by simp_all
    have f2: "frame n s0 s2" and orr: "freshPtr n r"
      using DeepCopyDoc_frame [OF f1 r] by simp_all
    have f3: "frame n s0 s3" and nb: "n \<le> b"
        and wb: "wrapperAt s3 b = Some \<lparr>CommonPtr = c, ProxyPtr = r\<rparr>"
      using newWrapper_frame [OF f2 b] by simp_all
    show ?thesis
      using f3 nb wb oc orr res by (simp add: freshWrapper_def commonPtrOf_def proxyPtrOf_def)
  qed
qed

lemma NewTiFlashConfigS_inv:
  assumes f: "frame n s0 s" and nw: "NewTiFlashConfigS s = (config, s')"
  shows "inv n s0 config s'"
proof -
  obtain c s1 where c: "newDoc NewTiFlashCommonConfig s = (c, s1)"
    by (cases "newDoc NewTiFlashCommonConfig s")
  obtain r s2 where r: "newDoc NewTiFlashProxyConfig s1 = (r, s2)"
    by (cases "newDoc NewTiFlashProxyConfig s1")
  have w: "newWrapper \<lparr>CommonPtr = Some c, ProxyPtr = Some r\<rparr> s2 = (config, s')"
    using nw c r by (simp add: NewTiFlashConfigS_def)
  have f1: "frame n s0 s1" and nc: "n \<le> c" using newDoc_frame [OF f c] by simp_all
  have f2: "frame n s0 s2" and nr: "n \<le> r" using newDoc_frame [OF f1 r] by simp_all
  have f3: "frame n s0 s'" and nb: "n \<le> config"
      and wb: "wrapperAt s' config = Some \<lparr>CommonPtr = Some c, ProxyPtr = Some r\<rparr>"
    using newWrapper_frame [OF f2 w] by simp_all
  show ?thesis
    using f3 nb wb nc nr by (simp add: inv_def freshWrapper_def commonPtrOf_def proxyPtrOf_def freshPtr_def)
qed

lemma copyOrNew_inv:
  assumes f: "frame n s0 s" and cn: "copyOrNew p s = (config, s')"
  shows "inv n s0 config s'"
proof -
  obtain q s1 where q: "DeepCopyConfig p s = (q, s1)" by (cases "DeepCopyConfig p s")
  have f1: "frame n s0 s1" and ow: "case q of None \<Rightarrow> True | Some c \<Rightarrow> freshWrapper n s1 c"
    using DeepCopyConfig_frame [OF f q] by simp_all
  show ?thesis
  proof (cases q)
    case None
    then have "NewTiFlashConfigS s1 = (config, s')"
      using cn q by (simp add: copyOrNew_def)
    then show ?thesis by (rule NewTiFlashConfigS_inv [OF f1])
  next
    case (Some c)
    then have "config = c" "s' = s1"
      using cn q by (simp_all add: copyOrNew_def)
    then show ?thesis using f1 ow Some by (simp add: inv_def)
  qed
qed

lemma mutate_inv:
  assumes "inv n s0 config s" and "freshPtr n p"
  shows "inv n s0 config (mutate p f s)"
  using assms
  by (auto simp: inv_def frame_def freshWrapper_def freshPtr_def mutate_def commonPtrOf_def proxyPtrOf_def
      split: option.splits)

lemma onCommonS_inv: "inv n s0 config s \<Longrightarrow> inv n s0 config (onCommonS config f s)"
  unfolding onCommonS_def by (rule mutate_inv) (simp_all add: inv_def freshWrapper_def)

lemma onProxyS_inv: "inv n s0 config s \<Longrightarrow> inv n s0 config (onProxyS config f s)"
  unfolding onProxyS_def by (rule mutate_inv) (simp_all add: inv_def freshWrapper_def)

lemma ensureCommon_inv:
  assumes "inv n s0 config s"
  shows "inv n s0 config (ensureCommon config s)"
  using assms
  by (auto simp: ensureCommon_def newDoc_def setCommonPtr_def inv_def frame_def freshWrapper_def freshPtr_def
      commonPtrOf_def proxyPtrOf_def split: option.splits)

lemma ensureProxy_inv:
  assumes "inv n s0 config s"
  shows "inv n s0 config (ensureProxy config s)"
  using assms
  by (auto simp: ensureProxy_def newDoc_def setProxyPtr_def inv_def frame_def freshWrapper_def freshPtr_def
      commonPtrOf_def proxyPtrOf_def split: option.splits)

lemma inv_if: "inv n s0 c A \<Longrightarrow> inv n s0 c B \<Longrightarrow> inv n s0 c (if b then A else B)"
  by simp

lemma inv_case_option:
  "inv n s0 c A \<Longrightarrow> (\<And>v. inv n s0 c (B v)) \<Longrightarrow> inv n s0 c (case x of None \<Rightarrow> A | Some v \<Rightarrow> B v)"
  by (cases x) simp_all

lemmas inv_steps = onCommonS_inv onProxyS_inv ensureCommon_inv ensureProxy_inv inv_if inv_case_option

lemma setTiFlashConfigDefaultS_inv:
  "inv n s0 config s \<Longrightarrow>
   inv n s0 config (setTiFlashConfigDefaultS d config ref cn ns cd lh a b e s)"
  unfolding setTiFlashConfigDefaultS_def Let_def by (intro inv_steps)

lemma setTiFlashLogConfigDefaultS_inv:
  "inv n s0 config s \<Longrightarrow> inv n s0 config (setTiFlashLogConfigDefaultS config s)"
  unfolding setTiFlashLogConfigDefaultS_def Let_def by (intro inv_steps)

lemma getTiFlashConfigS_inv:
  "inv (nextAddr s) s (fst (getTiFlashConfigS d tc p s)) (snd (getTiFlashConfigS d tc p s))"
proof -
  obtain c s1 where cn: "copyOrNew p s = (c, s1)" by (cases "copyOrNew p s")
  have i1: "inv (nextAddr s) s c s1" by (rule copyOrNew_inv [OF frame_start cn])
  show ?thesis
  proof (cases "IsTLSClusterEnabled tc")
    case True
    show ?thesis
      unfolding getTiFlashConfigS_def cn Let_def prod.case
      apply (simp only: True if_True fst_conv snd_conv)
      apply (intro inv_steps setTiFlashConfigDefaultS_inv i1)
      done
  next
    case False
    show ?thesis
      unfolding getTiFlashConfigS_def cn Let_def prod.case
      apply (simp only: False if_False fst_conv snd_conv)
      apply (intro inv_steps setTiFlashConfigDefaultS_inv i1)
      done
  qed
qed

lemma getTiFlashConfigV2S_inv:
  "inv (nextAddr s) s (fst (getTiFlashConfigV2S d tc p s)) (snd (getTiFlashConfigV2S d tc p s))"
proof -
  obtain c s1 where cn: "copyOrNew p s = (c, s1)" by (cases "copyOrNew p s")
  define s2 where "s2 = ensureProxy c (ensureCommon c s1)"
  have i1: "inv (nextAddr s) s c s1" by (rule copyOrNew_inv [OF frame_start cn])
  have i2: "inv (nextAddr s) s c s2"
    unfolding s2_def by (intro inv_steps i1)
  have oc: "freshPtr (nextAddr s) (commonPtrOf s2 c)" and op: "freshPtr (nextAddr s) (proxyPtrOf s2 c)"
    using i2 by (simp_all add: inv_def freshWrapper_def)
  note steps = inv_steps mutate_inv oc op i2
  show ?thesis
  proof (cases "IsTLSClusterEnabled tc")
    case True
    show ?thesis
      unfolding getTiFlashConfigV2S_def cn Let_def prod.case s2_def [symmetric]
      apply (simp only: True if_True fst_conv snd_conv)
      apply (intro steps)
      done
  next
    case False
    show ?thesis
      unfolding getTiFlashConfigV2S_def cn Let_def prod.case s2_def [symmetric]
      apply (simp only: False if_False fst_conv snd_conv)
      apply (intro steps)
      done
  qed
qed

lemma buildTiFlashSidecarContainersS_store:
  "snd (buildTiFlashSidecarContainersS d tc p s) =
     setTiFlashLogConfigDefaultS (fst (copyOrNew p s)) (snd (copyOrNew p s))"
  by (simp add: buildTiFlashSidecarContainersS_def Let_def split: prod.splits sum.splits)

lemma buildTiFlashSidecarContainersS_frame:
  "frame (nextAddr s) s (snd (buildTiFlashSidecarContainersS d tc p s))"
proof -
  obtain c s1 where cn: "copyOrNew p s = (c, s1)" by (cases "copyOrNew p s")
  have i1: "inv (nextAddr s) s c s1" by (rule copyOrNew_inv [OF frame_start cn])
  have "inv (nextAddr s) s c (setTiFlashLogConfigDefaultS c s1)"
    by (rule setTiFlashLogConfigDefaultS_inv [OF i1])
  then show ?thesis
    unfolding buildTiFlashSidecarContainersS_store cn by (simp add: inv_def)
qed

subsection \<open>The store functions compute the value functions\<close>

lemma DeepCopyDoc_read:
  assumes "allocatedPtr s p" and "DeepCopyDoc p s = (q, s')"
  shows "readDoc s' q = readDoc s p" and "livePtr s' q" and "wrapperAt s' = wrapperAt s"
    and "\<And>a. a < nextAddr s \<Longrightarrow> docAt s' a = docAt s a"
    and "nextAddr s \<le> nextAddr s'" and "freshPtr (nextAddr s) q"
    and "\<And>a. nextAddr s' \<le> a \<Longrightarrow> docAt s' a = docAt s a"
  using assms
  by (auto simp: DeepCopyDoc_def newDoc_def readDoc_def livePtr_def allocatedPtr_def freshPtr_def
      split: option.splits)

lemma NewTiFlashConfigS_read:
  assumes "NewTiFlashConfigS s = (c, s')"
  shows "separated s' c" and "readWrapper s' c = NewTiFlashConfig"
  using assms
  by (auto simp: NewTiFlashConfigS_def newDoc_def newWrapper_def separated_def livePtr_def readWrapper_def
      readDoc_def commonPtrOf_def proxyPtrOf_def NewTiFlashConfig_def Let_def)

lemma DeepCopyConfig_read:
  assumes al: "allocatedConfig s p" and dc: "DeepCopyConfig p s = (q, s')"
  shows "case q of
           None \<Rightarrow> readConfig s p = None
         | Some c \<Rightarrow> separated s' c \<and> readConfig s p = Some (readWrapper s' c)"
proof (cases p)
  case None
  then show ?thesis using dc by (simp add: DeepCopyConfig_def readConfig_def)
next
  case (Some a)
  show ?thesis
  proof (cases "wrapperAt s a")
    case None
    then show ?thesis using dc Some by (simp add: DeepCopyConfig_def readConfig_def)
  next
    case w: (Some w)
    obtain cq s1 where c: "DeepCopyDoc (CommonPtr w) s = (cq, s1)" by (cases "DeepCopyDoc (CommonPtr w) s")
    obtain pq s2 where r: "DeepCopyDoc (ProxyPtr w) s1 = (pq, s2)" by (cases "DeepCopyDoc (ProxyPtr w) s1")
    obtain b s3 where b: "newWrapper \<lparr>CommonPtr = cq, ProxyPtr = pq\<rparr> s2 = (b, s3)"
      by (cases "newWrapper \<lparr>CommonPtr = cq, ProxyPtr = pq\<rparr> s2")
    have res: "q = Some b" "s' = s3"
      using dc Some w c r b by (simp_all add: DeepCopyConfig_def)
    have alc: "allocatedPtr s (CommonPtr w)" and alp: "allocatedPtr s (ProxyPtr w)"
      using al Some w by (simp_all add: allocatedConfig_def)
    note c1 = DeepCopyDoc_read [OF alc c]
    have alp1: "allocatedPtr s1 (ProxyPtr w)"
      using alp c1(5) by (auto simp: allocatedPtr_def split: option.splits)
    note r1 = DeepCopyDoc_read [OF alp1 r]
    have s3: "docAt s3 = docAt s2" "wrapperAt s3 b = Some \<lparr>CommonPtr = cq, ProxyPtr = pq\<rparr>"
        "nextAddr s3 = Suc (nextAddr s2)"
      using b by (auto simp: newWrapper_def)
    have rc: "readDoc s3 cq = readDoc s (CommonPtr w)"
      using c1(1,2) r1(4) s3(1) by (auto simp: readDoc_def livePtr_def split: option.splits)
    have rp: "readDoc s3 pq = readDoc s (ProxyPtr w)"
      using r1(1) c1(4) alp s3(1) by (auto simp: readDoc_def allocatedPtr_def split: option.splits)
    have lc: "livePtr s3 cq"
      using c1(2) r1(4,5) s3 by (auto simp: livePtr_def split: option.splits)
    have lp: "livePtr s3 pq"
      using r1(2) s3 by (auto simp: livePtr_def split: option.splits)
    have ne: "cq = None \<or> cq \<noteq> pq"
      using c1(2) r1(6) by (auto simp: livePtr_def freshPtr_def split: option.splits)
    have rw: "readWrapper s3 b = \<lparr>Common = readDoc s (CommonPtr w), Proxy = readDoc s (ProxyPtr w)\<rparr>"
      using s3(2) rc rp by (simp add: readWrapper_def commonPtrOf_def proxyPtrOf_def)
    have old: "readConfig s p = Some \<lparr>Common = readDoc s (CommonPtr w), Proxy = readDoc s (ProxyPtr w)\<rparr>"
      using Some w by (simp add: readConfig_def readWrapper_def commonPtrOf_def proxyPtrOf_def)
    have "separated s3 b"
      using s3(2) lc lp ne by (simp add: separated_def commonPtrOf_def proxyPtrOf_def)
    then show ?thesis using res rw old by simp
  qed
qed

lemma copyOrNew_read:
  assumes al: "allocatedConfig s p" and cn: "copyOrNew p s = (c, s')"
  shows "separated s' c \<and>
     readWrapper s' c = (case readConfig s p of None \<Rightarrow> NewTiFlashConfig | Some cfg \<Rightarrow> cfg)"
proof -
  obtain q s1 where q: "DeepCopyConfig p s = (q, s1)" by (cases "DeepCopyConfig p s")
  note dr = DeepCopyConfig_read [OF al q]
  show ?thesis
  proof (cases q)
    case None
    then have nw: "NewTiFlashConfigS s1 = (c, s')" and rc: "readConfig s p = None"
      using cn q dr by (simp_all add: copyOrNew_def)
    show ?thesis
      using NewTiFlashConfigS_read [OF nw] rc by simp
  next
    case (Some b)
    then have eq: "c = b" "s' = s1"
      using cn q by (simp_all add: copyOrNew_def)
    show ?thesis using dr Some eq by simp
  qed
qed

lemma onCommonS_read:
  assumes "separated s c"
  shows "separated (onCommonS c f s) c" and "readWrapper (onCommonS c f s) c = onCommon f (readWrapper s c)"
  using assms
  by (auto simp: separated_def onCommonS_def onCommon_def readWrapper_def readDoc_def livePtr_def
      commonPtrOf_def proxyPtrOf_def mutate_def split: option.splits)

lemma onProxyS_read:
  assumes "separated s c"
  shows "separated (onProxyS c f s) c" and "readWrapper (onProxyS c f s) c = onProxy f (readWrapper s c)"
  using assms
  by (auto simp: separated_def onProxyS_def onProxy_def readWrapper_def readDoc_def livePtr_def
      commonPtrOf_def proxyPtrOf_def mutate_def split: option.splits)

lemma ensureCommon_read:
  assumes "separated s c"
  shows "separated (ensureCommon c s) c"
    and "readWrapper (ensureCommon c s) c =
      (if Common (readWrapper s c) = None then (readWrapper s c)\<lparr>Common := Some NewTiFlashCommonConfig\<rparr>
       else readWrapper s c)"
  using assms
  by (auto simp: separated_def ensureCommon_def newDoc_def setCommonPtr_def readWrapper_def readDoc_def
      livePtr_def commonPtrOf_def proxyPtrOf_def split: option.splits)

lemma ensureProxy_read:
  assumes "separated s c"
  shows "separated (ensureProxy c s) c"
    and "readWrapper (ensureProxy c s) c =
      (if Proxy (readWrapper s c) = None then (readWrapper s c)\<lparr>Proxy := Some NewTiFlashProxyConfig\<rparr>
       else readWrapper s c)"
  using assms
  by (auto simp: separated_def ensureProxy_def newDoc_def setProxyPtr_def readWrapper_def readDoc_def
      livePtr_def commonPtrOf_def proxyPtrOf_def split: option.splits)

lemma GetS_read:
  "GetS s (commonPtrOf s c) k = GetAt (Common (readWrapper s c)) k"
  "GetS s (proxyPtrOf s c) k = GetAt (Proxy (readWrapper s c)) k"
  by (auto simp: GetS_def GetAt_def readWrapper_def readDoc_def split: option.splits)

lemma simW_onCommonS: "simW c s cfg \<Longrightarrow> simW c (onCommonS c f s) (onCommon f cfg)"
  unfolding simW_def using onCommonS_read by blast

lemma simW_onProxyS: "simW c s cfg \<Longrightarrow> simW c (onProxyS c f s) (onProxy f cfg)"
  unfolding simW_def using onProxyS_read by blast

lemma simW_ensureCommon:
  "simW c s cfg \<Longrightarrow> simW c (ensureCommon c s)
      (if Common cfg = None then cfg\<lparr>Common := Some NewTiFlashCommonConfig\<rparr> else cfg)"
  unfolding simW_def using ensureCommon_read by blast

lemma simW_ensureProxy:
  "simW c s cfg \<Longrightarrow> simW c (ensureProxy c s)
      (if Proxy cfg = None then cfg\<lparr>Proxy := Some NewTiFlashProxyConfig\<rparr> else cfg)"
  unfolding simW_def using ensureProxy_read by blast

lemma simW_GetS:
  "simW c s cfg \<Longrightarrow> GetS s (commonPtrOf s c) k = GetAt (Common cfg) k"
  "simW c s cfg \<Longrightarrow> GetS s (proxyPtrOf s c) k = GetAt (Proxy cfg) k"
  unfolding simW_def using GetS_read by blast+

lemma simW_setTiFlashConfigDefaultS:
  assumes "simW c s cfg"
  shows "simW c (setTiFlashConfigDefaultS d c ref cn ns cd lh a b e s)
      (setTiFlashConfigDefault d cfg ref cn ns cd lh a b e)"
  unfolding setTiFlashConfigDefaultS_def setTiFlashConfigDefault_def Let_def
  by (intro simW_onCommonS simW_onProxyS simW_ensureCommon simW_ensureProxy assms)

lemma simW_setTiFlashLogConfigDefaultS:
  assumes "simW c s cfg"
  shows "simW c (setTiFlashLogConfigDefaultS c s) (setTiFlashLogConfigDefault cfg)"
  unfolding setTiFlashLogConfigDefaultS_def setTiFlashLogConfigDefault_def Let_def
  by (intro simW_onCommonS simW_onProxyS simW_ensureCommon simW_ensureProxy assms)

lemma resW_Let:
  "simW c A X \<Longrightarrow> (\<And>s' cfg'. simW c s' cfg' \<Longrightarrow> resW c (g s') (h cfg')) \<Longrightarrow>
     resW c (Let A g) (Let X h)"
  by simp

lemma resW_Let_value:
  "a = x \<Longrightarrow> (\<And>v. resW c (g v) (h v)) \<Longrightarrow> resW c (Let a g) (Let x h)"
  by simp

lemma resW_if:
  "resW c A X \<Longrightarrow> resW c B Y \<Longrightarrow> resW c (if b then A else B) (if b then X else Y)"
  by simp

lemma resW_final: "simW c s cfg \<Longrightarrow> resW c (c, s) cfg"
  by (simp add: resW_def)

lemma simW_path_step:
  assumes "simW c s cfg"
  shows "simW c
     (if GetS s (commonPtrOf s c) k = None then
        (let paths = P in if length paths > 0 then onCommonS c (Set_key k (V paths)) s else s)
      else s)
     (if GetAt (Common cfg) k = None then
        (let paths = P in if length paths > 0 then onCommon (Set_key k (V paths)) cfg else cfg)
      else cfg)"
  using assms simW_onCommonS [OF assms] by (simp add: simW_GetS [OF assms] Let_def)

lemma simW_cn_step:
  assumes "simW c s cfg"
  shows "simW c
     (case GetS s (commonPtrOf s c) k1 of
        Some v \<Rightarrow> (if GetS s (proxyPtrOf s c) k2 = None then onProxyS c (Set_key k3 v) s else s)
      | None \<Rightarrow> s)
     (case GetAt (Common cfg) k1 of
        Some v \<Rightarrow> (if GetAt (Proxy cfg) k2 = None then onProxy (Set_key k3 v) cfg else cfg)
      | None \<Rightarrow> cfg)"
proof (cases "GetAt (Common cfg) k1")
  case None
  then show ?thesis using assms by (simp add: simW_GetS [OF assms])
next
  case (Some v)
  then show ?thesis
    using assms simW_onProxyS [OF assms, of "Set_key k3 v"] by (simp add: simW_GetS [OF assms])
qed

lemma resW_entry:
  "copyOrNew p s = (c, s1) \<Longrightarrow> simW c s1 X \<Longrightarrow>
     (\<And>s' cfg'. simW c s' cfg' \<Longrightarrow> resW c (g c s') (h cfg')) \<Longrightarrow>
     resW c (Let (copyOrNew p s) (case_prod g)) (Let X h)"
  by simp

lemma resW_cn:
  assumes "simW c s cfg"
    and "\<And>s' cfg'. simW c s' cfg' \<Longrightarrow> resW c (g s') (h cfg')"
  shows "resW c
     (Let (GetS s (commonPtrOf s c) k1) (\<lambda>common. Let (GetS s (proxyPtrOf s c) k2) (\<lambda>proxy.
        Let (case common of
               Some v \<Rightarrow> (if proxy = None then onProxyS c (Set_key k3 v) s else s)
             | None \<Rightarrow> s) g)))
     (Let (GetAt (Common cfg) k1) (\<lambda>common. Let (GetAt (Proxy cfg) k2) (\<lambda>proxy.
        Let (case common of
               Some v \<Rightarrow> (if proxy = None then onProxy (Set_key k3 v) cfg else cfg)
             | None \<Rightarrow> cfg) h)))"
  unfolding Let_def by (rule assms(2), rule simW_cn_step, rule assms(1))

lemma getTiFlashConfigS_sim:
  assumes al: "allocatedConfig s p" and cfg: "Config (TiFlash (Spec tc)) = readConfig s p"
  shows "resW (fst (copyOrNew p s)) (getTiFlashConfigS d tc p s) (getTiFlashConfig d tc)"
proof -
  obtain c s1 where cn: "copyOrNew p s = (c, s1)" by (cases "copyOrNew p s")
  have s1: "simW c s1 (case DeepCopy (Config (TiFlash (Spec tc))) of
                         None \<Rightarrow> NewTiFlashConfig | Some c \<Rightarrow> c)"
    using copyOrNew_read [OF al cn] by (simp add: simW_def cfg DeepCopy_def)
  have "resW c (getTiFlashConfigS d tc p s) (getTiFlashConfig d tc)"
    unfolding getTiFlashConfigS_def getTiFlashConfig_def
    apply (rule resW_entry [OF cn s1])
    apply (rule resW_Let, erule simW_ensureCommon)
    apply (rule resW_Let, erule simW_path_step)
    apply (intro resW_Let_value refl allI)
    apply (rule resW_Let, erule simW_setTiFlashConfigDefaultS)
    apply (rule resW_if)
     apply (rule resW_Let, erule simW_onProxyS)
     apply (rule resW_Let, erule simW_onProxyS)
     apply (rule resW_Let, erule simW_onProxyS)
     apply (rule resW_Let, erule simW_onCommonS)
     apply (rule resW_Let, erule simW_onCommonS)
     apply (rule resW_Let, erule simW_onCommonS)
     apply (erule resW_cn)
     apply (rule resW_Let, erule simW_onCommonS)
     apply (rule resW_Let, erule simW_onCommonS)
     apply (erule resW_final)
    apply (rule resW_Let, erule simW_onCommonS)
    apply (rule resW_Let, erule simW_onCommonS)
    apply (erule resW_final)
    done
  then show ?thesis by (simp add: cn)
qed

lemma sim2_common: "sim2 c ac ap s cm px \<Longrightarrow> sim2 c ac ap (mutate (Some ac) f s) (f cm) px"
  by (simp add: sim2_def mutate_def)

lemma sim2_proxy: "sim2 c ac ap s cm px \<Longrightarrow> sim2 c ac ap (mutate (Some ap) f s) cm (f px)"
  by (simp add: sim2_def mutate_def)

lemma sim2_GetS:
  "sim2 c ac ap s cm px \<Longrightarrow> GetS s (Some ac) k = Get cm k"
  "sim2 c ac ap s cm px \<Longrightarrow> GetS s (Some ap) k = Get px k"
  by (simp_all add: sim2_def GetS_def)

lemma sim2_simW:
  "sim2 c ac ap s cm px \<Longrightarrow> simW c s \<lparr>Common = Some cm, Proxy = Some px\<rparr>"
  by (simp add: sim2_def simW_def separated_def livePtr_def readWrapper_def readDoc_def
      commonPtrOf_def proxyPtrOf_def)

lemma simW_sim2:
  assumes "simW c s \<lparr>Common = Some cm, Proxy = Some px\<rparr>"
  shows "\<exists>ac ap. sim2 c ac ap s cm px \<and> commonPtrOf s c = Some ac \<and> proxyPtrOf s c = Some ap"
proof -
  from assms obtain w where w: "wrapperAt s c = Some w"
    by (auto simp: simW_def separated_def)
  from assms w obtain ac where ac: "CommonPtr w = Some ac" "docAt s ac = Some cm"
    by (cases "CommonPtr w") (auto simp: simW_def readWrapper_def readDoc_def commonPtrOf_def)
  from assms w obtain ap where ap: "ProxyPtr w = Some ap" "docAt s ap = Some px"
    by (cases "ProxyPtr w") (auto simp: simW_def readWrapper_def readDoc_def proxyPtrOf_def)
  have "w = \<lparr>CommonPtr = Some ac, ProxyPtr = Some ap\<rparr>" using ac(1) ap(1) by (cases w) simp
  moreover have "ac \<noteq> ap" "ac < nextAddr s" "ap < nextAddr s"
    using assms w ac ap by (auto simp: simW_def separated_def livePtr_def commonPtrOf_def proxyPtrOf_def)
  ultimately show ?thesis
    using w ac ap by (simp add: sim2_def commonPtrOf_def proxyPtrOf_def)
qed

lemma resW_entry2:
  assumes cn: "copyOrNew p s = (c, s1)" and s1: "simW c s1 X"
    and rest: "\<And>ac ap s' cm px. sim2 c ac ap s' cm px \<Longrightarrow>
                 resW c (g c s' (Some ac) (Some ap)) (h cm px)"
  shows "resW c
     (Let (copyOrNew p s) (case_prod (\<lambda>config s. Let (ensureCommon config s) (\<lambda>s.
        Let (ensureProxy config s) (\<lambda>s. Let (commonPtrOf s config) (\<lambda>common.
          Let (proxyPtrOf s config) (\<lambda>proxy. g config s common proxy)))))))
     (Let X (\<lambda>config.
        Let (case Common config of None \<Rightarrow> NewTiFlashCommonConfig | Some c \<Rightarrow> c) (\<lambda>common.
          Let (case Proxy config of None \<Rightarrow> NewTiFlashProxyConfig | Some p \<Rightarrow> p) (\<lambda>proxy.
            h common proxy))))"
proof -
  define cm where "cm = (case Common X of None \<Rightarrow> NewTiFlashCommonConfig | Some c \<Rightarrow> c)"
  define px where "px = (case Proxy X of None \<Rightarrow> NewTiFlashProxyConfig | Some p \<Rightarrow> p)"
  define s2 where "s2 = ensureProxy c (ensureCommon c s1)"
  have "simW c s2 \<lparr>Common = Some cm, Proxy = Some px\<rparr>"
    using simW_ensureProxy [OF simW_ensureCommon [OF s1]]
    by (cases X) (auto simp: s2_def cm_def px_def split: option.splits)
  from simW_sim2 [OF this] obtain ac ap where
    a: "sim2 c ac ap s2 cm px" "commonPtrOf s2 c = Some ac" "proxyPtrOf s2 c = Some ap"
    by blast
  show ?thesis
    unfolding Let_def cn prod.case
    using rest [OF a(1)] a(2,3) by (simp add: s2_def cm_def px_def)
qed

lemma resW_LetC:
  "sim2 c ac ap A X px \<Longrightarrow>
     (\<And>s' cm'. sim2 c ac ap s' cm' px \<Longrightarrow> resW c (g s') (h cm')) \<Longrightarrow>
     resW c (Let A g) (Let X h)"
  by simp

lemma resW_LetP:
  "sim2 c ac ap A cm X \<Longrightarrow>
     (\<And>s' px'. sim2 c ac ap s' cm px' \<Longrightarrow> resW c (g s') (h px')) \<Longrightarrow>
     resW c (Let A g) (Let X h)"
  by simp

lemma sim2_storage_step:
  assumes "sim2 c ac ap s cm px"
  shows "sim2 c ac ap
     (if GetS s (Some ac) k1 = None \<and> GetS s (Some ac) k2 = None then
        (let paths = P; paths = Q paths in mutate (Some ac) (Set_key k3 (V paths)) s)
      else s)
     (if Get cm k1 = None \<and> Get cm k2 = None then
        (let paths = P; paths = Q paths in Set_key k3 (V paths) cm)
      else cm) px"
  using assms sim2_common [OF assms] by (simp add: sim2_GetS [OF assms] Let_def)

lemma sim2_raft_step:
  assumes "sim2 c ac ap s cm px"
  shows "sim2 c ac ap
     (if GetS s (Some ac) k1 = None then mutate (Some ac) f s else s)
     (if Get cm k1 = None then f cm else cm) px"
  using assms sim2_common [OF assms] by (simp add: sim2_GetS [OF assms])

lemma sim2_listen_step:
  assumes "sim2 c ac ap s cm px"
  shows "sim2 c ac ap
     (if b then (let s = mutate (Some ac) f s; s = mutate (Some ac) g s in s) else s)
     (if b then (let common = f cm; common = g common in common) else cm) px"
  using assms sim2_common [OF sim2_common [OF assms]] by (simp add: Let_def)

lemma resW_cn2:
  assumes "sim2 c ac ap s cm px"
    and "\<And>s' px'. sim2 c ac ap s' cm px' \<Longrightarrow> resW c (g s') (h px')"
  shows "resW c
     (Let (GetS s (Some ac) k1) (\<lambda>commonVal. Let (GetS s (Some ap) k2) (\<lambda>proxyVal.
        Let (case commonVal of
               Some v \<Rightarrow> (if proxyVal = None then mutate (Some ap) (Set_key k3 v) s else s)
             | None \<Rightarrow> s) g)))
     (Let (Get cm k1) (\<lambda>commonVal. Let (Get px k2) (\<lambda>proxyVal.
        Let (case commonVal of
               Some v \<Rightarrow> (if proxyVal = None then Set_key k3 v px else px)
             | None \<Rightarrow> px) h)))"
proof -
  have "sim2 c ac ap
     (case Get cm k1 of
        Some v \<Rightarrow> (if Get px k2 = None then mutate (Some ap) (Set_key k3 v) s else s)
      | None \<Rightarrow> s) cm
     (case Get cm k1 of
        Some v \<Rightarrow> (if Get px k2 = None then Set_key k3 v px else px)
      | None \<Rightarrow> px)"
    using assms(1) sim2_proxy [OF assms(1)] by (cases "Get cm k1") simp_all
  from assms(2) [OF this] show ?thesis
    unfolding Let_def sim2_GetS [OF assms(1)] .
qed

lemma resW_final2:
  "sim2 c ac ap s cm px \<Longrightarrow> resW c (c, s) \<lparr>Common = Some cm, Proxy = Some px\<rparr>"
  by (simp add: resW_def sim2_simW)

lemma getTiFlashConfigV2S_sim:
  assumes al: "allocatedConfig s p" and cfg: "Config (TiFlash (Spec tc)) = readConfig s p"
  shows "resW (fst (copyOrNew p s)) (getTiFlashConfigV2S d tc p s) (getTiFlashConfigV2 d tc)"
proof -
  obtain c s1 where cn: "copyOrNew p s = (c, s1)" by (cases "copyOrNew p s")
  have s1: "simW c s1 (case DeepCopy (Config (TiFlash (Spec tc))) of
                         None \<Rightarrow> NewTiFlashConfig | Some c \<Rightarrow> c)"
    using copyOrNew_read [OF al cn] by (simp add: simW_def cfg DeepCopy_def)
  have "resW c (getTiFlashConfigV2S d tc p s) (getTiFlashConfigV2 d tc)"
    unfolding getTiFlashConfigV2S_def getTiFlashConfigV2_def
    apply (rule resW_entry2 [OF cn s1])
    apply (intro resW_Let_value refl allI)
    apply (rule resW_LetC, erule sim2_storage_step)
    apply (rule resW_LetC, erule sim2_raft_step)
    apply (rule resW_LetC, erule sim2_common)
    apply (rule resW_LetC, erule sim2_common)
    apply (rule resW_LetC, erule sim2_common)
    apply (intro resW_Let_value refl allI)
    apply (rule resW_LetC, erule sim2_common)
    apply (rule resW_LetC, erule sim2_common)
    apply (rule resW_LetC, erule sim2_common)
    apply (rule resW_LetC, erule sim2_common)
    apply (rule resW_LetC, erule sim2_common)
    apply (rule resW_LetC, erule sim2_common)
    apply (rule resW_LetC, erule sim2_common)
    apply (rule resW_LetC, erule sim2_common)
    apply (rule resW_LetC, erule sim2_common)
    apply (intro resW_Let_value refl allI)
    apply (rule resW_LetC, erule sim2_common)
    apply (rule resW_LetC, erule sim2_listen_step)
    apply (rule resW_LetP, erule sim2_proxy)
    apply (rule resW_LetP, erule sim2_proxy)
    apply (rule resW_LetP, erule sim2_proxy)
    apply (rule resW_LetP, erule sim2_proxy)
    apply (rule resW_if)
     apply (rule resW_LetC, erule sim2_common)
     apply (rule resW_LetC, erule sim2_common)
     apply (rule resW_LetC, erule sim2_common)
     apply (rule resW_LetC, erule sim2_common)
     apply (rule resW_LetC, erule sim2_common)
     apply (rule resW_LetC, erule sim2_common)
     apply (rule resW_LetC, erule sim2_common)
     apply (rule resW_LetP, erule sim2_proxy)
     apply (rule resW_LetP, erule sim2_proxy)
     apply (rule resW_LetP, erule sim2_proxy)
     apply (erule resW_cn2)
     apply (erule resW_final2)
    apply (erule resW_final2)
    done
  then show ?thesis by (simp add: cn)
qed

lemma buildTiFlashSidecarContainersS_sim:
  assumes al: "allocatedConfig s p" and cfg: "Config (TiFlash (Spec tc)) = readConfig s p"
  shows "fst (buildTiFlashSidecarContainersS d tc p s) = buildTiFlashSidecarContainers d tc"
proof -
  obtain c s1 where cn: "copyOrNew p s = (c, s1)" by (cases "copyOrNew p s")
  define cfg0 where "cfg0 = (case Config (TiFlash (Spec tc)) of
                         None \<Rightarrow> NewTiFlashConfig | Some c \<Rightarrow> c)"
  have s1: "simW c s1 cfg0"
    using copyOrNew_read [OF al cn] by (simp add: simW_def cfg cfg0_def)
  note s2 = simW_setTiFlashLogConfigDefaultS [OF s1]
  show ?thesis
    unfolding buildTiFlashSidecarContainersS_def buildTiFlashSidecarContainers_def Let_def
      cn prod.case DeepCopy_def simW_GetS(1) [OF s2] cfg0_def
    by (simp split: sum.splits)
qed

lemma getTiFlashConfigS_refines:
  assumes "allocatedConfig s p" and "Config (TiFlash (Spec tc)) = readConfig s p"
  shows "readWrapper (snd (getTiFlashConfigS d tc p s)) (fst (getTiFlashConfigS d tc p s)) =
           getTiFlashConfig d tc"
  using getTiFlashConfigS_sim [OF assms, of d] by (simp add: resW_def simW_def)

lemma getTiFlashConfigV2S_refines:
  assumes "allocatedConfig s p" and "Config (TiFlash (Spec tc)) = readConfig s p"
  shows "readWrapper (snd (getTiFlashConfigV2S d tc p s)) (fst (getTiFlashConfigV2S d tc p s)) =
           getTiFlashConfigV2 d tc"
  using getTiFlashConfigV2S_sim [OF assms, of d] by (simp add: resW_def simW_def)

lemma store_refines_example:
  "allocatedConfig exampleStore (Some 0) \<and>
   Config (TiFlash (Spec tlsClusterWithTcpPort)) = readConfig exampleStore (Some 0) \<and>
   readWrapper (snd (getTiFlashConfigV2S exampleDeps tlsClusterWithTcpPort (Some 0) exampleStore))
       (fst (getTiFlashConfigV2S exampleDeps tlsClusterWithTcpPort (Some 0) exampleStore)) =
     getTiFlashConfigV2 exampleDeps tlsClusterWithTcpPort \<and>
   fst (buildTiFlashSidecarContainersS exampleDeps tlsClusterWithTcpPort (Some 0) exampleStore) =
     buildTiFlashSidecarContainers exampleDeps tlsClusterWithTcpPort"
proof -
  have a: "allocatedConfig exampleStore (Some 0)"
    by (simp add: allocatedConfig_def allocatedPtr_def exampleStore_def)
  have b: "Config (TiFlash (Spec tlsClusterWithTcpPort)) = readConfig exampleStore (Some 0)"
    by (simp add: tlsClusterWithTcpPort_def withConfig_def readConfig_def readWrapper_def
        readDoc_def commonPtrOf_def proxyPtrOf_def exampleStore_def)
  show ?thesis
    using a b getTiFlashConfigV2S_refines [OF a b] buildTiFlashSidecarContainersS_sim [OF a b]
    by simp
qed

section \<open>The claims\<close>

text \<open>
  Claim C4. In the legacy dialect, for every partial input: with TLS enabled the engine
  document holds \<^verbatim>\<open>tcp_port_secure\<close> and \<^verbatim>\<open>https_port\<close> and neither \<^verbatim>\<open>tcp_port\<close> nor
  \<^verbatim>\<open>http_port\<close>; with TLS disabled it holds \<^verbatim>\<open>tcp_port\<close> and \<^verbatim>\<open>http_port\<close> and neither
  of the secure ports.
\<close>

theorem legacy_port_families_disjoint:
  "(if IsTLSClusterEnabled tc then
      Get (commonOf (getTiFlashConfig d tc)) ''tcp_port_secure'' \<noteq> None \<and>
      Get (commonOf (getTiFlashConfig d tc)) ''https_port'' \<noteq> None \<and>
      Get (commonOf (getTiFlashConfig d tc)) ''tcp_port'' = None \<and>
      Get (commonOf (getTiFlashConfig d tc)) ''http_port'' = None
    else
      Get (commonOf (getTiFlashConfig d tc)) ''tcp_port'' \<noteq> None \<and>
      Get (commonOf (getTiFlashConfig d tc)) ''http_port'' \<noteq> None \<and>
      Get (commonOf (getTiFlashConfig d tc)) ''tcp_port_secure'' = None \<and>
      Get (commonOf (getTiFlashConfig d tc)) ''https_port'' = None)"
  by (simp add: Get_def legacy_common_overlay overlay_at applyDefaults_at legacyOverride_def
      tlsCommonOverride_def legacyTable_ports split: option.splits)

text \<open>
  Claim C1. Synthesis is idempotent: the document that synthesis produces, fed back as
  the partial input of the same cluster (\<open>withConfig\<close>), is synthesized to itself. This
  holds for the legacy dialect, for the current dialect and for \<^verbatim>\<open>GetTiFlashConfig\<close>,
  and for every cluster, so for both TLS postures.
\<close>

theorem synthesis_idempotent:
  "getTiFlashConfig d (withConfig tc (getTiFlashConfig d tc)) = getTiFlashConfig d tc \<and>
   getTiFlashConfigV2 d (withConfig tc (getTiFlashConfigV2 d tc)) = getTiFlashConfigV2 d tc \<and>
   GetTiFlashConfig d (withConfig tc (GetTiFlashConfig d tc)) = GetTiFlashConfig d tc"
proof (intro conjI)
  show "getTiFlashConfig d (withConfig tc (getTiFlashConfig d tc)) = getTiFlashConfig d tc"
    by (rule legacy_idempotent)
  show "getTiFlashConfigV2 d (withConfig tc (getTiFlashConfigV2 d tc)) = getTiFlashConfigV2 d tc"
    by (rule v2_idempotent)
  show "GetTiFlashConfig d (withConfig tc (GetTiFlashConfig d tc)) = GetTiFlashConfig d tc"
  proof (cases "tiflashEqualOrGreaterThanV540_Check (TiFlashVersion tc)")
    case (Inl err)
    then show ?thesis
      by (simp add: GetTiFlashConfig_def withConfig_sel legacy_idempotent)
  next
    case (Inr ok)
    then show ?thesis
      by (cases ok) (simp_all add: GetTiFlashConfig_def withConfig_sel legacy_idempotent v2_idempotent)
  qed
qed

text \<open>
  Claim C3. \<^verbatim>\<open>GetTiFlashConfig\<close> runs the current dialect exactly when the version string
  is a semantic version, with or without pre-release and build identifiers, that is at
  least 5.4.0, and the legacy dialect otherwise, also when the string is no semantic
  version; no input makes it fail. Version \<^verbatim>\<open>5.4.0\<close> selects the current dialect and so
  does the pre-release \<^verbatim>\<open>v6.0.0-alpha\<close>; \<^verbatim>\<open>5.3.9\<close> and \<^verbatim>\<open>latest\<close>, which is no semantic
  version, select the legacy one.
\<close>

theorem dialect_selected_by_version:
  "GetTiFlashConfig d tc =
     (if \<exists>v. isSemanticVersion (TiFlashVersion tc) v \<and> versionGreaterOrEqual v (5, 4, 0)
      then getTiFlashConfigV2 d tc else getTiFlashConfig d tc) \<and>
   GetTiFlashConfig d (tc\<lparr>TiFlashVersion := ''5.4.0''\<rparr>) =
     getTiFlashConfigV2 d (tc\<lparr>TiFlashVersion := ''5.4.0''\<rparr>) \<and>
   GetTiFlashConfig d (tc\<lparr>TiFlashVersion := ''v6.0.0-alpha''\<rparr>) =
     getTiFlashConfigV2 d (tc\<lparr>TiFlashVersion := ''v6.0.0-alpha''\<rparr>) \<and>
   GetTiFlashConfig d (tc\<lparr>TiFlashVersion := ''5.3.9''\<rparr>) =
     getTiFlashConfig d (tc\<lparr>TiFlashVersion := ''5.3.9''\<rparr>) \<and>
   (\<forall>v. \<not> isSemanticVersion ''latest'' v) \<and>
   GetTiFlashConfig d (tc\<lparr>TiFlashVersion := ''latest''\<rparr>) =
     getTiFlashConfig d (tc\<lparr>TiFlashVersion := ''latest''\<rparr>)"
proof -
  have run: "GetTiFlashConfig d tc' =
     (case NewVersion (TiFlashVersion tc') of
        Some v \<Rightarrow> (if versionGreaterOrEqual v (5, 4, 0) then getTiFlashConfigV2 d tc'
                   else getTiFlashConfig d tc')
      | None \<Rightarrow> getTiFlashConfig d tc')" for tc'
    by (simp add: GetTiFlashConfig_def tiflashEqualOrGreaterThanV540_Check_def split: option.splits)
  have general: "GetTiFlashConfig d tc =
     (if \<exists>v. isSemanticVersion (TiFlashVersion tc) v \<and> versionGreaterOrEqual v (5, 4, 0)
      then getTiFlashConfigV2 d tc else getTiFlashConfig d tc)"
  proof (cases "NewVersion (TiFlashVersion tc)")
    case None
    then have "\<not> isSemanticVersion (TiFlashVersion tc) v" for v
      by (simp add: NewVersion_iff [symmetric])
    then show ?thesis using None by (simp add: run)
  next
    case (Some w)
    then have "isSemanticVersion (TiFlashVersion tc) v \<longleftrightarrow> v = w" for v
      by (auto simp: NewVersion_iff [symmetric])
    then show ?thesis using Some by (simp add: run)
  qed
  have latest: "\<not> isSemanticVersion ''latest'' v" for v
    by (simp add: NewVersion_iff [symmetric] NewVersion_examples)
  show ?thesis
    using general latest by (simp add: run NewVersion_examples)
qed

text \<open>
  Claim C2, as stated, fails: in the current dialect with TLS enabled a \<^verbatim>\<open>tcp_port\<close> that the
  caller set is deleted from the output.
\<close>

theorem override_preservation_counterexample:
  "inCommon tlsClusterWithTcpPort ''tcp_port'' = Some (VInt 9001) \<and>
   commonOf (GetTiFlashConfig exampleDeps tlsClusterWithTcpPort) ''tcp_port'' = None"
proof -
  have tls: "IsTLSClusterEnabled tlsClusterWithTcpPort"
    by (simp add: tlsClusterWithTcpPort_def withConfig_sel)
  have ver: "TiFlashVersion tlsClusterWithTcpPort = ''v5.4.0''"
    by (simp add: tlsClusterWithTcpPort_def withConfig_sel)
  have "GetTiFlashConfig exampleDeps tlsClusterWithTcpPort =
        getTiFlashConfigV2 exampleDeps tlsClusterWithTcpPort"
    by (simp add: GetTiFlashConfig_def ver v540_parses)
  moreover have "commonOf (getTiFlashConfigV2 exampleDeps tlsClusterWithTcpPort) ''tcp_port'' = None"
    by (simp add: v2_common_overlay overlay_at v2Override_def tls tlsCommonOverride_def)
  moreover have "inCommon tlsClusterWithTcpPort ''tcp_port'' = Some (VInt 9001)"
    by (simp add: tlsClusterWithTcpPort_def withConfig_derived commonOf_def)
  ultimately show ?thesis by simp
qed

text \<open>
  Claim C2, amended. A key that the partial input defines keeps exactly the caller's
  value in the output, for every cluster and in both dialects, unless it is one of the
  keys the TLS step rewrites: with TLS enabled the plaintext ports \<^verbatim>\<open>tcp_port\<close> and
  \<^verbatim>\<open>http_port\<close> (deleted) and the three certificate paths of each document
  (overwritten); with TLS disabled, in the legacy dialect, \<^verbatim>\<open>tcp_port_secure\<close> and
  \<^verbatim>\<open>https_port\<close> (deleted).
\<close>

theorem override_preservation:
  "(inCommon tc k = Some v \<and> k \<notin> legacyRewritten tc \<longrightarrow>
      commonOf (getTiFlashConfig d tc) k = Some v) \<and>
   (inCommon tc k = Some v \<and> k \<notin> v2Rewritten tc \<longrightarrow>
      commonOf (getTiFlashConfigV2 d tc) k = Some v) \<and>
   (inProxy tc kp = Some vp \<and> kp \<notin> proxyRewritten tc \<longrightarrow>
      proxyOf (getTiFlashConfig d tc) kp = Some vp \<and>
      proxyOf (getTiFlashConfigV2 d tc) kp = Some vp)"
  by (simp add: legacy_common_overlay v2_common_overlay legacy_proxy_overlay v2_proxy_overlay
      overlay_at applyDefaults_at legacy_override_None v2_override_None proxy_override_None)

theorem override_preservation_witness:
  "inCommon tlsClusterWithOverrides ''tcp_port_secure'' = Some (VInt 9443) \<and>
   ''tcp_port_secure'' \<notin> legacyRewritten tlsClusterWithOverrides \<and>
   commonOf (getTiFlashConfig exampleDeps tlsClusterWithOverrides) ''tcp_port_secure'' = Some (VInt 9443) \<and>
   ''tcp_port_secure'' \<notin> v2Rewritten tlsClusterWithOverrides \<and>
   commonOf (getTiFlashConfigV2 exampleDeps tlsClusterWithOverrides) ''tcp_port_secure'' = Some (VInt 9443) \<and>
   inProxy tlsClusterWithOverrides ''log-level'' = Some (VString ''debug'') \<and>
   ''log-level'' \<notin> proxyRewritten tlsClusterWithOverrides \<and>
   proxyOf (getTiFlashConfig exampleDeps tlsClusterWithOverrides) ''log-level'' = Some (VString ''debug'') \<and>
   proxyOf (getTiFlashConfigV2 exampleDeps tlsClusterWithOverrides) ''log-level'' = Some (VString ''debug'')"
  using override_preservation [where tc = tlsClusterWithOverrides and d = exampleDeps
      and k = "''tcp_port_secure''" and v = "VInt 9443"
      and kp = "''log-level''" and vp = "VString ''debug''"]
  by (simp add: tlsClusterWithOverrides_def withConfig_derived withConfig_sel commonOf_def proxyOf_def
      legacyRewritten_def v2Rewritten_def proxyRewritten_def)




text \<open>
  Claim C6. For an empty partial engine document: with no declared storage volume the
  legacy \<^verbatim>\<open>path\<close> is \<^verbatim>\<open>/data0/db\<close> and the current \<^verbatim>\<open>storage.main.dir\<close> is the list of
  that one path; with three volumes the legacy \<^verbatim>\<open>path\<close> joins the three data paths with
  commas and \<^verbatim>\<open>storage.main.dir\<close> lists them. The current dialect writes
  \<^verbatim>\<open>storage.main.dir\<close> only when neither it nor \<^verbatim>\<open>path\<close> is in the input; otherwise the
  key stays as the input has it.
\<close>

theorem storage_path_defaults:
  "(inCommon tc0 = Map.empty \<and> StorageClaims (TiFlash (Spec tc0)) = [] \<longrightarrow>
      commonOf (getTiFlashConfig d tc0) ''path'' = Some (VString ''/data0/db'') \<and>
      commonOf (getTiFlashConfigV2 d tc0) ''storage.main.dir'' = Some (VStrings [''/data0/db''])) \<and>
   (inCommon tc3 = Map.empty \<and> length (StorageClaims (TiFlash (Spec tc3))) = 3 \<longrightarrow>
      commonOf (getTiFlashConfig d tc3) ''path'' = Some (VString ''/data0/db,/data1/db,/data2/db'') \<and>
      commonOf (getTiFlashConfigV2 d tc3) ''storage.main.dir'' =
        Some (VStrings [''/data0/db'', ''/data1/db'', ''/data2/db''])) \<and>
   commonOf (getTiFlashConfigV2 d tc) ''storage.main.dir'' =
     (if inCommon tc ''path'' = None \<and> inCommon tc ''storage.main.dir'' = None
      then Some (VStrings
             (if length (storagePaths 0 (StorageClaims (TiFlash (Spec tc)))) = 0 then [''/data0/db'']
              else storagePaths 0 (StorageClaims (TiFlash (Spec tc)))))
      else inCommon tc ''storage.main.dir'')"
proof (intro conjI impI)
  assume "inCommon tc0 = Map.empty \<and> StorageClaims (TiFlash (Spec tc0)) = []"
  then show "commonOf (getTiFlashConfig d tc0) ''path'' = Some (VString ''/data0/db'')"
    and "commonOf (getTiFlashConfigV2 d tc0) ''storage.main.dir'' = Some (VStrings [''/data0/db''])"
    by (simp_all add: legacy_common_overlay v2_common_overlay overlay_at applyDefaults_at
        override_storage legacyTable_path v2FullTable_main_dir v2Paths_def)
next
  assume a: "inCommon tc3 = Map.empty \<and> length (StorageClaims (TiFlash (Spec tc3))) = 3"
  then have paths: "storagePaths 0 (StorageClaims (TiFlash (Spec tc3))) =
      [''/data0/db'', ''/data1/db'', ''/data2/db'']"
    by (simp add: storagePaths_three)
  from a show "commonOf (getTiFlashConfig d tc3) ''path'' = Some (VString ''/data0/db,/data1/db,/data2/db'')"
    and "commonOf (getTiFlashConfigV2 d tc3) ''storage.main.dir'' =
        Some (VStrings [''/data0/db'', ''/data1/db'', ''/data2/db''])"
    by (simp_all add: legacy_common_overlay v2_common_overlay overlay_at applyDefaults_at
        override_storage legacyTable_path v2FullTable_main_dir v2Paths_def paths)
next
  show "commonOf (getTiFlashConfigV2 d tc) ''storage.main.dir'' =
     (if inCommon tc ''path'' = None \<and> inCommon tc ''storage.main.dir'' = None
      then Some (VStrings
             (if length (storagePaths 0 (StorageClaims (TiFlash (Spec tc)))) = 0 then [''/data0/db'']
              else storagePaths 0 (StorageClaims (TiFlash (Spec tc)))))
      else inCommon tc ''storage.main.dir'')"
    by (simp add: v2_common_overlay overlay_at applyDefaults_at override_storage
        v2FullTable_main_dir v2Paths_def split: option.splits)
qed

theorem storage_path_defaults_witness:
  "inCommon exampleCluster = Map.empty \<and> StorageClaims (TiFlash (Spec exampleCluster)) = [] \<and>
   commonOf (getTiFlashConfig exampleDeps exampleCluster) ''path'' = Some (VString ''/data0/db'') \<and>
   commonOf (getTiFlashConfigV2 exampleDeps exampleCluster) ''storage.main.dir'' =
     Some (VStrings [''/data0/db'']) \<and>
   inCommon threeVolumeCluster = Map.empty \<and>
   length (StorageClaims (TiFlash (Spec threeVolumeCluster))) = 3 \<and>
   commonOf (getTiFlashConfig exampleDeps threeVolumeCluster) ''path'' =
     Some (VString ''/data0/db,/data1/db,/data2/db'') \<and>
   commonOf (getTiFlashConfigV2 exampleDeps threeVolumeCluster) ''storage.main.dir'' =
     Some (VStrings [''/data0/db'', ''/data1/db'', ''/data2/db'']) \<and>
   inCommon migratedCluster ''path'' = Some (VString ''/data0/db'') \<and>
   commonOf (getTiFlashConfigV2 exampleDeps migratedCluster) ''storage.main.dir'' = None"
  using storage_path_defaults [of exampleCluster exampleDeps threeVolumeCluster migratedCluster]
  by (simp add: exampleCluster_def threeVolumeCluster_def migratedCluster_def inCommon_def withConfig_def)

text \<open>
  Claim C7. Only the legacy dialect deletes the secure ports when TLS is disabled. In the
  current dialect with TLS disabled no key of the input is deleted: \<^verbatim>\<open>tcp_port_secure\<close>
  and \<^verbatim>\<open>https_port\<close> are in the output exactly as in the input, next to the plaintext
  ports \<^verbatim>\<open>tcp_port\<close> and \<^verbatim>\<open>http_port\<close>, and every key the input defines keeps its value.
\<close>

theorem current_dialect_keeps_secure_ports:
  assumes "\<not> IsTLSClusterEnabled tc"
  shows "commonOf (getTiFlashConfigV2 d tc) ''tcp_port_secure'' = inCommon tc ''tcp_port_secure'' \<and>
         commonOf (getTiFlashConfigV2 d tc) ''https_port'' = inCommon tc ''https_port'' \<and>
         commonOf (getTiFlashConfigV2 d tc) ''tcp_port'' \<noteq> None \<and>
         commonOf (getTiFlashConfigV2 d tc) ''http_port'' \<noteq> None \<and>
         (inCommon tc k \<noteq> None \<longrightarrow> commonOf (getTiFlashConfigV2 d tc) k = inCommon tc k)"
  using assms
  by (auto simp: v2_common_overlay overlay_at applyDefaults_at v2Override_def v2FullTable_ports
      split: option.splits)

theorem current_dialect_keeps_secure_ports_witness:
  "\<not> IsTLSClusterEnabled plainClusterWithSecurePorts \<and>
   inCommon plainClusterWithSecurePorts ''tcp_port_secure'' = Some (VInt 9443) \<and>
   commonOf (getTiFlashConfigV2 exampleDeps plainClusterWithSecurePorts) ''tcp_port_secure'' =
     Some (VInt 9443) \<and>
   commonOf (getTiFlashConfigV2 exampleDeps plainClusterWithSecurePorts) ''https_port'' =
     Some (VInt 8443) \<and>
   commonOf (getTiFlashConfigV2 exampleDeps plainClusterWithSecurePorts) ''tcp_port'' \<noteq> None \<and>
   commonOf (getTiFlashConfigV2 exampleDeps plainClusterWithSecurePorts) ''http_port'' \<noteq> None"
  using current_dialect_keeps_secure_ports
    [of plainClusterWithSecurePorts exampleDeps "''tcp_port_secure''"]
  by (simp add: plainClusterWithSecurePorts_def exampleCluster_def withConfig_sel withConfig_derived
      commonOf_def)

text \<open>
  Claim C10. For a partial input without \<^verbatim>\<open>listen_host\<close> and \<^verbatim>\<open>status.metrics_port\<close>:
  the current dialect writes the two keys only when IPv6 is preferred (\<^verbatim>\<open>::\<close> and 8234)
  and leaves both out otherwise; the legacy dialect always writes both, \<^verbatim>\<open>listen_host\<close>
  as \<^verbatim>\<open>0.0.0.0\<close> under IPv4 and \<^verbatim>\<open>::\<close> under IPv6, and \<^verbatim>\<open>status.metrics_port\<close> as 8234.
\<close>

theorem listen_host_only_for_ipv6_in_current_dialect:
  assumes "inCommon tc ''listen_host'' = None" and "inCommon tc ''status.metrics_port'' = None"
  shows "commonOf (getTiFlashConfigV2 d tc) ''listen_host'' =
           (if PreferIPv6 (Spec tc) then Some (VString ''::'') else None) \<and>
         commonOf (getTiFlashConfigV2 d tc) ''status.metrics_port'' =
           (if PreferIPv6 (Spec tc) then Some (VInt 8234) else None) \<and>
         commonOf (getTiFlashConfig d tc) ''listen_host'' =
           Some (VString (if PreferIPv6 (Spec tc) then ''::'' else ''0.0.0.0'')) \<and>
         commonOf (getTiFlashConfig d tc) ''status.metrics_port'' = Some (VInt 8234)"
  using assms
  by (simp add: v2_common_overlay legacy_common_overlay overlay_at applyDefaults_at override_listen
      v2FullTable_listen legacyTable_listen)

theorem listen_host_only_for_ipv6_in_current_dialect_witness:
  "inCommon exampleCluster ''listen_host'' = None \<and>
   inCommon exampleCluster ''status.metrics_port'' = None \<and>
   \<not> PreferIPv6 (Spec exampleCluster) \<and>
   commonOf (getTiFlashConfigV2 exampleDeps exampleCluster) ''listen_host'' = None \<and>
   commonOf (getTiFlashConfigV2 exampleDeps exampleCluster) ''status.metrics_port'' = None \<and>
   commonOf (getTiFlashConfig exampleDeps exampleCluster) ''listen_host'' = Some (VString ''0.0.0.0'') \<and>
   commonOf (getTiFlashConfig exampleDeps exampleCluster) ''status.metrics_port'' = Some (VInt 8234)"
  using listen_host_only_for_ipv6_in_current_dialect [of exampleCluster exampleDeps]
  by (simp add: exampleCluster_def inCommon_def)

text \<open>
  Claim C9. \<^verbatim>\<open>GetTiFlashConfig\<close> returns a document pair for every input: it has no
  error result, and an absent document or sub-document is default-constructed, so both
  documents of the result are present. \<^verbatim>\<open>buildTiFlashSidecarContainers\<close> returns an error
  exactly when one of the keys \<^verbatim>\<open>logger.log\<close>, \<^verbatim>\<open>logger.errorlog\<close> and
  \<^verbatim>\<open>flash.flash_cluster.log\<close> of the input holds a value that is not a string, and the
  error is then the type mismatch of the string read.
\<close>

theorem only_error_is_type_mismatch:
  "Common (GetTiFlashConfig d tc) \<noteq> None \<and> Proxy (GetTiFlashConfig d tc) \<noteq> None \<and>
   isl (buildTiFlashSidecarContainers d tc) =
     (holdsNonString (inCommon tc ''logger.log'') \<or>
      holdsNonString (inCommon tc ''logger.errorlog'') \<or>
      holdsNonString (inCommon tc ''flash.flash_cluster.log'')) \<and>
   (case buildTiFlashSidecarContainers d tc of Inl err \<Rightarrow> err = TypeMismatch | Inr cs \<Rightarrow> length cs = 3)"
proof -
  have present: "Common (GetTiFlashConfig d tc) \<noteq> None \<and> Proxy (GetTiFlashConfig d tc) \<noteq> None"
    using legacy_both_present [of d tc] v2_both_present [of d tc]
    by (auto simp: GetTiFlashConfig_def split: sum.splits)
  have build: "buildTiFlashSidecarContainers d tc =
     (case AsString (Get (applyDefaults logDefaults (inCommon tc)) ''logger.log'') of
        Inl err \<Rightarrow> Inl err
      | Inr p1 \<Rightarrow>
         (case AsString (Get (applyDefaults logDefaults (inCommon tc)) ''logger.errorlog'') of
            Inl err \<Rightarrow> Inl err
          | Inr p2 \<Rightarrow>
             (case AsString (Get (applyDefaults logDefaults (inCommon tc)) ''flash.flash_cluster.log'') of
                Inl err \<Rightarrow> Inl err
              | Inr p3 \<Rightarrow>
                 Inr [buildSidecarContainer ''serverlog'' p1 (HelperImage tc) (HelperImagePullPolicy tc)
                        (case LogTailer (TiFlash (Spec tc)) of
                           Some lt \<Rightarrow> ContainerResource d (LogTailerResources lt)
                         | None \<Rightarrow> \<lparr>Limits = [], Requests = []\<rparr>),
                      buildSidecarContainer ''errorlog'' p2 (HelperImage tc) (HelperImagePullPolicy tc)
                        (case LogTailer (TiFlash (Spec tc)) of
                           Some lt \<Rightarrow> ContainerResource d (LogTailerResources lt)
                         | None \<Rightarrow> \<lparr>Limits = [], Requests = []\<rparr>),
                      buildSidecarContainer ''clusterlog'' p3 (HelperImage tc) (HelperImagePullPolicy tc)
                        (case LogTailer (TiFlash (Spec tc)) of
                           Some lt \<Rightarrow> ContainerResource d (LogTailerResources lt)
                         | None \<Rightarrow> \<lparr>Limits = [], Requests = []\<rparr>)])))"
    unfolding buildTiFlashSidecarContainers_def Let_def logDefault_common GetAt_def
    by (simp split: sum.splits)
  define r1 where "r1 = AsString (Get (applyDefaults logDefaults (inCommon tc)) ''logger.log'')"
  define r2 where "r2 = AsString (Get (applyDefaults logDefaults (inCommon tc)) ''logger.errorlog'')"
  define r3 where "r3 = AsString (Get (applyDefaults logDefaults (inCommon tc)) ''flash.flash_cluster.log'')"
  have s1: "isl r1 = holdsNonString (inCommon tc ''logger.log'')"
      "\<And>e. r1 = Inl e \<Longrightarrow> e = TypeMismatch"
    unfolding r1_def using log_read_shape [OF logDefaults_at(1)] by blast+
  have s2: "isl r2 = holdsNonString (inCommon tc ''logger.errorlog'')"
      "\<And>e. r2 = Inl e \<Longrightarrow> e = TypeMismatch"
    unfolding r2_def using log_read_shape [OF logDefaults_at(2)] by blast+
  have s3: "isl r3 = holdsNonString (inCommon tc ''flash.flash_cluster.log'')"
      "\<And>e. r3 = Inl e \<Longrightarrow> e = TypeMismatch"
    unfolding r3_def using log_read_shape [OF logDefaults_at(3)] by blast+
  have sidecar: "isl (buildTiFlashSidecarContainers d tc) =
     (holdsNonString (inCommon tc ''logger.log'') \<or>
      holdsNonString (inCommon tc ''logger.errorlog'') \<or>
      holdsNonString (inCommon tc ''flash.flash_cluster.log'')) \<and>
   (case buildTiFlashSidecarContainers d tc of Inl err \<Rightarrow> err = TypeMismatch | Inr cs \<Rightarrow> length cs = 3)"
    unfolding build r1_def [symmetric] r2_def [symmetric] r3_def [symmetric]
    using s1 s2 s3 by (cases r1; cases r2; cases r3) auto
  show ?thesis using present sidecar by simp
qed

text \<open>
  Claim C8. Each entry point works on a deep copy of the caller's configuration: every
  object that the store held before the call (an address below \<open>nextAddr\<close>), so the
  wrapper and the documents of the caller's spec, is the same after the call, for
  \<^verbatim>\<open>getTiFlashConfig\<close>, \<^verbatim>\<open>getTiFlashConfigV2\<close> and \<^verbatim>\<open>buildTiFlashSidecarContainers\<close>; and the
  wrapper the two synthesizers return, with both of its document pointers, lies at
  addresses allocated during the call, so it shares no object with the caller's.
\<close>

theorem callers_config_untouched:
  assumes "a < nextAddr s"
  shows "docAt (snd (getTiFlashConfigS d tc cfgPtr s)) a = docAt s a \<and>
         wrapperAt (snd (getTiFlashConfigS d tc cfgPtr s)) a = wrapperAt s a \<and>
         docAt (snd (getTiFlashConfigV2S d tc cfgPtr s)) a = docAt s a \<and>
         wrapperAt (snd (getTiFlashConfigV2S d tc cfgPtr s)) a = wrapperAt s a \<and>
         docAt (snd (buildTiFlashSidecarContainersS d tc cfgPtr s)) a = docAt s a \<and>
         wrapperAt (snd (buildTiFlashSidecarContainersS d tc cfgPtr s)) a = wrapperAt s a \<and>
         freshWrapper (nextAddr s) (snd (getTiFlashConfigS d tc cfgPtr s))
           (fst (getTiFlashConfigS d tc cfgPtr s)) \<and>
         freshWrapper (nextAddr s) (snd (getTiFlashConfigV2S d tc cfgPtr s))
           (fst (getTiFlashConfigV2S d tc cfgPtr s))"
  using assms getTiFlashConfigS_inv [of s d tc cfgPtr] getTiFlashConfigV2S_inv [of s d tc cfgPtr]
    buildTiFlashSidecarContainersS_frame [of s d tc cfgPtr]
  by (simp add: inv_def frame_def)

theorem callers_config_untouched_witness:
  "(1::nat) < nextAddr exampleStore \<and>
   docAt (snd (getTiFlashConfigS exampleDeps exampleCluster (Some 0) exampleStore)) 1 =
     Some [''tcp_port'' \<mapsto> VInt 9001] \<and>
   wrapperAt (snd (getTiFlashConfigS exampleDeps exampleCluster (Some 0) exampleStore)) 0 =
     Some \<lparr>CommonPtr = Some 1, ProxyPtr = None\<rparr> \<and>
   docAt (snd (getTiFlashConfigV2S exampleDeps exampleCluster (Some 0) exampleStore)) 1 =
     Some [''tcp_port'' \<mapsto> VInt 9001] \<and>
   docAt (snd (buildTiFlashSidecarContainersS exampleDeps exampleCluster (Some 0) exampleStore)) 1 =
     Some [''tcp_port'' \<mapsto> VInt 9001] \<and>
   2 \<le> fst (getTiFlashConfigS exampleDeps exampleCluster (Some 0) exampleStore) \<and>
   2 \<le> fst (getTiFlashConfigV2S exampleDeps exampleCluster (Some 0) exampleStore)"
  using callers_config_untouched [of 1 exampleStore exampleDeps exampleCluster "Some 0"]
    callers_config_untouched [of 0 exampleStore exampleDeps exampleCluster "Some 0"]
  by (simp add: exampleStore_def freshWrapper_def)

end
